theory Spec2Isabelle
  imports Complex_Main "HOL-Library.Word"
begin

unbundle bit_operations_syntax

section \<open>Constants of NesPlayer.jsx\<close>

definition W :: nat where
  "W = 256"

definition H :: nat where
  "H = 240"

text \<open>\<^verbatim>\<open>const USE_ABGR = true\<close>: the static channel-order flag of the video sink.\<close>

definition USE_ABGR :: bool where
  "USE_ABGR = True"

definition SAVE_VERSION :: nat where
  "SAVE_VERSION = 1"

definition LS_PREFIX :: string where
  "LS_PREFIX = ''retro-arcade-web:nes''"

section \<open>Strings and numbers as JavaScript renders them\<close>

text \<open>
  A JavaScript string is modelled as a \<^typ>\<open>string\<close>, one \<^typ>\<open>char\<close> per code unit. The ROM
  string \<^verbatim>\<open>bin\<close> is built with \<^verbatim>\<open>String.fromCharCode(bytes[i])\<close> from bytes, so its code
  units are exactly the values 0..255 that a \<^typ>\<open>char\<close> holds.
\<close>

definition digit_char :: "nat \<Rightarrow> char" where
  "digit_char d = ''0123456789abcdef'' ! d"

text \<open>\<^verbatim>\<open>n.toString(radix)\<close> for a non-negative integer and a radix from 2 to 16.\<close>

fun toString :: "nat \<Rightarrow> nat \<Rightarrow> string" where
  "toString radix n =
     (if radix < 2 \<or> n < radix then [digit_char n]
      else toString radix (n div radix) @ [digit_char (n mod radix)])"

declare toString.simps [simp del]

definition lower_char :: "char \<Rightarrow> char" where
  "lower_char c =
     (let n = (of_char c :: nat) in if 65 \<le> n \<and> n \<le> 90 then char_of (n + 32) else c)"

definition toLowerCase :: "string \<Rightarrow> string" where
  "toLowerCase s = map lower_char s"

definition endsWith :: "string \<Rightarrow> string \<Rightarrow> bool" where
  "endsWith s suffix =
     (length suffix \<le> length s \<and> drop (length s - length suffix) s = suffix)"

text \<open>The characters outside ASCII that the status messages use, in UTF-8.\<close>

definition ellipsis :: string where
  "ellipsis = [char_of (0xE2 :: nat), char_of (0x80 :: nat), char_of (0xA6 :: nat)]"

definition ldquo :: string where
  "ldquo = [char_of (0xE2 :: nat), char_of (0x80 :: nat), char_of (0x9C :: nat)]"

definition rdquo :: string where
  "rdquo = [char_of (0xE2 :: nat), char_of (0x80 :: nat), char_of (0x9D :: nat)]"

section \<open>djb2Hash\<close>

text \<open>
  \<^verbatim>\<open>let h = 5381; for (...) h = ((h << 5) + h) ^ str.charCodeAt(i); return (h >>> 0).toString(16)\<close>.
  After every iteration \<^verbatim>\<open>h\<close> is the result of \<^verbatim>\<open>^\<close>, a 32-bit integer: \<^verbatim>\<open>h << 5\<close> wraps to
  32 bits, the sum of two 32-bit integers is exact in a double, and \<^verbatim>\<open>^\<close> reduces it modulo
  \<open>2^32\<close> again. So the loop is addition and exclusive-or on \<^typ>\<open>32 word\<close>, and \<^verbatim>\<open>h >>> 0\<close>
  reads the word as unsigned.
\<close>

fun djb2_loop :: "32 word \<Rightarrow> string \<Rightarrow> 32 word" where
  "djb2_loop h [] = h"
| "djb2_loop h (c # cs) = djb2_loop ((push_bit 5 h + h) XOR of_nat (of_char c)) cs"

definition djb2Hash :: "string \<Rightarrow> string" where
  "djb2Hash str = toString 16 (unat (djb2_loop 5381 str))"

section \<open>Video sink: onFrame\<close>

text \<open>
  A value stored into the \<^verbatim>\<open>Uint8ClampedArray\<close> of an \<^verbatim>\<open>ImageData\<close>: the right-hand sides are
  results of \<^verbatim>\<open>&\<close>, signed 32-bit integers, clamped to 0..255.
\<close>

definition toUint8Clamped :: "32 word \<Rightarrow> 8 word" where
  "toUint8Clamped v = (if sint v < 0 then 0 else if 255 < sint v then 255 else ucast v)"

text \<open>
  The loop \<^verbatim>\<open>for (let i = 0; i < frameBuffer.length; i++)\<close> of \<^verbatim>\<open>onFrame\<close>, on the pixel data of
  the image. \<^verbatim>\<open>>>\<close> is the arithmetic shift of a signed 32-bit integer. A store beyond the end
  of a typed array is ignored, which is what \<^term>\<open>list_update\<close> does out of range.
\<close>

function onFrame_loop :: "bool \<Rightarrow> 32 word list \<Rightarrow> nat \<Rightarrow> 8 word list \<Rightarrow> 8 word list" where
  "onFrame_loop abgr frameBuffer i data =
     (if i < length frameBuffer then
        (let p = frameBuffer ! i;
             idx = i * 4;
             data1 =
               (if abgr then
                  data[idx + 0 := toUint8Clamped (p AND 0xff),
                       idx + 1 := toUint8Clamped (signed_drop_bit 8 p AND 0xff),
                       idx + 2 := toUint8Clamped (signed_drop_bit 16 p AND 0xff)]
                else
                  data[idx + 0 := toUint8Clamped (signed_drop_bit 16 p AND 0xff),
                       idx + 1 := toUint8Clamped (signed_drop_bit 8 p AND 0xff),
                       idx + 2 := toUint8Clamped (p AND 0xff)])
         in onFrame_loop abgr frameBuffer (i + 1) (data1[idx + 3 := 0xff]))
      else data)"
  by pat_completeness auto
termination
  by (relation "measure (\<lambda>(abgr, frameBuffer, i, data). length frameBuffer - i)") auto

declare onFrame_loop.simps [simp del]

text \<open>
  \<^verbatim>\<open>onFrame(frameBuffer)\<close>: nothing happens without a canvas (\<^verbatim>\<open>canvasRef.current\<close> null);
  otherwise the image data of the canvas is read, rewritten by the loop and put back.
\<close>

definition onFrame :: "32 word list \<Rightarrow> 8 word list option \<Rightarrow> 8 word list option" where
  "onFrame frameBuffer canvas =
     (case canvas of
        None \<Rightarrow> None
      | Some data \<Rightarrow> Some (onFrame_loop USE_ABGR frameBuffer 0 data))"

text \<open>
  One iteration of the loop of \<^verbatim>\<open>onFrame\<close> with the clamping and the arithmetic shifts
  resolved: the four bytes of pixel \<open>i\<close>. The proofs show that the loop body is this.
\<close>

definition put_pixel :: "bool \<Rightarrow> 32 word \<Rightarrow> nat \<Rightarrow> 8 word list \<Rightarrow> 8 word list" where
  "put_pixel abgr p i data =
     data[4 * i := (if abgr then ucast p else ucast (drop_bit 16 p)),
          4 * i + 1 := ucast (drop_bit 8 p),
          4 * i + 2 := (if abgr then ucast (drop_bit 16 p) else ucast p),
          4 * i + 3 := 0xff]"

definition channel :: "bool \<Rightarrow> 32 word \<Rightarrow> nat \<Rightarrow> 8 word" where
  "channel abgr p c =
     (if c = 0 then (if abgr then ucast p else ucast (drop_bit 16 p))
      else if c = 1 then ucast (drop_bit 8 p)
      else if c = 2 then (if abgr then ucast (drop_bit 16 p) else ucast p)
      else 0xff)"

section \<open>Audio sample queue\<close>

text \<open>
  \<^verbatim>\<open>onAudioSample(l, r)\<close>: \<^verbatim>\<open>q.push(l, r)\<close>, then \<^verbatim>\<open>q.splice(0, q.length - max)\<close> when the queue
  is longer than \<^verbatim>\<open>max = 44100 * 2\<close>. Samples are opaque values here.
\<close>

definition onAudioSample :: "'a \<Rightarrow> 'a \<Rightarrow> 'a list \<Rightarrow> 'a list" where
  "onAudioSample l r q =
     (let q1 = q @ [l, r];
          max = 44100 * 2
      in if length q1 > max then drop (length q1 - max) q1 else q1)"

text \<open>
  \<^verbatim>\<open>node.onaudioprocess\<close>: for each of the \<open>n\<close> output frames two samples are shifted off the
  queue when it holds at least two, and silence is written otherwise. The result is the
  queue left over and the two output channels.
\<close>

fun onaudioprocess :: "nat \<Rightarrow> 'a::zero list \<Rightarrow> 'a list \<times> 'a list \<times> 'a list" where
  "onaudioprocess 0 q = (q, [], [])"
| "onaudioprocess (Suc n) q =
     (case q of
        l # r # q' \<Rightarrow>
          (case onaudioprocess n q' of (q'', outL, outR) \<Rightarrow> (q'', l # outL, r # outR))
      | _ \<Rightarrow>
          (case onaudioprocess n q of (q'', outL, outR) \<Rightarrow> (q'', 0 # outL, 0 # outR)))"

text \<open>The operations the component performs on the queue; \<open>Clear\<close> is \<^verbatim>\<open>audioQRef.current = []\<close>.\<close>

datatype 'a queue_op = Enqueue 'a 'a | Pull nat | Clear

fun queue_step :: "'a::zero queue_op \<Rightarrow> 'a list \<Rightarrow> 'a list" where
  "queue_step (Enqueue l r) q = onAudioSample l r q"
| "queue_step (Pull n) q = fst (onaudioprocess n q)"
| "queue_step Clear q = []"

text \<open>The queue after a sequence of operations, and the queues seen after each of them.\<close>

fun queue_run :: "'a::zero queue_op list \<Rightarrow> 'a list \<Rightarrow> 'a list" where
  "queue_run [] q = q"
| "queue_run (x # xs) q = queue_run xs (queue_step x q)"

fun queue_trace :: "'a::zero queue_op list \<Rightarrow> 'a list \<Rightarrow> 'a list list" where
  "queue_trace [] q = []"
| "queue_trace (x # xs) q = queue_step x q # queue_trace xs (queue_step x q)"

section \<open>JSON values\<close>

text \<open>
  What \<^verbatim>\<open>JSON.parse\<close> returns and \<^verbatim>\<open>JSON.stringify\<close> takes. An engine snapshot travels
  through both, so it is a JSON value too.
\<close>

datatype json =
  JNull | JBool bool | JNum int | JStr string | JArr "json list" | JObj "(string \<times> json) list"

text \<open>JavaScript truthiness, for \<^verbatim>\<open>!x\<close> and \<^verbatim>\<open>x || y\<close>; \<open>None\<close> is \<^verbatim>\<open>undefined\<close>.\<close>

fun truthy :: "json option \<Rightarrow> bool" where
  "truthy None = False"
| "truthy (Some JNull) = False"
| "truthy (Some (JBool b)) = b"
| "truthy (Some (JNum n)) = (n \<noteq> 0)"
| "truthy (Some (JStr s)) = (s \<noteq> [])"
| "truthy (Some (JArr xs)) = True"
| "truthy (Some (JObj kvs)) = True"

text \<open>The optional-chained property read \<^verbatim>\<open>v?.k\<close> for the keys the component reads.\<close>

fun get_prop :: "string \<Rightarrow> json option \<Rightarrow> json option" where
  "get_prop k (Some (JObj kvs)) = map_of kvs k"
| "get_prop k v = None"

text \<open>\<^verbatim>\<open>v || null\<close>, and the value that passes the test \<^verbatim>\<open>!v\<close>: a falsy value is dropped.\<close>

definition falsy_to_None :: "json option \<Rightarrow> json option" where
  "falsy_to_None v = (if truthy v then v else None)"

text \<open>Truthiness of a ref that holds \<^verbatim>\<open>null\<close> or a string.\<close>

fun truthy_str :: "string option \<Rightarrow> bool" where
  "truthy_str None = False"
| "truthy_str (Some s) = (s \<noteq> [])"

section \<open>The emulation engine (jsnes) and the browser, as parameters\<close>

text \<open>
  A call either returns or throws; a thrown value is represented by the text
  \<^verbatim>\<open>String(e?.message || e)\<close> that the component reports.
\<close>

datatype 'a outcome = Returns 'a | Throws string

text \<open>
  What \<^verbatim>\<open>nes.frame()\<close> calls back, in order. Audio samples are numbers that the component
  only stores and hands on; they are taken as reals, with 0 for silence.
\<close>

datatype callback = OnFrame "32 word list" | OnAudioSample real real

datatype button =
  BUTTON_A | BUTTON_B | BUTTON_SELECT | BUTTON_START
| BUTTON_UP | BUTTON_DOWN | BUTTON_LEFT | BUTTON_RIGHT

text \<open>
  A mutating engine method yields the engine state it leaves behind and the value it threw,
  if any. A controller object has the methods \<^verbatim>\<open>buttonDown\<close> and \<^verbatim>\<open>buttonUp\<close>; calling a
  method it lacks throws.
\<close>

record 'e controller =
  buttonDown :: "button \<Rightarrow> 'e \<Rightarrow> 'e \<times> string option"
  buttonUp :: "button \<Rightarrow> 'e \<Rightarrow> 'e \<times> string option"

text \<open>
  A build of jsnes over engine states \<open>'e\<close>. \<open>NES\<close> is the instance that
  \<^verbatim>\<open>new jsnes.NES({onFrame, onAudioSample})\<close> constructs. The optional fields are the method
  shapes a build may or may not have (\<^verbatim>\<open>typeof n.toJSON === "function"\<close>, \<^verbatim>\<open>n.controllers?.[0]\<close>,
  \<^verbatim>\<open>n.controller1\<close>). The export methods read the engine without changing it.
\<close>

record 'e jsnes =
  NES :: 'e
  loadROM :: "string option \<Rightarrow> 'e \<Rightarrow> 'e \<times> string option"
  frame :: "'e \<Rightarrow> 'e \<times> callback list \<times> string option"
  toJSON :: "('e \<Rightarrow> json outcome) option"
  serialize :: "('e \<Rightarrow> json outcome) option"
  saveState :: "('e \<Rightarrow> json outcome) option"
  getState :: "('e \<Rightarrow> json outcome) option"
  fromJSON :: "(json \<Rightarrow> 'e \<Rightarrow> 'e \<times> string option) option"
  deserialize :: "(json \<Rightarrow> 'e \<Rightarrow> 'e \<times> string option) option"
  loadState :: "(json \<Rightarrow> 'e \<Rightarrow> 'e \<times> string option) option"
  setState :: "(json \<Rightarrow> 'e \<Rightarrow> 'e \<times> string option) option"
  controllers_0 :: "'e controller option"
  controller1 :: "'e controller option"
  nes_buttonDown :: "(nat \<Rightarrow> button \<Rightarrow> 'e \<Rightarrow> 'e \<times> string option) option"
  nes_buttonUp :: "(nat \<Rightarrow> button \<Rightarrow> 'e \<Rightarrow> 'e \<times> string option) option"

text \<open>
  The state of a Web Audio context, as \<^verbatim>\<open>ctx.state\<close> reports it.
\<close>

datatype audio_context = Suspended | Active | Closed

text \<open>
  The browser at the moment of a call: the JSON codec, whether \<^verbatim>\<open>localStorage.setItem\<close> throws
  (quota), the clock, the rendering of a date, and the handle \<^verbatim>\<open>requestAnimationFrame\<close>
  returns. For audio: \<open>AudioContext\<close> is \<open>None\<close> when neither \<^verbatim>\<open>window.AudioContext\<close> nor
  \<^verbatim>\<open>window.webkitAudioContext\<close> exists, and otherwise what \<^verbatim>\<open>new AudioContext()\<close> does (the
  context it returns, or what it throws); \<open>createScriptProcessor\<close> is what creating and
  connecting the processor node throws, if anything; \<open>resume\<close> is what \<^verbatim>\<open>ctx.resume?.()\<close> does
  to a context (nothing where the method is absent).
\<close>

record platform =
  JSON_parse :: "string \<Rightarrow> json outcome"
  JSON_stringify :: "json \<Rightarrow> string"
  setItem_throws :: "(string \<rightharpoonup> string) \<Rightarrow> string \<Rightarrow> string \<Rightarrow> string option"
  nowIso :: string
  Date_now :: int
  toLocaleString :: "json \<Rightarrow> string"
  AudioContext :: "audio_context outcome option"
  createScriptProcessor :: "string option"
  resume :: "audio_context \<Rightarrow> audio_context"
  requestAnimationFrame :: nat

section \<open>The state of the NesPlayer component\<close>

text \<open>A chosen file: its name and the bytes \<^verbatim>\<open>file.arrayBuffer()\<close> resolves to.\<close>

record rom_file =
  name :: string
  bytes :: "8 word list"

text \<open>
  The refs and the React state of \<^verbatim>\<open>NesPlayer\<close>, and the origin's \<^verbatim>\<open>localStorage\<close>.
  \<open>canvasRef\<close> holds the pixel data of the canvas (\<open>None\<close>: no canvas mounted);
  \<open>audioCtxRef\<close> holds the state of the audio context, the node is kept as its existence.
  React state is read at its current value. Two fields are state of the page that the
  component acts on: \<open>surfaceFocused\<close>, whether the play surface (\<^verbatim>\<open>surfaceRef\<close>) is the
  focused element, and \<open>pending\<close>, the calls of \<^verbatim>\<open>loadRom\<close> that wait at
  \<^verbatim>\<open>await file.arrayBuffer()\<close>, each with the file it was called with.
\<close>

record 'e session =
  canvasRef :: "8 word list option"
  rafRef :: "nat option"
  runningRef :: bool
  nesRef :: "'e option"
  romBinRef :: "string option"
  romNameRef :: string
  romKeyRef :: "string option"
  audioCtxRef :: "audio_context option"
  audioNodeRef :: bool
  audioQRef :: "real list"
  autosaveTimerRef :: bool
  status :: string
  loadedName :: string
  hasSave :: bool
  lastSavedAt :: "json option"
  localStorage :: "string \<rightharpoonup> string"
  surfaceFocused :: bool
  pending :: "rom_file list"

subsection \<open>Audio and frames\<close>

text \<open>
  \<^verbatim>\<open>ensureAudio\<close> has no \<^verbatim>\<open>try\<close>: the session it leaves and the value thrown, if any. An
  existing context is resumed. Otherwise the context is stored as soon as it is constructed,
  before the processor node is created.
\<close>

definition ensureAudio :: "platform \<Rightarrow> 'e session \<Rightarrow> 'e session \<times> string option" where
  "ensureAudio env s =
     (case audioCtxRef s of
        Some ctx \<Rightarrow> (s\<lparr>audioCtxRef := Some (resume env ctx)\<rparr>, None)
      | None \<Rightarrow>
          (case AudioContext env of
             None \<Rightarrow> (s\<lparr>status := ''AudioContext not supported in this browser.''\<rparr>, None)
           | Some (Throws m) \<Rightarrow> (s, Some m)
           | Some (Returns ctx) \<Rightarrow>
               (case createScriptProcessor env of
                  Some m \<Rightarrow> (s\<lparr>audioCtxRef := Some ctx\<rparr>, Some m)
                | None \<Rightarrow> (s\<lparr>audioCtxRef := Some ctx, audioNodeRef := True\<rparr>, None))))"

text \<open>The audio device's callback, registered by \<^verbatim>\<open>ensureAudio\<close>, for \<open>n\<close> output frames.\<close>

definition audioprocess :: "nat \<Rightarrow> 'e session \<Rightarrow> 'e session" where
  "audioprocess n s =
     (if audioNodeRef s then s\<lparr>audioQRef := fst (onaudioprocess n (audioQRef s))\<rparr> else s)"

text \<open>The callbacks \<^verbatim>\<open>createNES\<close> binds act on the refs of the component.\<close>

fun handle :: "callback \<Rightarrow> 'e session \<Rightarrow> 'e session" where
  "handle (OnFrame frameBuffer) s = s\<lparr>canvasRef := onFrame frameBuffer (canvasRef s)\<rparr>"
| "handle (OnAudioSample l r) s = s\<lparr>audioQRef := onAudioSample l r (audioQRef s)\<rparr>"

text \<open>
  What a list of callbacks does to the canvas and to the queue, each taken alone: the
  proofs show that handling the callbacks of a frame changes the session in these two
  refs only.
\<close>

fun paint :: "callback list \<Rightarrow> 8 word list option \<Rightarrow> 8 word list option" where
  "paint [] canvas = canvas"
| "paint (OnFrame frameBuffer # cbs) canvas = paint cbs (onFrame frameBuffer canvas)"
| "paint (OnAudioSample l r # cbs) canvas = paint cbs canvas"

fun enqueue :: "callback list \<Rightarrow> real list \<Rightarrow> real list" where
  "enqueue [] q = q"
| "enqueue (OnFrame frameBuffer # cbs) q = enqueue cbs q"
| "enqueue (OnAudioSample l r # cbs) q = enqueue cbs (onAudioSample l r q)"

text \<open>Whether a frame's callbacks hand the video sink a buffer of \<open>W \<times> H\<close> pixels.\<close>

fun has_full_frame :: "callback list \<Rightarrow> bool" where
  "has_full_frame [] = False"
| "has_full_frame (OnFrame frameBuffer # cbs) = (length frameBuffer = W * H \<or> has_full_frame cbs)"
| "has_full_frame (OnAudioSample l r # cbs) = has_full_frame cbs"

text \<open>\<^verbatim>\<open>nesRef.current?.frame()\<close>: the session after the call and the value thrown, if any.\<close>

definition call_frame :: "'e jsnes \<Rightarrow> 'e session \<Rightarrow> 'e session \<times> string option" where
  "call_frame b s =
     (case nesRef s of
        None \<Rightarrow> (s, None)
      | Some n \<Rightarrow>
          (case frame b n of
             (n', cbs, thrown) \<Rightarrow> ((fold handle cbs s)\<lparr>nesRef := Some n'\<rparr>, thrown)))"

text \<open>\<^verbatim>\<open>drawOneFrame\<close> swallows what the frame throws.\<close>

definition drawOneFrame :: "'e jsnes \<Rightarrow> 'e session \<Rightarrow> 'e session" where
  "drawOneFrame b s = fst (call_frame b s)"

text \<open>One tick of \<^verbatim>\<open>loop\<close>; an exception of the frame escapes and nothing is rescheduled.\<close>

definition loop :: "'e jsnes \<Rightarrow> platform \<Rightarrow> 'e session \<Rightarrow> 'e session \<times> string option" where
  "loop b env s =
     (if \<not> runningRef s then (s, None)
      else
        (case call_frame b s of
           (s', Some m) \<Rightarrow> (s', Some m)
         | (s', None) \<Rightarrow> (s'\<lparr>rafRef := Some (requestAnimationFrame env)\<rparr>, None)))"

definition stop :: "'e session \<Rightarrow> 'e session" where
  "stop s = s\<lparr>runningRef := False, rafRef := None\<rparr>"

text \<open>
  \<^verbatim>\<open>play\<close> first moves the focus to the play surface. An exception of \<^verbatim>\<open>ensureAudio\<close>
  leaves the handler before the run flag is read.
\<close>

definition play :: "platform \<Rightarrow> 'e session \<Rightarrow> 'e session \<times> string option" where
  "play env s =
     (let s0 = s\<lparr>surfaceFocused := True\<rparr>
      in if loadedName s0 = [] then (s0\<lparr>status := ''Load a ROM first.''\<rparr>, None)
         else
           (case ensureAudio env s0 of
              (s1, Some m) \<Rightarrow> (s1, Some m)
            | (s1, None) \<Rightarrow>
                (if runningRef s1 then (s1, None)
                 else
                   (s1\<lparr>runningRef := True,
                       status := ''Playing'' @ ellipsis @ '' (Press Enter = Start)'',
                       rafRef := Some (requestAnimationFrame env)\<rparr>,
                    None))))"

text \<open>
  \<^verbatim>\<open>reset\<close> has no \<^verbatim>\<open>try\<close>: when \<^verbatim>\<open>loadROM\<close> throws, the exception leaves the handler after the
  loop was stopped, the engine replaced and the queue cleared. The last step of a reset that
  gets through moves the focus to the play surface.
\<close>

definition reset :: "'e jsnes \<Rightarrow> 'e session \<Rightarrow> 'e session \<times> string option" where
  "reset b s =
     (if \<not> truthy_str (romBinRef s) then (s\<lparr>status := ''No ROM loaded to reset.''\<rparr>, None)
      else
        (let s1 = stop s;
             s2 = s1\<lparr>nesRef := Some (NES b), audioQRef := []\<rparr>
         in case loadROM b (romBinRef s2) (NES b) of
              (n, Some m) \<Rightarrow> (s2\<lparr>nesRef := Some n\<rparr>, Some m)
            | (n, None) \<Rightarrow>
                ((drawOneFrame b
                    (s2\<lparr>nesRef := Some n,
                        loadedName :=
                          (if romNameRef s2 \<noteq> [] then romNameRef s2 else loadedName s2),
                        status := ''Reset complete. Click Play to start fresh.''\<rparr>))
                 \<lparr>surfaceFocused := True\<rparr>,
                 None)))"

subsection \<open>Engine adapter\<close>

text \<open>\<^verbatim>\<open>exportState(nesInstance)\<close>: the first method that exists is called.\<close>

definition exportState :: "'e jsnes \<Rightarrow> 'e option \<Rightarrow> json outcome" where
  "exportState b nesInstance =
     (case nesInstance of
        None \<Rightarrow> Returns JNull
      | Some n \<Rightarrow>
          (case toJSON b of
             Some f \<Rightarrow> f n
           | None \<Rightarrow>
          (case serialize b of
             Some f \<Rightarrow> f n
           | None \<Rightarrow>
          (case saveState b of
             Some f \<Rightarrow> f n
           | None \<Rightarrow>
          (case getState b of
             Some f \<Rightarrow> f n
           | None \<Rightarrow> Throws ''This jsnes build does not expose a save-state API.'')))))"

text \<open>\<^verbatim>\<open>importState(nesInstance, state)\<close>: the instance afterwards and the value thrown.\<close>

definition importState :: "'e jsnes \<Rightarrow> 'e option \<Rightarrow> json \<Rightarrow> 'e option \<times> string option" where
  "importState b nesInstance state =
     (case nesInstance of
        None \<Rightarrow> (None, None)
      | Some n \<Rightarrow>
          (case fromJSON b of
             Some f \<Rightarrow> (case f state n of (n', thrown) \<Rightarrow> (Some n', thrown))
           | None \<Rightarrow>
          (case deserialize b of
             Some f \<Rightarrow> (case f state n of (n', thrown) \<Rightarrow> (Some n', thrown))
           | None \<Rightarrow>
          (case loadState b of
             Some f \<Rightarrow> (case f state n of (n', thrown) \<Rightarrow> (Some n', thrown))
           | None \<Rightarrow>
          (case setState b of
             Some f \<Rightarrow> (case f state n of (n', thrown) \<Rightarrow> (Some n', thrown))
           | None \<Rightarrow>
               (Some n, Some ''This jsnes build does not expose a load-state API.''))))))"

text \<open>\<^verbatim>\<open>buttonMap[key]\<close>; an unknown key gives \<^verbatim>\<open>undefined\<close>.\<close>

definition buttonMap :: "string \<Rightarrow> button option" where
  "buttonMap key =
     (if key = ''A'' then Some BUTTON_A
      else if key = ''B'' then Some BUTTON_B
      else if key = ''SELECT'' then Some BUTTON_SELECT
      else if key = ''START'' then Some BUTTON_START
      else if key = ''UP'' then Some BUTTON_UP
      else if key = ''DOWN'' then Some BUTTON_DOWN
      else if key = ''LEFT'' then Some BUTTON_LEFT
      else if key = ''RIGHT'' then Some BUTTON_RIGHT
      else None)"

text \<open>
  An attempt of \<^verbatim>\<open>press\<close> returns \<^verbatim>\<open>true\<close> or \<^verbatim>\<open>false\<close> or throws, and leaves an engine state.
\<close>

definition finish :: "'e \<times> string option \<Rightarrow> 'e \<times> bool outcome" where
  "finish r = (case r of (n', None) \<Rightarrow> (n', Returns True) | (n', Some m) \<Rightarrow> (n', Throws m))"

definition attempts :: "'e jsnes \<Rightarrow> bool \<Rightarrow> button \<Rightarrow> ('e \<Rightarrow> 'e \<times> bool outcome) list" where
  "attempts b isDown btn =
     [\<lambda>n. (case controllers_0 b of
              None \<Rightarrow> (n, Returns False)
            | Some c \<Rightarrow> finish (if isDown then buttonDown c btn n else buttonUp c btn n)),
      \<lambda>n. (case controller1 b of
              None \<Rightarrow> (n, Returns False)
            | Some c \<Rightarrow> finish (if isDown then buttonDown c btn n else buttonUp c btn n)),
      \<lambda>n. (case (nes_buttonDown b, nes_buttonUp b) of
              (Some down, Some up) \<Rightarrow> finish (if isDown then down 0 btn n else up 0 btn n)
            | _ \<Rightarrow> (n, Returns False)),
      \<lambda>n. (case (nes_buttonDown b, nes_buttonUp b) of
              (Some down, Some up) \<Rightarrow> finish (if isDown then down 1 btn n else up 1 btn n)
            | _ \<Rightarrow> (n, Returns False))]"

text \<open>
  \<^verbatim>\<open>for (const fn of attempts) { try { if (fn()) return; } catch { } }\<close>: the engine state
  after the loop.
\<close>

fun try_attempts :: "('e \<Rightarrow> 'e \<times> bool outcome) list \<Rightarrow> 'e \<Rightarrow> 'e" where
  "try_attempts [] n = n"
| "try_attempts (fn # fns) n =
     (case fn n of
        (n', Returns True) \<Rightarrow> n'
      | (n', Returns False) \<Rightarrow> try_attempts fns n'
      | (n', Throws m) \<Rightarrow> try_attempts fns n')"

text \<open>\<^verbatim>\<open>press(key, isDown)\<close> returns nothing and lets no exception out.\<close>

definition press :: "'e jsnes \<Rightarrow> string \<Rightarrow> bool \<Rightarrow> 'e session \<Rightarrow> 'e session" where
  "press b key isDown s =
     (case nesRef s of
        None \<Rightarrow> s
      | Some n \<Rightarrow>
          (case buttonMap key of
             None \<Rightarrow> s
           | Some btn \<Rightarrow> s\<lparr>nesRef := Some (try_attempts (attempts b isDown btn) n)\<rparr>))"

subsection \<open>Save-state manager\<close>

definition getSaveStorageKey :: "'e session \<Rightarrow> string option" where
  "getSaveStorageKey s =
     (case romKeyRef s of
        None \<Rightarrow> None
      | Some k \<Rightarrow>
          (if k = [] then None
           else Some (LS_PREFIX @ '':savestate:v'' @ toString 10 SAVE_VERSION @ '':'' @ k)))"

text \<open>\<^verbatim>\<open>localStorage.getItem(key)\<close> followed by the test \<^verbatim>\<open>!raw\<close>: \<open>None\<close> when it is falsy.\<close>

definition getItem_truthy :: "(string \<rightharpoonup> string) \<Rightarrow> string \<Rightarrow> string option" where
  "getItem_truthy store key = (if truthy_str (store key) then store key else None)"

definition refreshSaveIndicators :: "platform \<Rightarrow> 'e session \<Rightarrow> 'e session" where
  "refreshSaveIndicators env s =
     (case getSaveStorageKey s of
        None \<Rightarrow> s\<lparr>hasSave := False, lastSavedAt := None\<rparr>
      | Some key \<Rightarrow>
          (case getItem_truthy (localStorage s) key of
             None \<Rightarrow> s\<lparr>hasSave := False, lastSavedAt := None\<rparr>
           | Some raw \<Rightarrow>
               (case JSON_parse env raw of
                  Throws m \<Rightarrow> s\<lparr>hasSave := False, lastSavedAt := None\<rparr>
                | Returns parsed \<Rightarrow>
                    s\<lparr>hasSave := True,
                      lastSavedAt :=
                        falsy_to_None
                          (get_prop ''savedAt'' (get_prop ''meta'' (Some parsed)))\<rparr>)))"

text \<open>The envelope \<^verbatim>\<open>payload\<close> that \<^verbatim>\<open>saveStateToLocalStorage\<close> builds.\<close>

definition payload_of :: "platform \<Rightarrow> 'e session \<Rightarrow> json \<Rightarrow> json" where
  "payload_of env s state =
     JObj [(''meta'',
            JObj [(''version'', JNum (int SAVE_VERSION)),
                  (''romName'', JStr (if romNameRef s \<noteq> [] then romNameRef s else loadedName s)),
                  (''romKey'', (case romKeyRef s of None \<Rightarrow> JNull | Some k \<Rightarrow> JStr k)),
                  (''savedAt'', JStr (nowIso env))]),
           (''state'', state)]"

definition saveStateToLocalStorage ::
  "'e jsnes \<Rightarrow> platform \<Rightarrow> bool \<Rightarrow> 'e session \<Rightarrow> bool \<times> 'e session" where
  "saveStateToLocalStorage b env silent s =
     (case getSaveStorageKey s of
        None \<Rightarrow> (False, if \<not> silent then s\<lparr>status := ''Load a ROM before saving.''\<rparr> else s)
      | Some key \<Rightarrow>
          (case nesRef s of
             None \<Rightarrow> (False, s)
           | Some n \<Rightarrow>
               (case exportState b (Some n) of
                  Throws m \<Rightarrow>
                    (False, if \<not> silent then s\<lparr>status := ''Save failed: '' @ m\<rparr> else s)
                | Returns state \<Rightarrow>
                    (let payload = payload_of env s state;
                         text = JSON_stringify env payload
                     in case setItem_throws env (localStorage s) key text of
                          Some m \<Rightarrow>
                            (False,
                             if \<not> silent then s\<lparr>status := ''Save failed: '' @ m\<rparr> else s)
                        | None \<Rightarrow>
                            (let s1 = s\<lparr>localStorage := (localStorage s)(key \<mapsto> text),
                                       hasSave := True,
                                       lastSavedAt := Some (JStr (nowIso env))\<rparr>
                             in (True,
                                 if \<not> silent then
                                   s1\<lparr>status := ''Saved state (''
                                        @ toLocaleString env (JStr (nowIso env)) @ '')''\<rparr>
                                 else s1))))))"

definition loadStateFromLocalStorage :: "'e jsnes \<Rightarrow> platform \<Rightarrow> 'e session \<Rightarrow> 'e session" where
  "loadStateFromLocalStorage b env s =
     (case getSaveStorageKey s of
        None \<Rightarrow> s\<lparr>status := ''Load a ROM before loading a save.''\<rparr>
      | Some key \<Rightarrow>
          (case getItem_truthy (localStorage s) key of
             None \<Rightarrow> s\<lparr>status := ''No save state found for this ROM.''\<rparr>
           | Some raw \<Rightarrow>
               (case JSON_parse env raw of
                  Throws m \<Rightarrow> s\<lparr>status := ''Load failed: '' @ m\<rparr>
                | Returns payload \<Rightarrow>
                    (case falsy_to_None (get_prop ''state'' (Some payload)) of
                       None \<Rightarrow> s\<lparr>status := ''Save state data is invalid.''\<rparr>
                     | Some state \<Rightarrow>
                         (let s1 = stop s
                          in case loadROM b (romBinRef s1) (NES b) of
                               (fresh, Some m) \<Rightarrow> s1\<lparr>status := ''Load failed: '' @ m\<rparr>
                             | (fresh, None) \<Rightarrow>
                                 (case importState b (Some fresh) state of
                                    (fresh', Some m) \<Rightarrow> s1\<lparr>status := ''Load failed: '' @ m\<rparr>
                                  | (fresh', None) \<Rightarrow>
                                      (let savedAt =
                                             falsy_to_None
                                               (get_prop ''savedAt''
                                                  (get_prop ''meta'' (Some payload)));
                                           s2 = s1\<lparr>nesRef := fresh',
                                                   audioQRef := [],
                                                   status := ''Loaded save (''
                                                     @ toLocaleString env
                                                         (case savedAt of
                                                            Some d \<Rightarrow> d
                                                          | None \<Rightarrow> JNum (Date_now env))
                                                     @ '')''\<rparr>
                                       in (drawOneFrame b s2)\<lparr>surfaceFocused := True\<rparr>)))))))"

text \<open>\<^verbatim>\<open>localStorage.removeItem\<close> does not throw.\<close>

definition deleteStateFromLocalStorage :: "'e session \<Rightarrow> 'e session" where
  "deleteStateFromLocalStorage s =
     (case getSaveStorageKey s of
        None \<Rightarrow> s
      | Some key \<Rightarrow>
          s\<lparr>localStorage := (localStorage s)(key := None),
            hasSave := False,
            lastSavedAt := None,
            status := ''Deleted save state for this ROM.''\<rparr>)"

text \<open>The callback of the autosave timer, also run on \<^verbatim>\<open>beforeunload\<close>.\<close>

definition autosave :: "'e jsnes \<Rightarrow> platform \<Rightarrow> 'e session \<Rightarrow> 'e session" where
  "autosave b env s =
     (if truthy_str (romBinRef s) \<and> truthy_str (romKeyRef s) then
        snd (saveStateToLocalStorage b env True s)
      else s)"

subsection \<open>loadRom\<close>

text \<open>
  \<^verbatim>\<open>loadRom(file)\<close> is \<^verbatim>\<open>async\<close>. The call runs up to \<^verbatim>\<open>await file.arrayBuffer()\<close> and returns;
  what follows the \<^verbatim>\<open>await\<close> runs later, when the read has resolved, and other events of the
  component can come in between. \<open>loadRom_begin\<close> is the first part: a file that passes the
  test of its name joins \<open>pending\<close>. \<open>loadRom_continue\<close> is the part after the \<^verbatim>\<open>await\<close>, for
  the file of the call; \<^verbatim>\<open>bin\<close> has one code unit per byte. Blurring the active element and
  focusing the play surface leaves the surface focused.
\<close>

definition rom_key :: "string \<Rightarrow> string \<Rightarrow> string" where
  "rom_key file_name bin =
     file_name @ '':'' @ toString 10 (length bin) @ '':'' @ djb2Hash (take 20000 bin)"

definition loadRom_begin :: "rom_file option \<Rightarrow> 'e session \<Rightarrow> 'e session" where
  "loadRom_begin file s =
     (case file of
        None \<Rightarrow> s
      | Some f \<Rightarrow>
          (if \<not> endsWith (toLowerCase (name f)) ''.nes'' then
             s\<lparr>status := ''Please select a .nes ROM file.''\<rparr>
           else
             s\<lparr>status := ''Loading ROM'' @ ellipsis,
               loadedName := [],
               pending := pending s @ [f]\<rparr>))"

definition loadRom_continue :: "'e jsnes \<Rightarrow> platform \<Rightarrow> rom_file \<Rightarrow> 'e session \<Rightarrow> 'e session" where
  "loadRom_continue b env f s =
     (let bin = map (\<lambda>byte. char_of (unat byte)) (bytes f);
          s1 = s\<lparr>romBinRef := Some bin,
                 romNameRef := name f,
                 romKeyRef := Some (rom_key (name f) bin)\<rparr>
      in case loadROM b (Some bin) (NES b) of
           (n, Some m) \<Rightarrow>
             s1\<lparr>nesRef := Some n, status := ''Failed to load ROM: '' @ m\<rparr>
         | (n, None) \<Rightarrow>
             (let s2 = s1\<lparr>nesRef := Some n,
                         loadedName := name f,
                         status := ''Loaded. Click Play (audio starts on Play).'',
                         surfaceFocused := True,
                         audioQRef := [],
                         autosaveTimerRef := True\<rparr>;
                  s3 = refreshSaveIndicators env (drawOneFrame b (stop s2));
                  has = (case getSaveStorageKey s3 of
                           None \<Rightarrow> False
                         | Some key \<Rightarrow> truthy_str (localStorage s3 key))
              in if has then
                   s3\<lparr>status := ''Save found for this ROM. Click '' @ ldquo
                        @ ''Load Save'' @ rdquo @ '' to continue.''\<rparr>
                 else s3))"

text \<open>
  The read of the \<open>k\<close>-th waiting call resolves: the call leaves \<open>pending\<close> and its
  continuation runs. Reads may resolve in any order.
\<close>

definition file_read :: "'e jsnes \<Rightarrow> platform \<Rightarrow> nat \<Rightarrow> 'e session \<Rightarrow> 'e session" where
  "file_read b env k s =
     (if k < length (pending s) then
        loadRom_continue b env (pending s ! k)
          (s\<lparr>pending := take k (pending s) @ drop (Suc k) (pending s)\<rparr>)
      else s)"

text \<open>
  \<^verbatim>\<open>loadRom(file)\<close> when nothing comes between the call and its continuation: the call,
  then the read of the call just made.
\<close>

definition loadRom :: "'e jsnes \<Rightarrow> platform \<Rightarrow> rom_file option \<Rightarrow> 'e session \<Rightarrow> 'e session" where
  "loadRom b env file s = file_read b env (length (pending s)) (loadRom_begin file s)"

subsection \<open>Mounting, unmounting and the events of the component\<close>

text \<open>
  The state after the first render and the mount effect: a fresh engine, and a canvas of
  \<open>W \<times> H\<close> pixels filled by \<^verbatim>\<open>fillRect\<close> with opaque black.
\<close>

definition mounted :: "'e jsnes \<Rightarrow> (string \<rightharpoonup> string) \<Rightarrow> 'e session" where
  "mounted b store =
     \<lparr>canvasRef = Some (concat (replicate (W * H) [0, 0, 0, 0xff])),
      rafRef = None,
      runningRef = False,
      nesRef = Some (NES b),
      romBinRef = None,
      romNameRef = [],
      romKeyRef = None,
      audioCtxRef = None,
      audioNodeRef = False,
      audioQRef = [],
      autosaveTimerRef = False,
      status = ''Upload a .nes ROM to start.'',
      loadedName = [],
      hasSave = False,
      lastSavedAt = None,
      localStorage = store,
      surfaceFocused = False,
      pending = []\<rparr>"

definition unmount :: "'e session \<Rightarrow> 'e session" where
  "unmount s =
     (stop s)\<lparr>autosaveTimerRef := False,
              audioNodeRef := False,
              audioCtxRef := None,
              audioQRef := []\<rparr>"

text \<open>
  What can happen to a mounted component: the file input calls \<^verbatim>\<open>loadRom\<close> with the chosen
  file (\<open>LoadRom\<close>); the read of the \<open>k\<close>-th waiting call resolves (\<open>FileRead k\<close>); the
  buttons, the keys, a tick of the frame loop, the audio device asking for \<open>n\<close> frames, the
  autosave timer, unmounting. An exception that leaves a handler is lost to the component;
  the session is as the handler left it.
\<close>

datatype event =
  LoadRom "rom_file option" | FileRead nat
| Play | Pause | Reset | SaveState | LoadSave | DeleteSave
| Press string bool | Tick | AudioProcess nat | Autosave | Unmount

fun dispatch :: "'e jsnes \<Rightarrow> platform \<Rightarrow> event \<Rightarrow> 'e session \<Rightarrow> 'e session" where
  "dispatch b env (LoadRom file) s = loadRom_begin file s"
| "dispatch b env (FileRead k) s = file_read b env k s"
| "dispatch b env Play s = fst (play env s)"
| "dispatch b env Pause s = stop s"
| "dispatch b env Reset s = fst (reset b s)"
| "dispatch b env SaveState s = snd (saveStateToLocalStorage b env False s)"
| "dispatch b env LoadSave s = loadStateFromLocalStorage b env s"
| "dispatch b env DeleteSave s = deleteStateFromLocalStorage s"
| "dispatch b env (Press key isDown) s = press b key isDown s"
| "dispatch b env Tick s = fst (loop b env s)"
| "dispatch b env (AudioProcess n) s = audioprocess n s"
| "dispatch b env Autosave s = autosave b env s"
| "dispatch b env Unmount s = unmount s"

text \<open>A run of events, each in the browser state of its moment.\<close>

fun run :: "'e jsnes \<Rightarrow> (platform \<times> event) list \<Rightarrow> 'e session \<Rightarrow> 'e session" where
  "run b [] s = s"
| "run b ((env, ev) # evs) s = run b evs (dispatch b env ev s)"

text \<open>
  The frames that \<open>k\<close> successive calls of \<^verbatim>\<open>frame()\<close> hand to the callbacks, starting from
  an engine state: what the frame loop renders over \<open>k\<close> ticks.
\<close>

fun frames :: "'e jsnes \<Rightarrow> nat \<Rightarrow> 'e \<Rightarrow> callback list list" where
  "frames b 0 n = []"
| "frames b (Suc k) n = (case frame b n of (n', cbs, thrown) \<Rightarrow> cbs # frames b k n')"

section \<open>A small engine and browser, for concrete runs\<close>

text \<open>
  An engine whose state is the number of frames run since the ROM was loaded, the ROM and
  the buttons held. Each frame hands out one pair of audio samples and a full frame
  buffer filled with the frame number. It has the method shapes of the jsnes release the
  component is built against: \<^verbatim>\<open>toJSON\<close>, \<^verbatim>\<open>fromJSON\<close>, \<^verbatim>\<open>controllers\<close> and
  \<^verbatim>\<open>buttonDown\<close>/\<^verbatim>\<open>buttonUp\<close>.
\<close>

record counter_state =
  frame_no :: nat
  rom :: string
  held :: "(nat \<times> button) list"

definition counter_loadROM :: "string option \<Rightarrow> counter_state \<Rightarrow> counter_state \<times> string option" where
  "counter_loadROM data n =
     (case data of
        None \<Rightarrow> (n, Some ''Not a valid NES ROM.'')
      | Some bin \<Rightarrow>
          (if take 3 bin = ''NES'' then (n\<lparr>frame_no := 0, rom := bin\<rparr>, None)
           else (n, Some ''Not a valid NES ROM.'')))"

definition counter_frame :: "counter_state \<Rightarrow> counter_state \<times> callback list \<times> string option" where
  "counter_frame n =
     (n\<lparr>frame_no := Suc (frame_no n)\<rparr>,
      [OnAudioSample 0 0, OnFrame (replicate (W * H) (of_nat (frame_no n)))],
      None)"

definition counter_toJSON :: "counter_state \<Rightarrow> json outcome" where
  "counter_toJSON n = Returns (JObj [(''frame'', JNum (int (frame_no n)))])"

definition counter_fromJSON :: "json \<Rightarrow> counter_state \<Rightarrow> counter_state \<times> string option" where
  "counter_fromJSON state n =
     (case get_prop ''frame'' (Some state) of
        Some (JNum k) \<Rightarrow> (n\<lparr>frame_no := nat k\<rparr>, None)
      | _ \<Rightarrow> (n, Some ''Bad snapshot.''))"

definition counter_button :: "bool \<Rightarrow> nat \<Rightarrow> button \<Rightarrow> counter_state \<Rightarrow> counter_state \<times> string option" where
  "counter_button isDown player btn n =
     (if isDown then (n\<lparr>held := (player, btn) # removeAll (player, btn) (held n)\<rparr>, None)
      else (n\<lparr>held := removeAll (player, btn) (held n)\<rparr>, None))"

definition counter_nes :: "counter_state jsnes" where
  "counter_nes =
     \<lparr>NES = \<lparr>frame_no = 0, rom = [], held = []\<rparr>,
      loadROM = counter_loadROM,
      frame = counter_frame,
      toJSON = Some counter_toJSON,
      serialize = None,
      saveState = None,
      getState = None,
      fromJSON = Some counter_fromJSON,
      deserialize = None,
      loadState = None,
      setState = None,
      controllers_0 =
        Some \<lparr>buttonDown = counter_button True 0, buttonUp = counter_button False 0\<rparr>,
      controller1 = None,
      nes_buttonDown = Some (counter_button True),
      nes_buttonUp = Some (counter_button False)\<rparr>"

text \<open>A build with no method shape at all, and one whose \<^verbatim>\<open>toJSON\<close> throws.\<close>

definition bare_nes :: "counter_state jsnes" where
  "bare_nes =
     counter_nes\<lparr>toJSON := None, fromJSON := None, controllers_0 := None,
       nes_buttonDown := None, nes_buttonUp := None\<rparr>"

definition throwing_nes :: "counter_state jsnes" where
  "throwing_nes =
     counter_nes\<lparr>toJSON := Some (\<lambda>n. Throws ''toJSON failed''),
       serialize := Some counter_toJSON\<rparr>"

text \<open>
  A printer of JSON values (no escapes, which the values below do not need) and a browser
  whose \<^verbatim>\<open>JSON.parse\<close> reads back what the printer wrote for a given list of values and
  rejects every other text.
\<close>

definition quoted :: "string \<Rightarrow> string" where
  "quoted s = [char_of (0x22 :: nat)] @ s @ [char_of (0x22 :: nat)]"

fun commas :: "string list \<Rightarrow> string" where
  "commas [] = []"
| "commas [x] = x"
| "commas (x # y # zs) = x @ '','' @ commas (y # zs)"

fun show_json :: "json \<Rightarrow> string" where
  "show_json JNull = ''null''"
| "show_json (JBool b) = (if b then ''true'' else ''false'')"
| "show_json (JNum n) = (if n < 0 then ''-'' @ toString 10 (nat (- n)) else toString 10 (nat n))"
| "show_json (JStr s) = quoted s"
| "show_json (JArr xs) = ''['' @ commas (map show_json xs) @ '']''"
| "show_json (JObj kvs) =
     ''{'' @ commas (map (\<lambda>kv. quoted (fst kv) @ '':'' @ show_json (snd kv)) kvs) @ ''}''"

fun parse_among :: "json list \<Rightarrow> string \<Rightarrow> json outcome" where
  "parse_among [] raw = Throws ''Unexpected token''"
| "parse_among (v # vs) raw = (if show_json v = raw then Returns v else parse_among vs raw)"

definition browser :: "json list \<Rightarrow> platform" where
  "browser known =
     \<lparr>JSON_parse = parse_among known,
      JSON_stringify = show_json,
      setItem_throws = (\<lambda>store key text. None),
      nowIso = ''2024-05-01T12:00:00.000Z'',
      Date_now = 1714564800000,
      toLocaleString = show_json,
      AudioContext = Some (Returns Suspended),
      createScriptProcessor = None,
      resume = (\<lambda>ctx. if ctx = Suspended then Active else ctx),
      requestAnimationFrame = 1\<rparr>"

definition game_nes :: rom_file where
  "game_nes = \<lparr>name = ''game.nes'', bytes = [0x4E, 0x45, 0x53, 0x1A]\<rparr>"

text \<open>The session after mounting with an empty store and loading \<open>game_nes\<close>.\<close>

definition loaded_game :: "counter_state session" where
  "loaded_game =
     loadRom counter_nes (browser []) (Some game_nes) (mounted counter_nes Map.empty)"

text \<open>
  The storage key of \<open>game_nes\<close>, and an envelope whose \<^verbatim>\<open>meta.version\<close> is 2, above
  \<^verbatim>\<open>SAVE_VERSION\<close>, with a snapshot of frame 7.
\<close>

definition game_key :: string where
  "game_key = ''retro-arcade-web:nes:savestate:v1:game.nes:4:7c826827''"

definition future_save :: json where
  "future_save =
     JObj [(''meta'',
            JObj [(''version'', JNum 2),
                  (''romName'', JStr ''game.nes''),
                  (''romKey'', JStr ''game.nes:4:7c826827''),
                  (''savedAt'', JStr ''2031-01-01T00:00:00.000Z'')]),
           (''state'', JObj [(''frame'', JNum 7)])]"

text \<open>The session of \<open>loaded_game\<close> over a store that holds \<open>future_save\<close> under its key.\<close>

definition future_session :: "counter_state session" where
  "future_session = loaded_game\<lparr>localStorage := [game_key \<mapsto> show_json future_save]\<rparr>"

text \<open>The envelope that saving \<open>loaded_game\<close> writes in this browser.\<close>

definition game_save :: json where
  "game_save =
     JObj [(''meta'',
            JObj [(''version'', JNum 1),
                  (''romName'', JStr ''game.nes''),
                  (''romKey'', JStr ''game.nes:4:7c826827''),
                  (''savedAt'', JStr ''2024-05-01T12:00:00.000Z'')]),
           (''state'', JObj [(''frame'', JNum 1)])]"

text \<open>
  A controller object of the counter engine for player 0, and one whose methods are
  missing, so that calling them throws.
\<close>

definition pad :: "counter_state controller" where
  "pad = \<lparr>buttonDown = counter_button True 0, buttonUp = counter_button False 0\<rparr>"

definition broken_pad :: "counter_state controller" where
  "broken_pad =
     \<lparr>buttonDown = (\<lambda>btn n. (n, Some ''c.buttonDown is not a function'')),
      buttonUp = (\<lambda>btn n. (n, Some ''c.buttonUp is not a function''))\<rparr>"

text \<open>
  A controller object that registers the button and then throws, and a build whose
  \<^verbatim>\<open>buttonDown\<close>/\<^verbatim>\<open>buttonUp\<close> throw for player 0 and work for player 1, with no controller
  object.
\<close>

definition sticky_pad :: "counter_state controller" where
  "sticky_pad =
     \<lparr>buttonDown = (\<lambda>btn n. (fst (counter_button True 0 btn n), Some ''late failure'')),
      buttonUp = (\<lambda>btn n. (fst (counter_button False 0 btn n), Some ''late failure''))\<rparr>"

definition second_player_nes :: "counter_state jsnes" where
  "second_player_nes =
     counter_nes
       \<lparr>controllers_0 := None,
        nes_buttonDown :=
          Some (\<lambda>player btn n.
                  if player = 0 then (n, Some ''no controller for player 0'')
                  else counter_button True player btn n),
        nes_buttonUp :=
          Some (\<lambda>player btn n.
                  if player = 0 then (n, Some ''no controller for player 0'')
                  else counter_button False player btn n)\<rparr>"

text \<open>A browser without \<^verbatim>\<open>AudioContext\<close>, and \<open>loaded_game\<close> after Play was clicked in it.\<close>

definition quiet_browser :: platform where
  "quiet_browser = (browser [])\<lparr>AudioContext := None\<rparr>"

definition playing_game :: "counter_state session" where
  "playing_game = run counter_nes [(quiet_browser, Play)] loaded_game"

text \<open>
  A file that the counter engine rejects, and \<open>loaded_game\<close> after Play was clicked and
  that file was then chosen and read.
\<close>

definition bad_nes :: rom_file where
  "bad_nes = \<lparr>name = ''bad.nes'', bytes = [0x00, 0x01, 0x02]\<rparr>"

definition rejected_while_playing :: "counter_state session" where
  "rejected_while_playing =
     run counter_nes
       [(browser [], Play), (browser [], LoadRom (Some bad_nes)), (browser [], FileRead 0)]
       loaded_game"


text \<open>
  A freshly mounted component after \<open>game_nes\<close> was chosen and, before its read resolved,
  \<open>bad_nes\<close> was chosen; the two reads then resolved in the order of the choices.
\<close>

definition overlapped_loads :: "counter_state session" where
  "overlapped_loads =
     run counter_nes
       [(browser [], LoadRom (Some game_nes)), (browser [], LoadRom (Some bad_nes)),
        (browser [], FileRead 0), (browser [], FileRead 0)]
       (mounted counter_nes Map.empty)"

section \<open>Lemmas: the video sink\<close>

lemma ff_mask: "(0xff :: 32 word) = mask 8"
  by (simp add: mask_eq_exp_minus_1)

lemma sint_and_ff: "sint ((x::32 word) AND 0xff) = uint (x AND 0xff)"
  unfolding ff_mask
  by (rule bit_eqI) (auto simp add: bit_simps)

lemma and_ff_range: "0 \<le> sint ((x::32 word) AND 0xff) \<and> sint (x AND 0xff) \<le> 255"
proof -
  have "x AND 0xff \<le> 0xff" by (rule word_and_le1)
  then have "uint (x AND 0xff) \<le> 255" by (simp add: word_le_def)
  then show ?thesis by (simp add: sint_and_ff)
qed

lemma clamp_and_ff: "toUint8Clamped ((x::32 word) AND 0xff) = ucast x"
proof -
  have "toUint8Clamped (x AND 0xff) = ucast (x AND 0xff)"
    using and_ff_range [of x] by (simp add: toUint8Clamped_def)
  also have "\<dots> = (ucast x :: 8 word)"
    unfolding ff_mask by (rule bit_word_eqI) (auto simp add: bit_simps)
  finally show ?thesis .
qed

lemma ucast_sdrop8: "(ucast (signed_drop_bit 8 (p::32 word)) :: 8 word) = ucast (drop_bit 8 p)"
  by (rule bit_word_eqI) (auto simp add: bit_simps)

lemma ucast_sdrop16: "(ucast (signed_drop_bit 16 (p::32 word)) :: 8 word) = ucast (drop_bit 16 p)"
  by (rule bit_word_eqI) (auto simp add: bit_simps)

lemma onFrame_loop_step:
  "i < length fb \<Longrightarrow>
     onFrame_loop abgr fb i data = onFrame_loop abgr fb (Suc i) (put_pixel abgr (fb ! i) i data)"
  by (subst onFrame_loop.simps)
    (simp add: put_pixel_def clamp_and_ff ucast_sdrop8 ucast_sdrop16 mult.commute Let_def)

lemma onFrame_loop_done: "length fb \<le> i \<Longrightarrow> onFrame_loop abgr fb i data = data"
  by (subst onFrame_loop.simps) simp

lemma length_put_pixel [simp]: "length (put_pixel abgr p i data) = length data"
  by (simp add: put_pixel_def)

lemma put_pixel_at:
  assumes "4 * i + 3 < length data"
  shows "put_pixel abgr p i data ! (4 * i) = channel abgr p 0"
    and "put_pixel abgr p i data ! (4 * i + 1) = channel abgr p 1"
    and "put_pixel abgr p i data ! (4 * i + 2) = channel abgr p 2"
    and "put_pixel abgr p i data ! (4 * i + 3) = channel abgr p 3"
  using assms by (simp_all add: put_pixel_def channel_def)

lemma put_pixel_nth:
  assumes k: "k < length data" and len: "length data mod 4 = 0"
  shows "put_pixel abgr p i data ! k =
           (if k div 4 = i then channel abgr p (k mod 4) else data ! k)"
proof (cases "k div 4 = i")
  case False
  then have "k \<noteq> 4 * i" "k \<noteq> 4 * i + 1" "k \<noteq> 4 * i + 2" "k \<noteq> 4 * i + 3"
    by auto
  then show ?thesis using False by (simp add: put_pixel_def)
next
  case True
  have in_range: "4 * i + 3 < length data" using k len True by presburger
  have "k mod 4 < 4" by simp
  then consider "k mod 4 = 0" | "k mod 4 = 1" | "k mod 4 = 2" | "k mod 4 = 3"
    by linarith
  then show ?thesis
  proof cases
    case 1
    then have "k = 4 * i" using True by presburger
    then show ?thesis using put_pixel_at(1) [OF in_range] 1 True by simp
  next
    case 2
    then have "k = 4 * i + 1" using True by presburger
    then show ?thesis using put_pixel_at(2) [OF in_range] 2 True by simp
  next
    case 3
    then have "k = 4 * i + 2" using True by presburger
    then show ?thesis using put_pixel_at(3) [OF in_range] 3 True by simp
  next
    case 4
    then have "k = 4 * i + 3" using True by presburger
    then show ?thesis using put_pixel_at(4) [OF in_range] 4 True by simp
  qed
qed

lemma length_onFrame_loop: "length (onFrame_loop abgr fb i data) = length data"
proof (induction "length fb - i" arbitrary: i data)
  case 0
  then show ?case by (simp add: onFrame_loop_done)
next
  case (Suc n)
  then have "i < length fb" and "n = length fb - Suc i" by simp_all
  then show ?case using Suc.hyps(1) [of "Suc i"] by (simp add: onFrame_loop_step)
qed

lemma onFrame_loop_nth:
  "k < length data \<Longrightarrow> length data mod 4 = 0 \<Longrightarrow>
     onFrame_loop abgr fb i data ! k =
       (if i \<le> k div 4 \<and> k div 4 < length fb then channel abgr (fb ! (k div 4)) (k mod 4)
        else data ! k)"
proof (induction "length fb - i" arbitrary: i data)
  case 0
  then have le: "length fb \<le> i" by simp
  then have "\<not> (i \<le> k div 4 \<and> k div 4 < length fb)" by linarith
  then show ?case using le by (simp only: onFrame_loop_done if_False)
next
  case (Suc n)
  then have i: "i < length fb" and n: "n = length fb - Suc i" by simp_all
  have k: "k < length (put_pixel abgr (fb ! i) i data)" using Suc.prems by simp
  have l: "length (put_pixel abgr (fb ! i) i data) mod 4 = 0" using Suc.prems by simp
  show ?case
    using Suc.hyps(1) [OF n k l] i Suc.prems
    by (auto simp add: onFrame_loop_step put_pixel_nth)
qed

lemma onFrame_loop_pixel:
  assumes "i < length fb" and "length data = 4 * length fb" and "c < 4"
  shows "onFrame_loop abgr fb 0 data ! (4 * i + c) = channel abgr (fb ! i) c"
proof -
  have k: "4 * i + c < length data" using assms by simp
  have m: "length data mod 4 = 0" using assms(2) by simp
  have d: "(4 * i + c) div 4 = i" and r: "(4 * i + c) mod 4 = c" using assms(3) by simp_all
  show ?thesis
    using onFrame_loop_nth [OF k m, of abgr fb 0] assms(1) by (simp only: d r) simp
qed

section \<open>Lemmas: the audio sample queue\<close>

lemma length_onAudioSample:
  "length (onAudioSample l r q) = min (length q + 2) 88200"
  by (simp add: onAudioSample_def Let_def)

lemma onAudioSample_keeps_newest:
  "88200 < length q + 2 \<Longrightarrow>
     onAudioSample l r q = drop (length q + 2 - 88200) (q @ [l, r])"
  by (simp add: onAudioSample_def Let_def)

lemma onAudioSample_no_overflow:
  "length q + 2 \<le> 88200 \<Longrightarrow> onAudioSample l r q = q @ [l, r]"
  by (simp add: onAudioSample_def Let_def)

lemma length_onaudioprocess:
  "length (fst (onaudioprocess n q)) = length q - 2 * min n (length q div 2)"
proof (induction n arbitrary: q)
  case 0
  then show ?case by simp
next
  case (Suc n)
  show ?case
  proof (cases q)
    case Nil
    then show ?thesis using Suc [of "[]"] by (auto split: prod.splits)
  next
    case (Cons l q1)
    show ?thesis
    proof (cases q1)
      case Nil
      then show ?thesis using Cons Suc [of "[l]"] by (auto split: prod.splits)
    next
      case (Cons r q')
      then show ?thesis using \<open>q = l # q1\<close> Suc [of q'] by (auto split: prod.splits)
    qed
  qed
qed

lemma onaudioprocess_outputs:
  "length (fst (snd (onaudioprocess n q))) = n \<and> length (snd (snd (onaudioprocess n q))) = n"
proof (induction n arbitrary: q)
  case 0
  then show ?case by simp
next
  case (Suc n)
  show ?case
  proof (cases q)
    case Nil
    then show ?thesis using Suc [of "[]"] by (auto split: prod.splits)
  next
    case (Cons l q1)
    show ?thesis
    proof (cases q1)
      case Nil
      then show ?thesis using Cons Suc [of "[l]"] by (auto split: prod.splits)
    next
      case (Cons r q')
      then show ?thesis using \<open>q = l # q1\<close> Suc [of q'] by (auto split: prod.splits)
    qed
  qed
qed

lemma onaudioprocess_silence:
  "length q < 2 \<Longrightarrow> onaudioprocess n q = (q, replicate n 0, replicate n 0)"
proof (induction n)
  case 0
  then show ?case by simp
next
  case (Suc n)
  then show ?case by (cases q rule: list.exhaust; cases "tl q") auto
qed

lemma even_onAudioSample: "even (length q) \<Longrightarrow> even (length (onAudioSample l r q))"
  by (simp add: length_onAudioSample min_def)

lemma even_onaudioprocess: "even (length q) \<Longrightarrow> even (length (fst (onaudioprocess n q)))"
  by (simp add: length_onaudioprocess)

lemma even_queue_step: "even (length q) \<Longrightarrow> even (length (queue_step x q))"
  by (cases x) (simp_all add: even_onAudioSample even_onaudioprocess)

lemma even_queue_run: "even (length q) \<Longrightarrow> even (length (queue_run xs q))"
  by (induction xs arbitrary: q) (simp_all add: even_queue_step)

lemma even_queue_trace:
  "even (length q) \<Longrightarrow> q' \<in> set (queue_trace xs q) \<Longrightarrow> even (length q')"
proof (induction xs arbitrary: q)
  case Nil
  then show ?case by simp
next
  case (Cons x xs)
  have e: "even (length (queue_step x q))" using Cons.prems(1) by (rule even_queue_step)
  from Cons.prems(2) consider "q' = queue_step x q" | "q' \<in> set (queue_trace xs (queue_step x q))"
    by auto
  then show ?case
  proof cases
    case 1
    then show ?thesis using e by simp
  next
    case 2
    then show ?thesis using Cons.IH [OF e] by simp
  qed
qed

lemma cap_enqueue_trace:
  "q' \<in> set (queue_trace (map (\<lambda>(l, r). Enqueue l r) ps) q) \<Longrightarrow> length q' \<le> 88200"
  by (induction ps arbitrary: q) (auto simp add: length_onAudioSample)

lemma length_enqueue_run:
  "ps \<noteq> [] \<Longrightarrow>
     length (queue_run (map (\<lambda>(l, r). Enqueue l r) ps) q) = min (length q + 2 * length ps) 88200"
proof (induction ps arbitrary: q)
  case Nil
  then show ?case by simp
next
  case (Cons p ps)
  show ?case
  proof (cases "ps = []")
    case True
    then show ?thesis by (cases p) (simp add: length_onAudioSample)
  next
    case False
    then show ?thesis
      using Cons.IH [OF False] by (cases p) (simp add: length_onAudioSample min_def)
  qed
qed

section \<open>Lemmas: the session\<close>

subsection \<open>Frames\<close>

lemma fold_handle:
  "fold handle cbs s =
     s\<lparr>canvasRef := paint cbs (canvasRef s), audioQRef := enqueue cbs (audioQRef s)\<rparr>"
proof (induction cbs arbitrary: s)
  case Nil
  then show ?case by simp
next
  case (Cons cb cbs)
  then show ?case by (cases cb) simp_all
qed

lemma drawOneFrame_eq:
  "drawOneFrame b s =
     (case nesRef s of
        None \<Rightarrow> s
      | Some n \<Rightarrow>
          s\<lparr>canvasRef := paint (fst (snd (frame b n))) (canvasRef s),
            audioQRef := enqueue (fst (snd (frame b n))) (audioQRef s),
            nesRef := Some (fst (frame b n))\<rparr>)"
  by (simp add: drawOneFrame_def call_frame_def fold_handle split: option.splits prod.splits)

lemma romKeyRef_drawOneFrame [simp]: "romKeyRef (drawOneFrame b s) = romKeyRef s"
  by (simp add: drawOneFrame_eq split: option.splits)

lemma romKeyRef_refreshSaveIndicators [simp]:
  "romKeyRef (refreshSaveIndicators env s) = romKeyRef s"
  by (simp add: refreshSaveIndicators_def split: option.splits outcome.splits)

lemma loadRom_None: "loadRom b env None s = s"
  by (simp add: loadRom_def loadRom_begin_def file_read_def)

lemma loadRom_other_name:
  "\<not> endsWith (toLowerCase (name f)) ''.nes'' \<Longrightarrow>
     loadRom b env (Some f) s = s\<lparr>status := ''Please select a .nes ROM file.''\<rparr>"
  by (simp add: loadRom_def loadRom_begin_def file_read_def)

lemma loadRom_eq:
  "endsWith (toLowerCase (name f)) ''.nes'' \<Longrightarrow>
     loadRom b env (Some f) s
       = loadRom_continue b env f (s\<lparr>status := ''Loading ROM'' @ ellipsis, loadedName := []\<rparr>)"
  by (simp add: loadRom_def loadRom_begin_def file_read_def)

lemma romKeyRef_loadRom_continue:
  "romKeyRef (loadRom_continue b env f s)
     = Some (rom_key (name f) (map (\<lambda>byte. char_of (unat byte)) (bytes f)))"
  by (simp add: loadRom_continue_def Let_def stop_def split: prod.splits option.splits)

lemma romKeyRef_loadRom:
  "endsWith (toLowerCase (name f)) ''.nes'' \<Longrightarrow>
     romKeyRef (loadRom b env (Some f) s)
       = Some (rom_key (name f) (map (\<lambda>byte. char_of (unat byte)) (bytes f)))"
  by (simp add: loadRom_eq romKeyRef_loadRom_continue)

lemma djb2_loop_fold:
  "djb2_loop h str = fold (\<lambda>c h. (h * 33) XOR of_nat (of_char c)) str h"
proof (induction str arbitrary: h)
  case Nil
  then show ?case by simp
next
  case (Cons c cs)
  have "push_bit 5 h + h = h * 33" by (simp add: push_bit_eq_mult)
  then show ?case using Cons by (simp add: mult.commute)
qed

subsection \<open>Keys and the store\<close>

lemma version_text: "toString 10 SAVE_VERSION = ''1''"
  by (simp add: SAVE_VERSION_def toString.simps digit_char_def)

lemma getSaveStorageKey_eq:
  "getSaveStorageKey s =
     (case romKeyRef s of
        None \<Rightarrow> None
      | Some k \<Rightarrow> if k = [] then None else Some (''retro-arcade-web:nes:savestate:v1:'' @ k))"
  by (simp add: getSaveStorageKey_def LS_PREFIX_def version_text split: option.splits)

lemma getSaveStorageKey_None: "getSaveStorageKey s = None \<longleftrightarrow> \<not> truthy_str (romKeyRef s)"
  by (cases "romKeyRef s") (simp_all add: getSaveStorageKey_eq)

lemma getItem_truthy_None: "\<not> truthy_str (store key) \<Longrightarrow> getItem_truthy store key = None"
  by (simp add: getItem_truthy_def)

lemma getItem_truthy_Some:
  "store key = Some raw \<Longrightarrow> raw \<noteq> [] \<Longrightarrow> getItem_truthy store key = Some raw"
  by (simp add: getItem_truthy_def)

lemma falsy_to_None_falsy: "\<not> truthy v \<Longrightarrow> falsy_to_None v = None"
  by (simp add: falsy_to_None_def)

lemma falsy_to_None_truthy: "truthy (Some v) \<Longrightarrow> falsy_to_None (Some v) = Some v"
  by (simp add: falsy_to_None_def)

subsection \<open>Saving and loading\<close>

lemma save_success:
  assumes "romKeyRef s = Some k" and "k \<noteq> []" and "nesRef s = Some n"
    and "exportState b (Some n) = Returns state"
    and "setItem_throws env (localStorage s) (''retro-arcade-web:nes:savestate:v1:'' @ k)
           (JSON_stringify env (payload_of env s state)) = None"
  shows "saveStateToLocalStorage b env silent s
           = (True,
              s\<lparr>localStorage :=
                   (localStorage s)
                     (''retro-arcade-web:nes:savestate:v1:'' @ k \<mapsto>
                        JSON_stringify env (payload_of env s state)),
                 hasSave := True,
                 lastSavedAt := Some (JStr (nowIso env)),
                 status :=
                   (if silent then status s
                    else ''Saved state ('' @ toLocaleString env (JStr (nowIso env)) @ '')'')\<rparr>)"
  using assms by (simp add: saveStateToLocalStorage_def getSaveStorageKey_eq Let_def)

lemma save_without_key:
  assumes "\<not> truthy_str (romKeyRef s)"
  shows "saveStateToLocalStorage b env silent s
           = (False, if silent then s else s\<lparr>status := ''Load a ROM before saving.''\<rparr>)"
  using assms by (simp add: saveStateToLocalStorage_def getSaveStorageKey_None [THEN iffD2])

lemma save_failure_keeps_store:
  "fst (saveStateToLocalStorage b env silent s) = False \<Longrightarrow>
     localStorage (snd (saveStateToLocalStorage b env silent s)) = localStorage s"
  by (simp add: saveStateToLocalStorage_def Let_def split: option.splits outcome.splits)


lemma load_success:
  assumes "romKeyRef s = Some k" and "k \<noteq> []"
    and "localStorage s (''retro-arcade-web:nes:savestate:v1:'' @ k) = Some raw" and "raw \<noteq> []"
    and "JSON_parse env raw = Returns payload"
    and "get_prop ''state'' (Some payload) = Some state" and "truthy (Some state)"
    and "loadROM b (romBinRef s) (NES b) = (fresh, None)"
    and "importState b (Some fresh) state = (fresh', None)"
  shows "loadStateFromLocalStorage b env s
           = (drawOneFrame b
                (s\<lparr>runningRef := False, rafRef := None, nesRef := fresh', audioQRef := [],
                   status :=
                     ''Loaded save (''
                     @ toLocaleString env
                         (case falsy_to_None (get_prop ''savedAt'' (get_prop ''meta'' (Some payload)))
                          of Some d \<Rightarrow> d | None \<Rightarrow> JNum (Date_now env))
                     @ '')''\<rparr>))
             \<lparr>surfaceFocused := True\<rparr>"
  using assms
  by (simp add: loadStateFromLocalStorage_def getSaveStorageKey_eq getItem_truthy_Some
      falsy_to_None_truthy Let_def stop_def)

lemma frames_Suc:
  "frames b (Suc N) n = fst (snd (frame b n)) # frames b N (fst (frame b n))"
  by (simp split: prod.splits)

lemma size_pos: "0 < W * H"
  by (simp add: W_def H_def)

subsection \<open>Button events\<close>

lemma press_eq:
  "nesRef s = Some n \<Longrightarrow> buttonMap key = Some btn \<Longrightarrow>
     press b key isDown s = s\<lparr>nesRef := Some (try_attempts (attempts b isDown btn) n)\<rparr>"
  by (simp add: press_def)

lemma finish_None [simp]: "finish (n', None) = (n', Returns True)"
  by (simp add: finish_def)

lemma finish_Some [simp]: "finish (n', Some m) = (n', Throws m)"
  by (simp add: finish_def)

lemma buttonMap_A: "buttonMap ''A'' = Some BUTTON_A"
  by (simp add: buttonMap_def)

lemma try_attempts_skip:
  "\<forall>i<length pre. snd ((pre ! i) (try_attempts (take i pre) n)) \<noteq> Returns True \<Longrightarrow>
     try_attempts (pre @ rest) n = try_attempts rest (try_attempts pre n)"
proof (induction pre arbitrary: n)
  case Nil
  then show ?case by simp
next
  case (Cons fn pre)
  have first: "snd (fn n) \<noteq> Returns True"
    using Cons.prems [rule_format, of 0] by simp
  have step: "try_attempts (fn # fns) n = try_attempts fns (fst (fn n))" for fns
    using first by (cases "fn n"; cases "snd (fn n)") (auto split: bool.splits)
  have later:
    "\<forall>i<length pre. snd ((pre ! i) (try_attempts (take i pre) (fst (fn n)))) \<noteq> Returns True"
  proof (intro allI impI)
    fix i
    assume "i < length pre"
    then have "snd (((fn # pre) ! Suc i) (try_attempts (take (Suc i) (fn # pre)) n))
        \<noteq> Returns True"
      using Cons.prems [rule_format, of "Suc i"] by simp
    then show "snd ((pre ! i) (try_attempts (take i pre) (fst (fn n)))) \<noteq> Returns True"
      by (simp add: step del: try_attempts.simps)
  qed
  show ?case
    using Cons.IH [OF later] by (simp add: step del: try_attempts.simps)
qed

lemma try_attempts_first:
  assumes "\<forall>i<length pre. snd ((pre ! i) (try_attempts (take i pre) n)) \<noteq> Returns True"
    and "snd (fn (try_attempts pre n)) = Returns True"
  shows "try_attempts (pre @ fn # post) n = fst (fn (try_attempts pre n))"
proof -
  have "try_attempts (fn # post) (try_attempts pre n) = fst (fn (try_attempts pre n))"
    using assms(2) by (cases "fn (try_attempts pre n)") simp
  then show ?thesis
    by (simp only: try_attempts_skip [OF assms(1)])
qed

lemma try_attempts_none:
  "\<forall>i<length fns. snd ((fns ! i) (try_attempts (take i fns) n)) \<noteq> Returns True \<Longrightarrow>
     try_attempts fns n = fold (\<lambda>fn n. fst (fn n)) fns n"
proof (induction fns arbitrary: n)
  case Nil
  then show ?case by simp
next
  case (Cons fn fns)
  have first: "snd (fn n) \<noteq> Returns True"
    using Cons.prems [rule_format, of 0] by simp
  have step: "try_attempts (fn # rest) n = try_attempts rest (fst (fn n))" for rest
    using first by (cases "fn n"; cases "snd (fn n)") (auto split: bool.splits)
  have later:
    "\<forall>i<length fns. snd ((fns ! i) (try_attempts (take i fns) (fst (fn n)))) \<noteq> Returns True"
  proof (intro allI impI)
    fix i
    assume "i < length fns"
    then have "snd (((fn # fns) ! Suc i) (try_attempts (take (Suc i) (fn # fns)) n))
        \<noteq> Returns True"
      using Cons.prems [rule_format, of "Suc i"] by simp
    then show "snd ((fns ! i) (try_attempts (take i fns) (fst (fn n)))) \<noteq> Returns True"
      by (simp add: step del: try_attempts.simps)
  qed
  show ?case
    using Cons.IH [OF later] by (simp add: step del: try_attempts.simps)
qed

lemma press_only_engine: "press b key isDown s = s\<lparr>nesRef := nesRef (press b key isDown s)\<rparr>"
  by (simp add: press_def split: option.splits)

subsection \<open>A frame that covers the canvas\<close>

lemma onFrame_loop_covers:
  assumes "length data = 4 * length fb" and "length data' = 4 * length fb"
  shows "onFrame_loop abgr fb 0 data = onFrame_loop abgr fb 0 data'"
proof (rule nth_equalityI)
  show "length (onFrame_loop abgr fb 0 data) = length (onFrame_loop abgr fb 0 data')"
    using assms by (simp add: length_onFrame_loop)
next
  fix k
  assume "k < length (onFrame_loop abgr fb 0 data)"
  then have k: "k < length data" by (simp add: length_onFrame_loop)
  then have k': "k < length data'" using assms by simp
  have m: "length data mod 4 = 0" "length data' mod 4 = 0" using assms by simp_all
  have d: "k div 4 < length fb" using k assms(1) by simp
  show "onFrame_loop abgr fb 0 data ! k = onFrame_loop abgr fb 0 data' ! k"
    using d by (simp add: onFrame_loop_nth [OF k m(1)] onFrame_loop_nth [OF k' m(2)])
qed

lemma length_paint: "map_option length (paint cbs canvas) = map_option length canvas"
proof (induction cbs arbitrary: canvas)
  case Nil
  then show ?case by simp
next
  case (Cons cb cbs)
  show ?case
  proof (cases cb)
    case (OnFrame fb)
    then show ?thesis
      using Cons [of "onFrame fb canvas"]
      by (cases canvas) (simp_all add: onFrame_def length_onFrame_loop)
  next
    case (OnAudioSample l r)
    then show ?thesis using Cons by simp
  qed
qed

lemma paint_covers:
  "has_full_frame cbs \<Longrightarrow> length data = W * H * 4 \<Longrightarrow> length data' = W * H * 4 \<Longrightarrow>
     paint cbs (Some data) = paint cbs (Some data')"
proof (induction cbs arbitrary: data data')
  case Nil
  then show ?case by simp
next
  case (Cons cb cbs)
  show ?case
  proof (cases cb)
    case (OnAudioSample l r)
    then have full: "has_full_frame cbs" using Cons.prems(1) by simp
    have "paint cbs (Some data) = paint cbs (Some data')"
      by (rule Cons.IH [OF full Cons.prems(2,3)])
    then show ?thesis
      unfolding OnAudioSample by (simp only: paint.simps)
  next
    case (OnFrame fb)
    show ?thesis
    proof (cases "length fb = W * H")
      case True
      have l1: "length data = 4 * length fb"
        unfolding True Cons.prems(2) by (rule mult.commute)
      have l2: "length data' = 4 * length fb"
        unfolding True Cons.prems(3) by (rule mult.commute)
      have "onFrame_loop USE_ABGR fb 0 data = onFrame_loop USE_ABGR fb 0 data'"
        by (rule onFrame_loop_covers [OF l1 l2])
      then have "onFrame fb (Some data) = onFrame fb (Some data')"
        by (simp only: onFrame_def option.case)
      then show ?thesis
        unfolding OnFrame by (simp only: paint.simps)
    next
      case False
      then have full: "has_full_frame cbs" using Cons.prems(1) OnFrame by simp
      have l1: "length (onFrame_loop USE_ABGR fb 0 data) = W * H * 4"
        by (simp only: length_onFrame_loop Cons.prems(2))
      have l2: "length (onFrame_loop USE_ABGR fb 0 data') = W * H * 4"
        by (simp only: length_onFrame_loop Cons.prems(3))
      have "paint cbs (Some (onFrame_loop USE_ABGR fb 0 data))
          = paint cbs (Some (onFrame_loop USE_ABGR fb 0 data'))"
        by (rule Cons.IH [OF full l1 l2])
      then show ?thesis
        unfolding OnFrame by (simp only: paint.simps onFrame_def option.case)
    qed
  qed
qed

lemma romBinRef_refreshSaveIndicators [simp]:
  "romBinRef (refreshSaveIndicators env s) = romBinRef s"
  by (simp add: refreshSaveIndicators_def split: option.splits outcome.splits)

subsection \<open>Reset and loadRom\<close>

lemma reset_no_rom:
  "\<not> truthy_str (romBinRef s) \<Longrightarrow> reset b s = (s\<lparr>status := ''No ROM loaded to reset.''\<rparr>, None)"
  by (simp add: reset_def)

lemma reset_cold:
  assumes "truthy_str (romBinRef s)" and "loadROM b (romBinRef s) (NES b) = (n0, None)"
  shows "reset b s
           = (s\<lparr>runningRef := False, rafRef := None,
                 nesRef := Some (fst (frame b n0)),
                 audioQRef := enqueue (fst (snd (frame b n0))) [],
                 canvasRef := paint (fst (snd (frame b n0))) (canvasRef s),
                 loadedName := (if romNameRef s \<noteq> [] then romNameRef s else loadedName s),
                 status := ''Reset complete. Click Play to start fresh.'',
                 surfaceFocused := True\<rparr>, None)"
  using assms by (simp add: reset_def stop_def Let_def drawOneFrame_eq)

lemma reset_throws:
  assumes "truthy_str (romBinRef s)" and "loadROM b (romBinRef s) (NES b) = (n0, Some m)"
  shows "reset b s
           = (s\<lparr>runningRef := False, rafRef := None, nesRef := Some n0, audioQRef := []\<rparr>,
              Some m)"
  using assms by (simp add: reset_def stop_def Let_def)

lemma loadRom_cold:
  assumes "endsWith (toLowerCase (name f)) ''.nes''"
    and "loadROM b (Some (map (\<lambda>byte. char_of (unat byte)) (bytes f))) (NES b) = (n0, None)"
  shows "nesRef (loadRom b env (Some f) s) = Some (fst (frame b n0))"
    and "audioQRef (loadRom b env (Some f) s) = enqueue (fst (snd (frame b n0))) []"
    and "canvasRef (loadRom b env (Some f) s) = paint (fst (snd (frame b n0))) (canvasRef s)"
    and "romBinRef (loadRom b env (Some f) s) = Some (map (\<lambda>byte. char_of (unat byte)) (bytes f))"
    and "romNameRef (loadRom b env (Some f) s) = name f"
    and "loadedName (loadRom b env (Some f) s) = name f"
    and "runningRef (loadRom b env (Some f) s) = False"
  using assms
  by (simp_all add: loadRom_eq loadRom_continue_def Let_def stop_def drawOneFrame_eq
      refreshSaveIndicators_def split: option.splits outcome.splits)

subsection \<open>What the events keep\<close>

lemma drawOneFrame_keeps:
  "romBinRef (drawOneFrame b s) = romBinRef s"
  "romNameRef (drawOneFrame b s) = romNameRef s"
  "map_option length (canvasRef (drawOneFrame b s)) = map_option length (canvasRef s)"
  by (simp_all add: drawOneFrame_eq length_paint split: option.splits)

lemma loop_keeps:
  "romBinRef (fst (loop b env s)) = romBinRef s"
  "romNameRef (fst (loop b env s)) = romNameRef s"
  "map_option length (canvasRef (fst (loop b env s))) = map_option length (canvasRef s)"
  by (auto simp add: loop_def call_frame_def fold_handle length_paint
      split: option.splits prod.splits)

lemma reset_keeps:
  "romBinRef (fst (reset b s)) = romBinRef s"
  "romNameRef (fst (reset b s)) = romNameRef s"
  "map_option length (canvasRef (fst (reset b s))) = map_option length (canvasRef s)"
  by (simp_all add: reset_def Let_def stop_def drawOneFrame_keeps
      split: option.splits prod.splits)

lemma save_keeps:
  "romBinRef (snd (saveStateToLocalStorage b env silent s)) = romBinRef s"
  "romNameRef (snd (saveStateToLocalStorage b env silent s)) = romNameRef s"
  "canvasRef (snd (saveStateToLocalStorage b env silent s)) = canvasRef s"
  by (simp_all add: saveStateToLocalStorage_def Let_def split: option.splits outcome.splits)

lemma load_keeps:
  "romBinRef (loadStateFromLocalStorage b env s) = romBinRef s"
  "romNameRef (loadStateFromLocalStorage b env s) = romNameRef s"
  "map_option length (canvasRef (loadStateFromLocalStorage b env s))
     = map_option length (canvasRef s)"
  by (simp_all add: loadStateFromLocalStorage_def Let_def stop_def drawOneFrame_keeps
      split: option.splits outcome.splits prod.splits)

lemma dispatch_keeps:
  assumes "\<forall>k. ev \<noteq> FileRead k"
  shows "romBinRef (dispatch b env ev s) = romBinRef s
       \<and> romNameRef (dispatch b env ev s) = romNameRef s
       \<and> map_option length (canvasRef (dispatch b env ev s)) = map_option length (canvasRef s)"
proof (cases ev)
  case (LoadRom rf)
  then show ?thesis by (simp add: loadRom_begin_def split: option.splits)
next
  case (FileRead k)
  then show ?thesis using assms by simp
next
  case Play
  then show ?thesis
    by (simp add: play_def ensureAudio_def Let_def split: option.splits outcome.splits)
next
  case Pause
  then show ?thesis by (simp add: stop_def)
next
  case Reset
  then show ?thesis by (simp add: reset_keeps)
next
  case SaveState
  then show ?thesis by (simp add: save_keeps)
next
  case LoadSave
  then show ?thesis by (simp add: load_keeps)
next
  case DeleteSave
  then show ?thesis by (simp add: deleteStateFromLocalStorage_def split: option.splits)
next
  case (Press key isDown)
  then show ?thesis by (simp add: press_def split: option.splits)
next
  case Tick
  then show ?thesis by (simp add: loop_keeps)
next
  case (AudioProcess n)
  then show ?thesis by (simp add: audioprocess_def)
next
  case Autosave
  then show ?thesis by (simp add: autosave_def save_keeps)
next
  case Unmount
  then show ?thesis by (simp add: unmount_def stop_def)
qed

lemma run_keeps:
  "\<forall>(env, ev) \<in> set evs. \<forall>k. ev \<noteq> FileRead k \<Longrightarrow>
     romBinRef (run b evs s) = romBinRef s
     \<and> romNameRef (run b evs s) = romNameRef s
     \<and> map_option length (canvasRef (run b evs s)) = map_option length (canvasRef s)"
proof (induction evs arbitrary: s)
  case Nil
  then show ?case by simp
next
  case (Cons x evs)
  obtain env ev where x: "x = (env, ev)" by (cases x)
  have ev: "\<forall>k. ev \<noteq> FileRead k" using Cons.prems x by simp
  have rest: "\<forall>(env, ev) \<in> set evs. \<forall>k. ev \<noteq> FileRead k" using Cons.prems by simp
  show ?case
    using Cons.IH [OF rest, of "dispatch b env ev s"] dispatch_keeps [OF ev, of b env s]
    by (simp add: x)
qed

lemma endsWith_nonempty: "endsWith (toLowerCase file_name) ''.nes'' \<Longrightarrow> file_name \<noteq> []"
  by (auto simp add: endsWith_def toLowerCase_def)

lemma reset_after_events:
  assumes ends: "endsWith (toLowerCase (name f)) ''.nes''"
    and nonempty: "bytes f \<noteq> []"
    and loaded: "loadROM b (Some (map (\<lambda>byte. char_of (unat byte)) (bytes f))) (NES b) = (n0, None)"
    and evs: "\<forall>(env, ev) \<in> set evs. \<forall>k. ev \<noteq> FileRead k"
  shows "snd (reset b (run b evs (loadRom b env0 (Some f) s0))) = None"
    and "nesRef (fst (reset b (run b evs (loadRom b env0 (Some f) s0))))
          = nesRef (loadRom b env0 (Some f) s0)"
    and "audioQRef (fst (reset b (run b evs (loadRom b env0 (Some f) s0))))
          = audioQRef (loadRom b env0 (Some f) s0)"
    and "loadedName (fst (reset b (run b evs (loadRom b env0 (Some f) s0)))) = name f"
    and "runningRef (fst (reset b (run b evs (loadRom b env0 (Some f) s0)))) = False"
    and "has_full_frame (fst (snd (frame b n0))) \<Longrightarrow> canvasRef s0 = Some d \<Longrightarrow>
          length d = W * H * 4 \<Longrightarrow>
          canvasRef (fst (reset b (run b evs (loadRom b env0 (Some f) s0))))
            = canvasRef (loadRom b env0 (Some f) s0)"
proof -
  let ?bin = "map (\<lambda>byte. char_of (unat byte)) (bytes f)"
  let ?s1 = "loadRom b env0 (Some f) s0"
  let ?s = "run b evs ?s1"
  note l = loadRom_cold [OF ends loaded, of env0 s0]
  note k = run_keeps [OF evs, of b ?s1]
  have bin: "romBinRef ?s = Some ?bin" using k l(4) by simp
  have nm: "romNameRef ?s = name f" using k l(5) by simp
  have tr: "truthy_str (romBinRef ?s)" using bin nonempty by simp
  have ld: "loadROM b (romBinRef ?s) (NES b) = (n0, None)" using bin loaded by simp
  note r = reset_cold [OF tr ld]
  show "snd (reset b ?s) = None" by (simp add: r)
  show "nesRef (fst (reset b ?s)) = nesRef ?s1" by (simp add: r l(1))
  show "audioQRef (fst (reset b ?s)) = audioQRef ?s1" by (simp add: r l(2))
  show "loadedName (fst (reset b ?s)) = name f"
    using endsWith_nonempty [OF ends] by (simp add: r nm)
  show "runningRef (fst (reset b ?s)) = False" by (simp add: r)
  show "canvasRef (fst (reset b ?s)) = canvasRef ?s1"
    if full: "has_full_frame (fst (snd (frame b n0)))" and c0: "canvasRef s0 = Some d"
      and len: "length d = W * H * 4"
  proof -
    have "map_option length (canvasRef ?s) = Some (W * H * 4)"
      using k l(3) c0 len by (simp add: length_paint)
    then obtain d' where c: "canvasRef ?s = Some d'" and len': "length d' = W * H * 4"
      by (cases "canvasRef ?s") auto
    have "paint (fst (snd (frame b n0))) (Some d') = paint (fst (snd (frame b n0))) (Some d)"
      by (rule paint_covers [OF full len' len])
    then show ?thesis by (simp add: r l(3) c c0)
  qed
qed

lemma mounted_canvas:
  "canvasRef (mounted b store) = Some (concat (replicate (W * H) [0, 0, 0, 0xff]))"
  "length (concat (replicate (W * H) [0, 0, 0, 0xff :: 8 word])) = W * H * 4"
  by (simp_all add: mounted_def length_concat sum_list_replicate)

subsection \<open>The queue of the component\<close>

lemma enqueue_ok:
  "even (length q) \<and> length q \<le> 88200 \<Longrightarrow>
     even (length (enqueue cbs q)) \<and> length (enqueue cbs q) \<le> 88200"
proof (induction cbs arbitrary: q)
  case Nil
  then show ?case by simp
next
  case (Cons cb cbs)
  show ?case
  proof (cases cb)
    case (OnFrame fb)
    then show ?thesis using Cons by simp
  next
    case (OnAudioSample l r)
    have "even (length (onAudioSample l r q)) \<and> length (onAudioSample l r q) \<le> 88200"
      using Cons.prems by (simp add: length_onAudioSample min_def)
    then show ?thesis using Cons.IH OnAudioSample by simp
  qed
qed

lemma enqueue_ok_Nil: "even (length (enqueue cbs [])) \<and> length (enqueue cbs []) \<le> 88200"
  by (rule enqueue_ok) simp

lemma loop_ok:
  "even (length (audioQRef s)) \<and> length (audioQRef s) \<le> 88200 \<Longrightarrow>
     even (length (audioQRef (fst (loop b env s))))
     \<and> length (audioQRef (fst (loop b env s))) \<le> 88200"
  using enqueue_ok [of "audioQRef s"]
  by (auto simp add: loop_def call_frame_def fold_handle split: option.splits prod.splits)

lemma reset_ok:
  "even (length (audioQRef s)) \<and> length (audioQRef s) \<le> 88200 \<Longrightarrow>
     even (length (audioQRef (fst (reset b s))))
     \<and> length (audioQRef (fst (reset b s))) \<le> 88200"
  using enqueue_ok_Nil
  by (auto simp add: reset_def Let_def stop_def drawOneFrame_eq split: option.splits prod.splits)

lemma load_ok:
  "even (length (audioQRef s)) \<and> length (audioQRef s) \<le> 88200 \<Longrightarrow>
     even (length (audioQRef (loadStateFromLocalStorage b env s)))
     \<and> length (audioQRef (loadStateFromLocalStorage b env s)) \<le> 88200"
  using enqueue_ok_Nil
  by (auto simp add: loadStateFromLocalStorage_def Let_def stop_def drawOneFrame_eq
      split: option.splits outcome.splits prod.splits)

lemma audioQRef_refreshSaveIndicators [simp]:
  "audioQRef (refreshSaveIndicators env s) = audioQRef s"
  by (simp add: refreshSaveIndicators_def split: option.splits outcome.splits)

lemma loadRom_continue_ok:
  "even (length (audioQRef s)) \<and> length (audioQRef s) \<le> 88200 \<Longrightarrow>
     even (length (audioQRef (loadRom_continue b env f s)))
     \<and> length (audioQRef (loadRom_continue b env f s)) \<le> 88200"
  using enqueue_ok_Nil
  by (auto simp add: loadRom_continue_def Let_def stop_def drawOneFrame_eq
      split: option.splits prod.splits)

lemma file_read_ok:
  "even (length (audioQRef s)) \<and> length (audioQRef s) \<le> 88200 \<Longrightarrow>
     even (length (audioQRef (file_read b env k s)))
     \<and> length (audioQRef (file_read b env k s)) \<le> 88200"
  using loadRom_continue_ok
    [of "s\<lparr>pending := take k (pending s) @ drop (Suc k) (pending s)\<rparr>" b env "pending s ! k"]
  by (simp add: file_read_def)

lemma audioQRef_loadRom_begin [simp]: "audioQRef (loadRom_begin rf s) = audioQRef s"
  by (simp add: loadRom_begin_def split: option.splits)

lemma save_audioQ [simp]:
  "audioQRef (snd (saveStateToLocalStorage b env silent s)) = audioQRef s"
  by (simp add: saveStateToLocalStorage_def Let_def split: option.splits outcome.splits)

lemma dispatch_ok:
  assumes "even (length (audioQRef s)) \<and> length (audioQRef s) \<le> 88200"
  shows "even (length (audioQRef (dispatch b env ev s)))
       \<and> length (audioQRef (dispatch b env ev s)) \<le> 88200"
proof (cases ev)
  case (LoadRom rf)
  then show ?thesis using assms by simp
next
  case (FileRead k)
  then show ?thesis using file_read_ok [OF assms] by simp
next
  case Play
  then show ?thesis using assms
    by (simp add: play_def ensureAudio_def Let_def split: option.splits outcome.splits)
next
  case Pause
  then show ?thesis using assms by (simp add: stop_def)
next
  case Reset
  then show ?thesis using reset_ok [OF assms] by simp
next
  case SaveState
  then show ?thesis using assms by simp
next
  case LoadSave
  then show ?thesis using load_ok [OF assms] by simp
next
  case DeleteSave
  then show ?thesis using assms
    by (simp add: deleteStateFromLocalStorage_def split: option.splits)
next
  case (Press key isDown)
  then show ?thesis using assms by (simp add: press_def split: option.splits)
next
  case Tick
  then show ?thesis using loop_ok [OF assms] by simp
next
  case (AudioProcess n)
  then show ?thesis using assms by (auto simp add: audioprocess_def length_onaudioprocess)
next
  case Autosave
  then show ?thesis using assms by (simp add: autosave_def)
next
  case Unmount
  then show ?thesis by (simp add: unmount_def stop_def)
qed

lemma run_ok:
  "even (length (audioQRef s)) \<and> length (audioQRef s) \<le> 88200 \<Longrightarrow>
     even (length (audioQRef (run b evs s))) \<and> length (audioQRef (run b evs s)) \<le> 88200"
proof (induction evs arbitrary: s)
  case Nil
  then show ?case by simp
next
  case (Cons x evs)
  obtain env ev where x: "x = (env, ev)" by (cases x)
  show ?case
    using Cons.IH [OF dispatch_ok [OF Cons.prems, of b env ev]] by (simp add: x)
qed

lemma run_mounted_ok:
  "even (length (audioQRef (run b evs (mounted b store))))
   \<and> length (audioQRef (run b evs (mounted b store))) \<le> 88200"
  by (rule run_ok) (simp add: mounted_def)

subsection \<open>A rejected file\<close>

lemma pending_loadRom_continue [simp]: "pending (loadRom_continue b env f s) = pending s"
  by (simp add: loadRom_continue_def Let_def stop_def drawOneFrame_eq refreshSaveIndicators_def
      split: option.splits outcome.splits prod.splits)

lemma loadRom_continue_rejected:
  assumes "loadROM b (Some (map (\<lambda>byte. char_of (unat byte)) (bytes f))) (NES b) = (n, Some m)"
  shows "loadRom_continue b env f s
           = s\<lparr>status := ''Failed to load ROM: '' @ m,
               romBinRef := Some (map (\<lambda>byte. char_of (unat byte)) (bytes f)),
               romNameRef := name f,
               romKeyRef := Some (rom_key (name f) (map (\<lambda>byte. char_of (unat byte)) (bytes f))),
               nesRef := Some n\<rparr>"
  using assms by (simp add: loadRom_continue_def Let_def)

lemma loadRom_continue_accepted:
  assumes "loadROM b (Some (map (\<lambda>byte. char_of (unat byte)) (bytes f))) (NES b) = (n0, None)"
  shows "loadedName (loadRom_continue b env f s) = name f"
    and "runningRef (loadRom_continue b env f s) = False"
    and "nesRef (loadRom_continue b env f s) = Some (fst (frame b n0))"
  using assms
  by (simp_all add: loadRom_continue_def Let_def stop_def drawOneFrame_eq
      refreshSaveIndicators_def split: option.splits outcome.splits)

lemma loadRom_rejected:
  assumes "endsWith (toLowerCase (name f)) ''.nes''"
    and "loadROM b (Some (map (\<lambda>byte. char_of (unat byte)) (bytes f))) (NES b) = (n, Some m)"
  shows "loadRom b env (Some f) s
           = s\<lparr>status := ''Failed to load ROM: '' @ m,
               loadedName := [],
               romBinRef := Some (map (\<lambda>byte. char_of (unat byte)) (bytes f)),
               romNameRef := name f,
               romKeyRef := Some (rom_key (name f) (map (\<lambda>byte. char_of (unat byte)) (bytes f))),
               nesRef := Some n\<rparr>"
  using assms by (simp add: loadRom_eq loadRom_continue_def Let_def)

section \<open>Lemmas: concrete runs\<close>

lemma game_bin: "map (\<lambda>byte. char_of (unat byte)) (bytes game_nes) = [CHR ''N'', CHR ''E'', CHR ''S'', char_of (26::nat)]"
  by (simp add: game_nes_def char_of_def bit_Suc_0_iff)

lemma game_name: "name game_nes = ''game.nes''"
  by (simp add: game_nes_def)

lemma game_key: "rom_key ''game.nes'' ([CHR ''N'', CHR ''E'', CHR ''S'', char_of (26::nat)]) = ''game.nes:4:7c826827''"
  by (simp add: rom_key_def djb2Hash_def toString.simps digit_char_def)

lemma game_ends: "endsWith (toLowerCase ''game.nes'') ''.nes''"
  by (simp add: endsWith_def toLowerCase_def lower_char_def)

lemma game_nes_ends: "endsWith (toLowerCase (name game_nes)) ''.nes''"
  by (simp add: game_name game_ends)

lemma bad_nes_ends: "endsWith (toLowerCase (name bad_nes)) ''.nes''"
  by (simp add: bad_nes_def endsWith_def toLowerCase_def lower_char_def)

lemma counter_rejects_bad:
  "loadROM counter_nes (Some (map (\<lambda>byte. char_of (unat byte)) (bytes bad_nes))) (NES counter_nes)
     = (NES counter_nes, Some ''Not a valid NES ROM.'')"
  by (simp add: counter_nes_def counter_loadROM_def bad_nes_def char_of_def)

lemma loaded_game_eq:
  "loaded_game =
     (mounted counter_nes Map.empty)
       \<lparr>canvasRef := onFrame (replicate (W * H) 0) (canvasRef (mounted counter_nes Map.empty)),
        nesRef := Some \<lparr>frame_no = 1, rom = [CHR ''N'', CHR ''E'', CHR ''S'', char_of (26::nat)], held = []\<rparr>,
        romBinRef := Some ([CHR ''N'', CHR ''E'', CHR ''S'', char_of (26::nat)]),
        romNameRef := ''game.nes'',
        romKeyRef := Some ''game.nes:4:7c826827'',
        audioQRef := [0, 0],
        autosaveTimerRef := True,
        status := ''Loaded. Click Play (audio starts on Play).'',
        loadedName := ''game.nes'',
        surfaceFocused := True\<rparr>"
  by (simp add: loaded_game_def loadRom_eq [OF game_nes_ends] loadRom_continue_def
      game_bin game_name game_ends game_key Let_def
      counter_nes_def counter_loadROM_def mounted_def stop_def drawOneFrame_eq
      counter_frame_def refreshSaveIndicators_def getItem_truthy_def
      getSaveStorageKey_def LS_PREFIX_def SAVE_VERSION_def toString.simps digit_char_def
      onAudioSample_def)

lemma loaded_game_fields:
  "romKeyRef loaded_game = Some ''game.nes:4:7c826827''"
  "nesRef loaded_game
     = Some \<lparr>frame_no = 1, rom = [CHR ''N'', CHR ''E'', CHR ''S'', char_of (26::nat)], held = []\<rparr>"
  "romBinRef loaded_game = Some [CHR ''N'', CHR ''E'', CHR ''S'', char_of (26::nat)]"
  "romNameRef loaded_game = ''game.nes''"
  "loadedName loaded_game = ''game.nes''"
  "localStorage loaded_game = Map.empty"
  "audioQRef loaded_game = [0, 0]"
  "runningRef loaded_game = False"
  "rafRef loaded_game = None"
  "audioCtxRef loaded_game = None"
  "audioNodeRef loaded_game = False"
  "surfaceFocused loaded_game"
  "pending loaded_game = []"
  "status loaded_game = ''Loaded. Click Play (audio starts on Play).''"
  "canvasRef loaded_game
     = onFrame (replicate (W * H) 0) (Some (concat (replicate (W * H) [0, 0, 0, 0xff])))"
  by (simp_all add: loaded_game_eq mounted_def)

lemma counter_export:
  "exportState counter_nes (Some n) = Returns (JObj [(''frame'', JNum (int (frame_no n)))])"
  by (simp add: exportState_def counter_nes_def counter_toJSON_def)

lemma future_session_fields:
  "getSaveStorageKey future_session = Some game_key"
  "localStorage future_session game_key = Some (show_json future_save)"
  "nesRef future_session
     = Some \<lparr>frame_no = 1, rom = [CHR ''N'', CHR ''E'', CHR ''S'', char_of (26::nat)], held = []\<rparr>"
  "romBinRef future_session = Some [CHR ''N'', CHR ''E'', CHR ''S'', char_of (26::nat)]"
  by (simp_all add: future_session_def getSaveStorageKey_eq loaded_game_fields game_key_def)

lemma show_json_future_nonempty: "show_json future_save \<noteq> []"
  by (simp add: future_save_def)

lemma counter_loadROM_game:
  "loadROM counter_nes (Some [CHR ''N'', CHR ''E'', CHR ''S'', char_of (26::nat)]) (NES counter_nes)
     = (\<lparr>frame_no = 0, rom = [CHR ''N'', CHR ''E'', CHR ''S'', char_of (26::nat)], held = []\<rparr>,
        None)"
  by (simp add: counter_nes_def counter_loadROM_def)

lemma counter_import:
  "importState counter_nes (Some n) (JObj [(''frame'', JNum k)])
     = (Some (n\<lparr>frame_no := nat k\<rparr>), None)"
  by (simp add: importState_def counter_nes_def counter_fromJSON_def)

lemma counter_frame_eq:
  "frame counter_nes n
     = (n\<lparr>frame_no := Suc (frame_no n)\<rparr>,
        [OnAudioSample 0 0, OnFrame (replicate (W * H) (of_nat (frame_no n)))], None)"
  by (simp add: counter_nes_def counter_frame_def)

lemma load_future_session:
  "nesRef (loadStateFromLocalStorage counter_nes (browser [future_save]) future_session)
     = Some \<lparr>frame_no = 8, rom = [CHR ''N'', CHR ''E'', CHR ''S'', char_of (26::nat)], held = []\<rparr>
   \<and> status (loadStateFromLocalStorage counter_nes (browser [future_save]) future_session)
     = ''Loaded save ('' @ quoted ''2031-01-01T00:00:00.000Z'' @ '')''"
proof -
  have p: "JSON_parse (browser [future_save]) (show_json future_save) = Returns future_save"
    by (simp add: browser_def)
  have g: "getItem_truthy (localStorage future_session) game_key = Some (show_json future_save)"
    using show_json_future_nonempty
    by (simp add: getItem_truthy_def future_session_fields)
  have st: "falsy_to_None (get_prop ''state'' (Some future_save))
      = Some (JObj [(''frame'', JNum 7)])"
    by (simp add: future_save_def falsy_to_None_def)
  have at: "falsy_to_None (get_prop ''savedAt'' (get_prop ''meta'' (Some future_save)))
      = Some (JStr ''2031-01-01T00:00:00.000Z'')"
    by (simp add: future_save_def falsy_to_None_def)
  have loc: "toLocaleString (browser [future_save]) = show_json"
    by (simp add: browser_def)
  show ?thesis
    by (simp add: loadStateFromLocalStorage_def future_session_fields g p st at loc Let_def
        stop_def counter_loadROM_game counter_import drawOneFrame_eq counter_frame_eq)
qed

lemma payload_of_loaded_game:
  "payload_of (browser known) loaded_game (JObj [(''frame'', JNum 1)]) = game_save"
  by (simp add: payload_of_def game_save_def loaded_game_fields browser_def SAVE_VERSION_def)

lemma game_key_eq: "''retro-arcade-web:nes:savestate:v1:'' @ ''game.nes:4:7c826827'' = game_key"
  by (simp add: game_key_def)

lemma show_json_game_save_nonempty: "show_json game_save \<noteq> []"
  by (simp add: game_save_def)

lemma save_load_loaded_game:
  "saveStateToLocalStorage counter_nes (browser [game_save]) False loaded_game
     = (True,
        loaded_game
          \<lparr>localStorage := [game_key \<mapsto> show_json game_save],
           hasSave := True,
           lastSavedAt := Some (JStr ''2024-05-01T12:00:00.000Z''),
           status := ''Saved state ('' @ quoted ''2024-05-01T12:00:00.000Z'' @ '')''\<rparr>)"
  "nesRef
     (loadStateFromLocalStorage counter_nes (browser [game_save])
        (snd (saveStateToLocalStorage counter_nes (browser [game_save]) False loaded_game)))
     = Some \<lparr>frame_no = 2, rom = [CHR ''N'', CHR ''E'', CHR ''S'', char_of (26::nat)], held = []\<rparr>"
proof -
  let ?n = "\<lparr>frame_no = 1, rom = [CHR ''N'', CHR ''E'', CHR ''S'', char_of (26::nat)], held = []\<rparr>"
  let ?env = "browser [game_save]"
  have save: "saveStateToLocalStorage counter_nes ?env False loaded_game
     = (True,
        loaded_game
          \<lparr>localStorage := [game_key \<mapsto> show_json game_save],
           hasSave := True,
           lastSavedAt := Some (JStr ''2024-05-01T12:00:00.000Z''),
           status := ''Saved state ('' @ quoted ''2024-05-01T12:00:00.000Z'' @ '')''\<rparr>)"
    using save_success [where s = loaded_game and k = "''game.nes:4:7c826827''"
        and n = ?n and b = counter_nes and state = "JObj [(''frame'', JNum 1)]" and env = ?env
        and silent = False]
    by (simp add: loaded_game_fields counter_export payload_of_loaded_game game_key_eq)
      (simp add: browser_def game_key_def)
  show "saveStateToLocalStorage counter_nes ?env False loaded_game
     = (True,
        loaded_game
          \<lparr>localStorage := [game_key \<mapsto> show_json game_save],
           hasSave := True,
           lastSavedAt := Some (JStr ''2024-05-01T12:00:00.000Z''),
           status := ''Saved state ('' @ quoted ''2024-05-01T12:00:00.000Z'' @ '')''\<rparr>)"
    by (rule save)
  let ?s1 = "loaded_game
          \<lparr>localStorage := [game_key \<mapsto> show_json game_save],
           hasSave := True,
           lastSavedAt := Some (JStr ''2024-05-01T12:00:00.000Z''),
           status := ''Saved state ('' @ quoted ''2024-05-01T12:00:00.000Z'' @ '')''\<rparr>"
  have p: "JSON_parse ?env (show_json game_save) = Returns game_save"
    by (simp add: browser_def)
  have st: "get_prop ''state'' (Some game_save) = Some (JObj [(''frame'', JNum 1)])"
    by (simp add: game_save_def)
  have load: "loadStateFromLocalStorage counter_nes ?env ?s1
      = (drawOneFrame counter_nes
           (?s1\<lparr>runningRef := False, rafRef := None, nesRef := Some ?n, audioQRef := [],
              status :=
                ''Loaded save (''
                @ toLocaleString ?env
                    (case falsy_to_None (get_prop ''savedAt'' (get_prop ''meta'' (Some game_save)))
                     of Some d \<Rightarrow> d | None \<Rightarrow> JNum (Date_now ?env))
                @ '')''\<rparr>))
        \<lparr>surfaceFocused := True\<rparr>"
    by (rule load_success [where k = "''game.nes:4:7c826827''" and raw = "show_json game_save"
          and state = "JObj [(''frame'', JNum 1)]"
          and fresh = "\<lparr>frame_no = 0, rom = [CHR ''N'', CHR ''E'', CHR ''S'', char_of (26::nat)],
             held = []\<rparr>"])
      (simp_all add: loaded_game_fields game_key_def show_json_game_save_nonempty p st
        counter_loadROM_game counter_import)
  show "nesRef
     (loadStateFromLocalStorage counter_nes ?env
        (snd (saveStateToLocalStorage counter_nes ?env False loaded_game)))
     = Some \<lparr>frame_no = 2, rom = [CHR ''N'', CHR ''E'', CHR ''S'', char_of (26::nat)], held = []\<rparr>"
    by (simp only: save snd_conv load) (simp add: drawOneFrame_eq counter_frame_eq)
qed

lemma playing_game_eq:
  "playing_game
     = loaded_game\<lparr>runningRef := True,
         status := ''Playing'' @ ellipsis @ '' (Press Enter = Start)'',
         rafRef := Some 1\<rparr>"
  by (simp add: playing_game_def play_def ensureAudio_def quiet_browser_def browser_def
      loaded_game_eq mounted_def Let_def)

lemma play_loaded_game:
  "play (browser []) loaded_game
     = (loaded_game\<lparr>audioCtxRef := Some Suspended, audioNodeRef := True, runningRef := True,
          status := ''Playing'' @ ellipsis @ '' (Press Enter = Start)'',
          rafRef := Some 1\<rparr>, None)"
  by (simp add: play_def ensureAudio_def browser_def loaded_game_eq mounted_def Let_def)

lemma rejected_while_playing_fields:
  "runningRef rejected_while_playing"
  "loadedName rejected_while_playing = []"
  "status rejected_while_playing = ''Failed to load ROM: Not a valid NES ROM.''"
proof -
  have eq: "rejected_while_playing
      = loadRom counter_nes (browser []) (Some bad_nes) (fst (play (browser []) loaded_game))"
    by (simp add: rejected_while_playing_def loadRom_def play_loaded_game loaded_game_fields)
  note r = loadRom_rejected [OF bad_nes_ends counter_rejects_bad]
  show "runningRef rejected_while_playing"
    unfolding eq r by (simp add: play_loaded_game)
  show "loadedName rejected_while_playing = []"
    unfolding eq r by simp
  show "status rejected_while_playing = ''Failed to load ROM: Not a valid NES ROM.''"
    unfolding eq r by simp
qed



lemma counter_loadROM_game_nes:
  "loadROM counter_nes (Some (map (\<lambda>byte. char_of (unat byte)) (bytes game_nes))) (NES counter_nes)
     = (\<lparr>frame_no = 0, rom = [CHR ''N'', CHR ''E'', CHR ''S'', char_of (26::nat)], held = []\<rparr>,
        None)"
  by (simp only: game_bin counter_loadROM_game)

lemma overlapped_loads_fields:
  "loadedName overlapped_loads = ''game.nes''"
  "romBinRef overlapped_loads = Some (map (\<lambda>byte. char_of (unat byte)) (bytes bad_nes))"
  "romNameRef overlapped_loads = ''bad.nes''"
  "nesRef overlapped_loads = Some (NES counter_nes)"
  "runningRef overlapped_loads = False"
  "status overlapped_loads = ''Failed to load ROM: Not a valid NES ROM.''"
  "pending overlapped_loads = []"
proof -
  let ?s1 = "loadRom_continue counter_nes (browser []) game_nes
               ((mounted counter_nes Map.empty)
                  \<lparr>status := ''Loading ROM'' @ ellipsis, loadedName := [],
                   pending := [bad_nes]\<rparr>)"
  have eq: "overlapped_loads
      = loadRom_continue counter_nes (browser []) bad_nes (?s1\<lparr>pending := []\<rparr>)"
    by (simp add: overlapped_loads_def loadRom_begin_def file_read_def game_nes_ends
        bad_nes_ends mounted_def)
  note a = loadRom_continue_accepted [OF counter_loadROM_game_nes]
  note r = loadRom_continue_rejected [OF counter_rejects_bad]
  show "loadedName overlapped_loads = ''game.nes''"
    unfolding eq r by (simp add: a game_name)
  show "romBinRef overlapped_loads = Some (map (\<lambda>byte. char_of (unat byte)) (bytes bad_nes))"
    unfolding eq r by simp
  show "romNameRef overlapped_loads = ''bad.nes''"
    unfolding eq r by (simp add: bad_nes_def)
  show "nesRef overlapped_loads = Some (NES counter_nes)"
    unfolding eq r by simp
  show "runningRef overlapped_loads = False"
    unfolding eq r by (simp add: a)
  show "status overlapped_loads = ''Failed to load ROM: Not a valid NES ROM.''"
    unfolding eq r by simp
  show "pending overlapped_loads = []"
    unfolding eq r by simp
qed



section \<open>Claims about the session\<close>

text \<open>
  C8. For a file whose name ends in \<^verbatim>\<open>.nes\<close> (in any letter case), \<^verbatim>\<open>loadRom\<close> sets the ROM
  identity key to the file name, a colon, the number of bytes in decimal, a colon, and the
  hash of the first 20000 bytes: the unsigned 32-bit value of \<open>h \<mapsto> 33 h XOR c\<close> folded over
  them from 5381, in lower-case hexadecimal. The key depends on the file alone: any two
  loads of the same name and bytes, from any session state, engine build or browser, give
  the same key.
\<close>

theorem rom_identity_key:
  assumes "endsWith (toLowerCase (name f)) ''.nes''"
  shows "romKeyRef (loadRom b env (Some f) s)
           = Some (name f @ '':'' @ toString 10 (length (bytes f)) @ '':''
               @ toString 16
                   (unat (fold (\<lambda>c h. (h * 33) XOR of_nat (of_char c))
                            (take 20000 (map (\<lambda>byte. char_of (unat byte)) (bytes f)))
                            (5381 :: 32 word))))
       \<and> romKeyRef (loadRom b' env' (Some f) s') = romKeyRef (loadRom b env (Some f) s)"
  using assms by (simp add: romKeyRef_loadRom rom_key_def djb2Hash_def djb2_loop_fold)

theorem rom_identity_key_witness:
  "endsWith (toLowerCase (name game_nes)) ''.nes''
   \<and> romKeyRef (loadRom counter_nes (browser []) (Some game_nes) (mounted counter_nes Map.empty))
       = Some ''game.nes:4:7c826827''"
proof -
  have h: "endsWith (toLowerCase (name game_nes)) ''.nes''"
    by (simp add: endsWith_def toLowerCase_def lower_char_def game_nes_def)
  have v: "name game_nes @ '':'' @ toString 10 (length (bytes game_nes)) @ '':''
      @ toString 16
          (unat (fold (\<lambda>c h. (h * 33) XOR of_nat (of_char c))
                   (take 20000 (map (\<lambda>byte. char_of (unat byte)) (bytes game_nes)))
                   (5381 :: 32 word)))
      = ''game.nes:4:7c826827''"
    by (simp add: game_nes_def toString.simps digit_char_def)
  show ?thesis
    using rom_identity_key [OF h, of counter_nes "browser []" "mounted counter_nes Map.empty"
        counter_nes "browser []" "mounted counter_nes Map.empty"] h
    unfolding v by blast
qed


text \<open>
  C1. Let a ROM be bound and the engine instance \<open>n\<close> export the truthy snapshot
  \<open>state\<close>, let the store accept the write and \<^verbatim>\<open>JSON.parse\<close> read back the envelope that
  \<^verbatim>\<open>JSON.stringify\<close> wrote, and let importing \<open>state\<close> into a fresh instance loaded with the
  retained ROM give \<open>n\<close> again (import is the inverse of export). Then saving succeeds, and
  the next \<open>N\<close> frames rendered after it by a load are the next \<open>N\<close> frames of the original
  instance, for every \<open>N \<ge> 1\<close>. The first of them is rendered by
  \<^verbatim>\<open>loadStateFromLocalStorage\<close> itself, which ends with \<^verbatim>\<open>drawOneFrame\<close>: it paints the canvas
  with the first frame the original instance would have produced and leaves the engine and
  the canvas as the original session has them after drawing that frame. The other \<open>N - 1\<close>
  are the next frames of the instance the load leaves, which goes on where the original
  would.
\<close>

theorem save_load_round_trip:
  assumes "romKeyRef s = Some k" and "k \<noteq> []" and "nesRef s = Some n"
    and "exportState b (Some n) = Returns state" and "truthy (Some state)"
    and "setItem_throws env (localStorage s) (''retro-arcade-web:nes:savestate:v1:'' @ k)
           (JSON_stringify env (payload_of env s state)) = None"
    and "JSON_stringify env (payload_of env s state) \<noteq> []"
    and "JSON_parse env' (JSON_stringify env (payload_of env s state))
           = Returns (payload_of env s state)"
    and "loadROM b (romBinRef s) (NES b) = (fresh, None)"
    and "importState b (Some fresh) state = (Some n, None)"
  shows "fst (saveStateToLocalStorage b env silent s) = True
       \<and> nesRef (loadStateFromLocalStorage b env' (snd (saveStateToLocalStorage b env silent s)))
           = Some (fst (frame b n))
       \<and> nesRef (loadStateFromLocalStorage b env' (snd (saveStateToLocalStorage b env silent s)))
           = nesRef (drawOneFrame b s)
       \<and> canvasRef (loadStateFromLocalStorage b env' (snd (saveStateToLocalStorage b env silent s)))
           = canvasRef (drawOneFrame b s)
       \<and> canvasRef (drawOneFrame b s) = paint (fst (snd (frame b n))) (canvasRef s)
       \<and> canvasRef (loadStateFromLocalStorage b env' (snd (saveStateToLocalStorage b env silent s)))
           = paint (fst (snd (frame b n))) (canvasRef s)
       \<and> (\<forall>N\<ge>1. \<exists>n'.
             nesRef (loadStateFromLocalStorage b env'
                       (snd (saveStateToLocalStorage b env silent s))) = Some n'
             \<and> fst (snd (frame b n)) # frames b (N - 1) n' = frames b N n)
       \<and> (\<forall>N n'.
             nesRef (loadStateFromLocalStorage b env'
                       (snd (saveStateToLocalStorage b env silent s))) = Some n' \<longrightarrow>
             frames b (Suc N) n = fst (snd (frame b n)) # frames b N n')"
proof -
  let ?raw = "JSON_stringify env (payload_of env s state)"
  let ?s1 = "s\<lparr>localStorage :=
                   (localStorage s) (''retro-arcade-web:nes:savestate:v1:'' @ k \<mapsto> ?raw),
                 hasSave := True,
                 lastSavedAt := Some (JStr (nowIso env)),
                 status :=
                   (if silent then status s
                    else ''Saved state ('' @ toLocaleString env (JStr (nowIso env)) @ '')'')\<rparr>"
  have save: "saveStateToLocalStorage b env silent s = (True, ?s1)"
    using assms(1,2,3,4,6) by (rule save_success)
  have st: "get_prop ''state'' (Some (payload_of env s state)) = Some state"
    by (simp add: payload_of_def)
  have load: "loadStateFromLocalStorage b env' ?s1
      = (drawOneFrame b
           (?s1\<lparr>runningRef := False, rafRef := None, nesRef := Some n, audioQRef := [],
              status :=
                ''Loaded save (''
                @ toLocaleString env'
                    (case falsy_to_None
                            (get_prop ''savedAt''
                               (get_prop ''meta'' (Some (payload_of env s state))))
                     of Some d \<Rightarrow> d | None \<Rightarrow> JNum (Date_now env'))
                @ '')''\<rparr>))
        \<lparr>surfaceFocused := True\<rparr>"
    by (rule load_success [where k = k and raw = ?raw and state = state and fresh = fresh])
      (use assms st in simp_all)
  have res: "loadStateFromLocalStorage b env' (snd (saveStateToLocalStorage b env silent s))
      = (drawOneFrame b
           (?s1\<lparr>runningRef := False, rafRef := None, nesRef := Some n, audioQRef := [],
              status :=
                ''Loaded save (''
                @ toLocaleString env'
                    (case falsy_to_None
                            (get_prop ''savedAt''
                               (get_prop ''meta'' (Some (payload_of env s state))))
                     of Some d \<Rightarrow> d | None \<Rightarrow> JNum (Date_now env'))
                @ '')''\<rparr>))
        \<lparr>surfaceFocused := True\<rparr>"
    by (simp only: save snd_conv load)
  have ok: "fst (saveStateToLocalStorage b env silent s) = True"
    by (simp only: save fst_conv)
  have next_frames: "fst (snd (frame b n)) # frames b (N - 1) (fst (frame b n)) = frames b N n"
    if "1 \<le> N" for N
    using that by (cases N) (simp_all add: frames_Suc del: frames.simps)
  show ?thesis
    unfolding res ok using assms(3) next_frames
    by (auto simp add: drawOneFrame_eq frames_Suc simp del: frames.simps)
qed

theorem save_load_round_trip_witness:
  "romKeyRef loaded_game = Some ''game.nes:4:7c826827''
   \<and> nesRef loaded_game
       = Some \<lparr>frame_no = 1, rom = [CHR ''N'', CHR ''E'', CHR ''S'', char_of (26::nat)], held = []\<rparr>
   \<and> exportState counter_nes
         (Some \<lparr>frame_no = 1, rom = [CHR ''N'', CHR ''E'', CHR ''S'', char_of (26::nat)],
            held = []\<rparr>)
       = Returns (JObj [(''frame'', JNum 1)])
   \<and> truthy (Some (JObj [(''frame'', JNum 1)]))
   \<and> JSON_parse (browser [game_save])
         (JSON_stringify (browser [game_save])
            (payload_of (browser [game_save]) loaded_game (JObj [(''frame'', JNum 1)])))
       = Returns (payload_of (browser [game_save]) loaded_game (JObj [(''frame'', JNum 1)]))
   \<and> loadROM counter_nes (romBinRef loaded_game) (NES counter_nes)
       = (\<lparr>frame_no = 0, rom = [CHR ''N'', CHR ''E'', CHR ''S'', char_of (26::nat)], held = []\<rparr>,
          None)
   \<and> importState counter_nes
         (Some \<lparr>frame_no = 0, rom = [CHR ''N'', CHR ''E'', CHR ''S'', char_of (26::nat)],
            held = []\<rparr>)
         (JObj [(''frame'', JNum 1)])
       = (Some \<lparr>frame_no = 1, rom = [CHR ''N'', CHR ''E'', CHR ''S'', char_of (26::nat)],
            held = []\<rparr>, None)
   \<and> fst (saveStateToLocalStorage counter_nes (browser [game_save]) False loaded_game) = True
   \<and> nesRef
         (loadStateFromLocalStorage counter_nes (browser [game_save])
            (snd (saveStateToLocalStorage counter_nes (browser [game_save]) False loaded_game)))
       = nesRef (drawOneFrame counter_nes loaded_game)
   \<and> canvasRef
         (loadStateFromLocalStorage counter_nes (browser [game_save])
            (snd (saveStateToLocalStorage counter_nes (browser [game_save]) False loaded_game)))
       = canvasRef (drawOneFrame counter_nes loaded_game)
   \<and> (1::nat) \<le> 3
   \<and> (\<exists>n'. nesRef
               (loadStateFromLocalStorage counter_nes (browser [game_save])
                  (snd (saveStateToLocalStorage counter_nes (browser [game_save]) False
                          loaded_game)))
             = Some n'
           \<and> fst (snd (frame counter_nes
                          \<lparr>frame_no = 1, rom = [CHR ''N'', CHR ''E'', CHR ''S'', char_of (26::nat)],
                             held = []\<rparr>))
               # frames counter_nes (3 - 1) n'
             = frames counter_nes 3
                 \<lparr>frame_no = 1, rom = [CHR ''N'', CHR ''E'', CHR ''S'', char_of (26::nat)],
                    held = []\<rparr>)"
proof -
  let ?n = "\<lparr>frame_no = 1, rom = [CHR ''N'', CHR ''E'', CHR ''S'', char_of (26::nat)], held = []\<rparr>"
  let ?fresh = "\<lparr>frame_no = 0, rom = [CHR ''N'', CHR ''E'', CHR ''S'', char_of (26::nat)],
    held = []\<rparr>"
  let ?state = "JObj [(''frame'', JNum 1)]"
  let ?env = "browser [game_save]"
  have h1: "romKeyRef loaded_game = Some ''game.nes:4:7c826827''"
    by (simp add: loaded_game_fields)
  have h2: "''game.nes:4:7c826827'' \<noteq> []"
    by simp
  have h3: "nesRef loaded_game = Some ?n"
    by (simp add: loaded_game_fields)
  have h4: "exportState counter_nes (Some ?n) = Returns ?state"
    by (simp add: counter_export)
  have h5: "truthy (Some ?state)"
    by simp
  have h6: "setItem_throws ?env (localStorage loaded_game)
      (''retro-arcade-web:nes:savestate:v1:'' @ ''game.nes:4:7c826827'')
      (JSON_stringify ?env (payload_of ?env loaded_game ?state)) = None"
    by (simp add: browser_def)
  have h7: "JSON_stringify ?env (payload_of ?env loaded_game ?state) \<noteq> []"
    unfolding payload_of_loaded_game
    using show_json_game_save_nonempty by (simp add: browser_def)
  have h8: "JSON_parse ?env (JSON_stringify ?env (payload_of ?env loaded_game ?state))
      = Returns (payload_of ?env loaded_game ?state)"
    by (simp add: payload_of_loaded_game) (simp add: browser_def)
  have h9: "loadROM counter_nes (romBinRef loaded_game) (NES counter_nes) = (?fresh, None)"
    by (simp add: loaded_game_fields counter_loadROM_game)
  have h10: "importState counter_nes (Some ?fresh) ?state = (Some ?n, None)"
    by (simp add: counter_import)
  note t = save_load_round_trip [OF h1 h2 h3 h4 h5 h6 h7 h8 h9 h10, of False]
  have three: "(1::nat) \<le> 3" by simp
  note t3 = t [THEN conjunct2, THEN conjunct2, THEN conjunct2, THEN conjunct2, THEN conjunct2,
      THEN conjunct2, THEN conjunct1, rule_format, OF three]
  show ?thesis
    using h1 h3 h4 h5 h8 h9 h10 t three t3 by blast
qed

text \<open>
  C2. With a storage key bound, \<^verbatim>\<open>loadStateFromLocalStorage\<close> reports
  \<^verbatim>\<open>No save state found for this ROM.\<close> when the store holds nothing, or the empty string,
  under the key; \<^verbatim>\<open>Load failed: \<close> and the parser's message when the stored text does not
  parse; and \<^verbatim>\<open>Save state data is invalid.\<close> when the parsed envelope has no truthy
  \<^verbatim>\<open>state\<close>. In each of these cases the session is unchanged but for the status: the
  engine instance, the run flag and the queue are as before. The version in the envelope
  is never consulted. Whatever \<^verbatim>\<open>JSON.parse\<close> returns for the record under the key, if it
  has a truthy \<^verbatim>\<open>state\<close> that the engine imports into a fresh instance loaded with the
  retained ROM, the load goes through: the loop is stopped, the engine replaced by the
  restored one, the queue emptied, one frame drawn and the play surface focused. And the
  load reads the parsed record through \<^verbatim>\<open>payload.state\<close> and \<^verbatim>\<open>payload.meta.savedAt\<close> only: two
  records that agree on these two are loaded alike, whatever else they hold, their
  \<^verbatim>\<open>meta.version\<close> included.
\<close>

theorem load_failures_leave_session:
  "(getSaveStorageKey s = Some key \<and> \<not> truthy_str (localStorage s key) \<longrightarrow>
      loadStateFromLocalStorage b env s = s\<lparr>status := ''No save state found for this ROM.''\<rparr>)
   \<and> (getSaveStorageKey s = Some key \<and> localStorage s key = Some raw \<and> raw \<noteq> []
        \<and> JSON_parse env raw = Throws m \<longrightarrow>
      loadStateFromLocalStorage b env s = s\<lparr>status := ''Load failed: '' @ m\<rparr>)
   \<and> (getSaveStorageKey s = Some key \<and> localStorage s key = Some raw \<and> raw \<noteq> []
        \<and> JSON_parse env raw = Returns payload
        \<and> \<not> truthy (get_prop ''state'' (Some payload)) \<longrightarrow>
      loadStateFromLocalStorage b env s = s\<lparr>status := ''Save state data is invalid.''\<rparr>)
   \<and> (getSaveStorageKey s = Some key \<and> localStorage s key = Some raw \<and> raw \<noteq> []
        \<and> JSON_parse env raw = Returns payload
        \<and> get_prop ''state'' (Some payload) = Some state \<and> truthy (Some state)
        \<and> loadROM b (romBinRef s) (NES b) = (fresh, None)
        \<and> importState b (Some fresh) state = (fresh', None) \<longrightarrow>
      loadStateFromLocalStorage b env s
        = (drawOneFrame b
             (s\<lparr>runningRef := False, rafRef := None, nesRef := fresh', audioQRef := [],
                status :=
                  ''Loaded save (''
                  @ toLocaleString env
                      (case falsy_to_None
                              (get_prop ''savedAt'' (get_prop ''meta'' (Some payload)))
                       of Some d \<Rightarrow> d | None \<Rightarrow> JNum (Date_now env))
                  @ '')''\<rparr>))
          \<lparr>surfaceFocused := True\<rparr>)
   \<and> (getSaveStorageKey s = Some key \<and> localStorage s key = Some raw
        \<and> JSON_parse env raw = Returns payload
        \<and> get_prop ''state'' (Some payload') = get_prop ''state'' (Some payload)
        \<and> get_prop ''savedAt'' (get_prop ''meta'' (Some payload'))
            = get_prop ''savedAt'' (get_prop ''meta'' (Some payload)) \<longrightarrow>
      loadStateFromLocalStorage b env s
        = loadStateFromLocalStorage b
            (env\<lparr>JSON_parse := (JSON_parse env) (raw := Returns payload')\<rparr>) s)"
proof -
  have a: "loadStateFromLocalStorage b env s
      = s\<lparr>status := ''No save state found for this ROM.''\<rparr>"
    if "getSaveStorageKey s = Some key" and "\<not> truthy_str (localStorage s key)"
    using that by (simp add: loadStateFromLocalStorage_def getItem_truthy_None)
  have b: "loadStateFromLocalStorage b env s = s\<lparr>status := ''Load failed: '' @ m\<rparr>"
    if "getSaveStorageKey s = Some key" and "localStorage s key = Some raw" and "raw \<noteq> []"
      and "JSON_parse env raw = Throws m"
    using that by (simp add: loadStateFromLocalStorage_def getItem_truthy_Some)
  have c: "loadStateFromLocalStorage b env s = s\<lparr>status := ''Save state data is invalid.''\<rparr>"
    if "getSaveStorageKey s = Some key" and "localStorage s key = Some raw" and "raw \<noteq> []"
      and "JSON_parse env raw = Returns payload"
      and "\<not> truthy (get_prop ''state'' (Some payload))"
    using that
    by (simp add: loadStateFromLocalStorage_def getItem_truthy_Some falsy_to_None_falsy)
  have d: "loadStateFromLocalStorage b env s
        = (drawOneFrame b
             (s\<lparr>runningRef := False, rafRef := None, nesRef := fresh', audioQRef := [],
                status :=
                  ''Loaded save (''
                  @ toLocaleString env
                      (case falsy_to_None
                              (get_prop ''savedAt'' (get_prop ''meta'' (Some payload)))
                       of Some d \<Rightarrow> d | None \<Rightarrow> JNum (Date_now env))
                  @ '')''\<rparr>))
          \<lparr>surfaceFocused := True\<rparr>"
    if "getSaveStorageKey s = Some key" and "localStorage s key = Some raw" and "raw \<noteq> []"
      and "JSON_parse env raw = Returns payload"
      and "get_prop ''state'' (Some payload) = Some state" and "truthy (Some state)"
      and "loadROM b (romBinRef s) (NES b) = (fresh, None)"
      and "importState b (Some fresh) state = (fresh', None)"
    using that
    by (simp add: loadStateFromLocalStorage_def getItem_truthy_Some falsy_to_None_truthy
        Let_def stop_def)
  have e: "loadStateFromLocalStorage b env s
        = loadStateFromLocalStorage b
            (env\<lparr>JSON_parse := (JSON_parse env) (raw := Returns payload')\<rparr>) s"
    if "getSaveStorageKey s = Some key" and "localStorage s key = Some raw"
      and "JSON_parse env raw = Returns payload"
      and "get_prop ''state'' (Some payload') = get_prop ''state'' (Some payload)"
      and "get_prop ''savedAt'' (get_prop ''meta'' (Some payload'))
            = get_prop ''savedAt'' (get_prop ''meta'' (Some payload))"
    using that
    by (cases "raw = []")
      (simp_all add: loadStateFromLocalStorage_def getItem_truthy_def Let_def
        split: option.splits prod.splits)
  show ?thesis
    using a b c d e by blast
qed

text \<open>
  An envelope under the current key whose \<^verbatim>\<open>meta.version\<close> is 2 is not refused: the load
  succeeds and replaces the engine instance by the restored one, one frame on.
\<close>

theorem load_ignores_envelope_version:
  "getSaveStorageKey future_session = Some game_key
   \<and> localStorage future_session game_key = Some (show_json future_save)
   \<and> JSON_parse (browser [future_save]) (show_json future_save) = Returns future_save
   \<and> get_prop ''version'' (get_prop ''meta'' (Some future_save)) = Some (JNum 2)
   \<and> int SAVE_VERSION < 2
   \<and> nesRef future_session
       = Some \<lparr>frame_no = 1, rom = [CHR ''N'', CHR ''E'', CHR ''S'', char_of (26::nat)], held = []\<rparr>
   \<and> nesRef (loadStateFromLocalStorage counter_nes (browser [future_save]) future_session)
       = Some \<lparr>frame_no = 8, rom = [CHR ''N'', CHR ''E'', CHR ''S'', char_of (26::nat)], held = []\<rparr>
   \<and> nesRef (loadStateFromLocalStorage counter_nes (browser [future_save]) future_session)
       \<noteq> nesRef future_session
   \<and> status (loadStateFromLocalStorage counter_nes (browser [future_save]) future_session)
       = ''Loaded save ('' @ quoted ''2031-01-01T00:00:00.000Z'' @ '')''"
proof -
  have p: "JSON_parse (browser [future_save]) (show_json future_save) = Returns future_save"
    by (simp add: browser_def)
  have v: "get_prop ''version'' (get_prop ''meta'' (Some future_save)) = Some (JNum 2)"
    by (simp add: future_save_def)
  have n: "int SAVE_VERSION < 2"
    by (simp add: SAVE_VERSION_def)
  show ?thesis
    using p v n load_future_session by (simp add: future_session_fields)
qed

theorem load_failures_leave_session_witness:
  "getSaveStorageKey loaded_game = Some game_key
   \<and> \<not> truthy_str (localStorage loaded_game game_key)
   \<and> loadStateFromLocalStorage counter_nes (browser []) loaded_game
       = loaded_game\<lparr>status := ''No save state found for this ROM.''\<rparr>
   \<and> JSON_parse (browser []) ''not json'' = Throws ''Unexpected token''
   \<and> loadStateFromLocalStorage counter_nes (browser [])
         (loaded_game\<lparr>localStorage := [game_key \<mapsto> ''not json'']\<rparr>)
       = loaded_game\<lparr>localStorage := [game_key \<mapsto> ''not json''],
           status := ''Load failed: Unexpected token''\<rparr>
   \<and> JSON_parse (browser [JObj []]) ''{}'' = Returns (JObj [])
   \<and> \<not> truthy (get_prop ''state'' (Some (JObj [])))
   \<and> loadStateFromLocalStorage counter_nes (browser [JObj []])
         (loaded_game\<lparr>localStorage := [game_key \<mapsto> ''{}'']\<rparr>)
       = loaded_game\<lparr>localStorage := [game_key \<mapsto> ''{}''],
           status := ''Save state data is invalid.''\<rparr>
   \<and> JSON_parse (browser [future_save]) (show_json future_save) = Returns future_save
   \<and> get_prop ''state'' (Some future_save) = Some (JObj [(''frame'', JNum 7)])
   \<and> get_prop ''version'' (get_prop ''meta'' (Some future_save)) = Some (JNum 2)
   \<and> loadStateFromLocalStorage counter_nes (browser [future_save]) future_session
       = (drawOneFrame counter_nes
            (future_session
               \<lparr>runningRef := False, rafRef := None,
                nesRef :=
                  Some \<lparr>frame_no = 7, rom = [CHR ''N'', CHR ''E'', CHR ''S'', char_of (26::nat)],
                          held = []\<rparr>,
                audioQRef := [],
                status := ''Loaded save ('' @ quoted ''2031-01-01T00:00:00.000Z'' @ '')''\<rparr>))
         \<lparr>surfaceFocused := True\<rparr>
   \<and> loadStateFromLocalStorage counter_nes (browser [future_save]) future_session
       = loadStateFromLocalStorage counter_nes
           ((browser [future_save])
              \<lparr>JSON_parse :=
                 (JSON_parse (browser [future_save]))
                   (show_json future_save :=
                      Returns
                        (JObj [(''meta'',
                                JObj [(''version'', JNum (int SAVE_VERSION)),
                                      (''romName'', JStr ''game.nes''),
                                      (''romKey'', JStr ''game.nes:4:7c826827''),
                                      (''savedAt'', JStr ''2031-01-01T00:00:00.000Z'')]),
                               (''state'', JObj [(''frame'', JNum 7)])]))\<rparr>)
           future_session"
proof -
  have k: "getSaveStorageKey loaded_game = Some game_key"
    by (simp add: getSaveStorageKey_eq loaded_game_fields game_key_def)
  have ha: "getSaveStorageKey loaded_game = Some game_key
      \<and> \<not> truthy_str (localStorage loaded_game game_key)"
    using k by (simp add: loaded_game_fields)
  have hb: "getSaveStorageKey (loaded_game\<lparr>localStorage := [game_key \<mapsto> ''not json'']\<rparr>)
        = Some game_key
      \<and> localStorage (loaded_game\<lparr>localStorage := [game_key \<mapsto> ''not json'']\<rparr>) game_key
        = Some ''not json''
      \<and> ''not json'' \<noteq> []
      \<and> JSON_parse (browser []) ''not json'' = Throws ''Unexpected token''"
    by (simp add: getSaveStorageKey_eq loaded_game_fields game_key_def browser_def)
  have hc: "getSaveStorageKey (loaded_game\<lparr>localStorage := [game_key \<mapsto> ''{}'']\<rparr>)
        = Some game_key
      \<and> localStorage (loaded_game\<lparr>localStorage := [game_key \<mapsto> ''{}'']\<rparr>) game_key
        = Some ''{}''
      \<and> ''{}'' \<noteq> []
      \<and> JSON_parse (browser [JObj []]) ''{}'' = Returns (JObj [])
      \<and> \<not> truthy (get_prop ''state'' (Some (JObj [])))"
    by (simp add: getSaveStorageKey_eq loaded_game_fields game_key_def browser_def)
  let ?fresh = "\<lparr>frame_no = 0, rom = [CHR ''N'', CHR ''E'', CHR ''S'', char_of (26::nat)],
    held = []\<rparr>"
  let ?v1 = "JObj [(''meta'',
                    JObj [(''version'', JNum (int SAVE_VERSION)),
                          (''romName'', JStr ''game.nes''),
                          (''romKey'', JStr ''game.nes:4:7c826827''),
                          (''savedAt'', JStr ''2031-01-01T00:00:00.000Z'')]),
                   (''state'', JObj [(''frame'', JNum 7)])]"
  have p: "JSON_parse (browser [future_save]) (show_json future_save) = Returns future_save"
    by (simp add: browser_def)
  have st: "get_prop ''state'' (Some future_save) = Some (JObj [(''frame'', JNum 7)])"
    by (simp add: future_save_def)
  have ver: "get_prop ''version'' (get_prop ''meta'' (Some future_save)) = Some (JNum 2)"
    by (simp add: future_save_def)
  have hd: "getSaveStorageKey future_session = Some game_key
      \<and> localStorage future_session game_key = Some (show_json future_save)
      \<and> show_json future_save \<noteq> []
      \<and> JSON_parse (browser [future_save]) (show_json future_save) = Returns future_save
      \<and> get_prop ''state'' (Some future_save) = Some (JObj [(''frame'', JNum 7)])
      \<and> truthy (Some (JObj [(''frame'', JNum 7)]))
      \<and> loadROM counter_nes (romBinRef future_session) (NES counter_nes) = (?fresh, None)
      \<and> importState counter_nes (Some ?fresh) (JObj [(''frame'', JNum 7)])
          = (Some (?fresh\<lparr>frame_no := nat 7\<rparr>), None)"
    using p st show_json_future_nonempty
    by (simp add: future_session_fields counter_loadROM_game counter_import)
  have he: "getSaveStorageKey future_session = Some game_key
      \<and> localStorage future_session game_key = Some (show_json future_save)
      \<and> JSON_parse (browser [future_save]) (show_json future_save) = Returns future_save
      \<and> get_prop ''state'' (Some ?v1) = get_prop ''state'' (Some future_save)
      \<and> get_prop ''savedAt'' (get_prop ''meta'' (Some ?v1))
          = get_prop ''savedAt'' (get_prop ''meta'' (Some future_save))"
    using p by (simp add: future_session_fields) (simp add: future_save_def)
  note a = load_failures_leave_session
    [where s = loaded_game and key = game_key and b = counter_nes and env = "browser []",
      THEN conjunct1, rule_format, OF ha]
  note b = load_failures_leave_session
    [where s = "loaded_game\<lparr>localStorage := [game_key \<mapsto> ''not json'']\<rparr>" and key = game_key
        and b = counter_nes and env = "browser []",
      THEN conjunct2, THEN conjunct1, rule_format, OF hb]
  note c = load_failures_leave_session
    [where s = "loaded_game\<lparr>localStorage := [game_key \<mapsto> ''{}'']\<rparr>" and key = game_key
        and b = counter_nes and env = "browser [JObj []]",
      THEN conjunct2, THEN conjunct2, THEN conjunct1, rule_format, OF hc]
  note d = load_failures_leave_session
    [where s = future_session and key = game_key and b = counter_nes
        and env = "browser [future_save]",
      THEN conjunct2, THEN conjunct2, THEN conjunct2, THEN conjunct1, rule_format, OF hd]
  note e = load_failures_leave_session
    [where s = future_session and key = game_key and b = counter_nes
        and env = "browser [future_save]",
      THEN conjunct2, THEN conjunct2, THEN conjunct2, THEN conjunct2, rule_format, OF he]
  have at: "falsy_to_None (get_prop ''savedAt'' (get_prop ''meta'' (Some future_save)))
      = Some (JStr ''2031-01-01T00:00:00.000Z'')"
    by (simp add: future_save_def falsy_to_None_def)
  have loc: "toLocaleString (browser [future_save]) = show_json"
    by (simp add: browser_def)
  have d': "loadStateFromLocalStorage counter_nes (browser [future_save]) future_session
       = (drawOneFrame counter_nes
            (future_session
               \<lparr>runningRef := False, rafRef := None,
                nesRef :=
                  Some \<lparr>frame_no = 7, rom = [CHR ''N'', CHR ''E'', CHR ''S'', char_of (26::nat)],
                          held = []\<rparr>,
                audioQRef := [],
                status := ''Loaded save ('' @ quoted ''2031-01-01T00:00:00.000Z'' @ '')''\<rparr>))
         \<lparr>surfaceFocused := True\<rparr>"
    unfolding d at loc by simp
  show ?thesis
    using ha hb hc a b c d' e p st ver by simp
qed

text \<open>
  C4. Snapshot export calls the first method that exists, in the order \<^verbatim>\<open>toJSON\<close>,
  \<^verbatim>\<open>serialize\<close>, \<^verbatim>\<open>saveState\<close>, \<^verbatim>\<open>getState\<close>, and its result, returned or thrown, is the
  result of the export (a later method is not tried when it throws); with none of them it
  throws
  \<^verbatim>\<open>This jsnes build does not expose a save-state API.\<close> Snapshot import does the same over
  \<^verbatim>\<open>fromJSON\<close>, \<^verbatim>\<open>deserialize\<close>, \<^verbatim>\<open>loadState\<close>, \<^verbatim>\<open>setState\<close> and throws
  \<^verbatim>\<open>This jsnes build does not expose a load-state API.\<close> with none of them. A button event
  changes nothing of the session but the engine, and raises and reports nothing. It tries
  \<^verbatim>\<open>controllers[0]\<close>, then \<^verbatim>\<open>controller1\<close>, then \<^verbatim>\<open>buttonDown\<close>/\<^verbatim>\<open>buttonUp\<close> of the engine for
  player 0 and then for player 1, each on the engine as the attempts before it left it.
  In general: when the attempts before one have each found its shape missing or have
  thrown, and that one finds its shape and returns, the event ends with the engine as
  that attempt leaves it, and no later attempt runs. The cases are then spelt out: each
  of the four shapes used when the shapes before it are missing; a throwing
  \<^verbatim>\<open>controllers[0]\<close> passed over for \<^verbatim>\<open>controller1\<close>; a throwing call for player 0 passed over
  for the call for player 1. An attempt that throws is passed over, but what it did to the
  engine before it threw stays: when every shape that exists throws, the engine is left
  as the throwing attempts left it. Only with no shape at all is the session as it was.
  In general again: when no attempt finds its shape and returns, the engine is left as the
  four attempts, run one after the other, leave it.
\<close>

theorem adapter_probes_in_order:
  "exportState b (Some n)
     = (case List.find (\<lambda>method. method \<noteq> None)
               [toJSON b, serialize b, saveState b, getState b] of
          Some (Some f) \<Rightarrow> f n
        | _ \<Rightarrow> Throws ''This jsnes build does not expose a save-state API.'')
   \<and> importState b (Some n) state
     = (case List.find (\<lambda>method. method \<noteq> None)
               [fromJSON b, deserialize b, loadState b, setState b] of
          Some (Some g) \<Rightarrow> (Some (fst (g state n)), snd (g state n))
        | _ \<Rightarrow> (Some n, Some ''This jsnes build does not expose a load-state API.''))
   \<and> press b key isDown s = s\<lparr>nesRef := nesRef (press b key isDown s)\<rparr>
   \<and> (nesRef s = Some n \<and> buttonMap key = Some btn
        \<and> attempts b isDown btn = pre @ fn # post
        \<and> (\<forall>i<length pre. snd ((pre ! i) (try_attempts (take i pre) n)) \<noteq> Returns True)
        \<and> snd (fn (try_attempts pre n)) = Returns True \<longrightarrow>
        press b key isDown s = s\<lparr>nesRef := Some (fst (fn (try_attempts pre n)))\<rparr>)
   \<and> (nesRef s = Some n \<and> buttonMap key = Some btn \<and> controllers_0 b = Some c
        \<and> (if isDown then buttonDown c btn n else buttonUp c btn n) = (n', None) \<longrightarrow>
        press b key isDown s = s\<lparr>nesRef := Some n'\<rparr>)
   \<and> (nesRef s = Some n \<and> buttonMap key = Some btn \<and> controllers_0 b = None
        \<and> controller1 b = Some c
        \<and> (if isDown then buttonDown c btn n else buttonUp c btn n) = (n', None) \<longrightarrow>
        press b key isDown s = s\<lparr>nesRef := Some n'\<rparr>)
   \<and> (nesRef s = Some n \<and> buttonMap key = Some btn \<and> controllers_0 b = None
        \<and> controller1 b = None \<and> nes_buttonDown b = Some down \<and> nes_buttonUp b = Some up
        \<and> (if isDown then down 0 btn n else up 0 btn n) = (n', None) \<longrightarrow>
        press b key isDown s = s\<lparr>nesRef := Some n'\<rparr>)
   \<and> (nesRef s = Some n \<and> buttonMap key = Some btn \<and> controllers_0 b = Some c
        \<and> (if isDown then buttonDown c btn n else buttonUp c btn n) = (n1, Some m)
        \<and> controller1 b = Some c1
        \<and> (if isDown then buttonDown c1 btn n1 else buttonUp c1 btn n1) = (n', None) \<longrightarrow>
        press b key isDown s = s\<lparr>nesRef := Some n'\<rparr>)
   \<and> (nesRef s = Some n \<and> buttonMap key = Some btn \<and> controllers_0 b = None
        \<and> controller1 b = None \<and> nes_buttonDown b = Some down \<and> nes_buttonUp b = Some up
        \<and> (if isDown then down 0 btn n else up 0 btn n) = (n1, Some m)
        \<and> (if isDown then down 1 btn n1 else up 1 btn n1) = (n', None) \<longrightarrow>
        press b key isDown s = s\<lparr>nesRef := Some n'\<rparr>)
   \<and> (nesRef s = Some n \<and> buttonMap key = Some btn \<and> controllers_0 b = None
        \<and> controller1 b = None \<and> nes_buttonDown b = Some down \<and> nes_buttonUp b = Some up
        \<and> (if isDown then down 0 btn n else up 0 btn n) = (n1, Some m)
        \<and> (if isDown then down 1 btn n1 else up 1 btn n1) = (n2, Some m') \<longrightarrow>
        press b key isDown s = s\<lparr>nesRef := Some n2\<rparr>)
   \<and> (nesRef s = Some n \<and> buttonMap key = Some btn \<and> controllers_0 b = Some c
        \<and> (if isDown then buttonDown c btn n else buttonUp c btn n) = (n1, Some m)
        \<and> controller1 b = None
        \<and> (nes_buttonDown b = None \<or> nes_buttonUp b = None) \<longrightarrow>
        press b key isDown s = s\<lparr>nesRef := Some n1\<rparr>)
   \<and> (nesRef s = Some n \<and> controllers_0 b = None \<and> controller1 b = None
        \<and> (nes_buttonDown b = None \<or> nes_buttonUp b = None) \<longrightarrow>
        press b key isDown s = s)
   \<and> (nesRef s = Some n \<and> buttonMap key = Some btn
        \<and> (\<forall>i<length (attempts b isDown btn).
              snd ((attempts b isDown btn ! i)
                     (try_attempts (take i (attempts b isDown btn)) n)) \<noteq> Returns True) \<longrightarrow>
        press b key isDown s
          = s\<lparr>nesRef := Some (fold (\<lambda>fn n. fst (fn n)) (attempts b isDown btn) n)\<rparr>)"
proof -
  have e: "exportState b (Some n)
     = (case List.find (\<lambda>method. method \<noteq> None)
               [toJSON b, serialize b, saveState b, getState b] of
          Some (Some f) \<Rightarrow> f n
        | _ \<Rightarrow> Throws ''This jsnes build does not expose a save-state API.'')"
    by (simp add: exportState_def split: option.splits)
  have i: "importState b (Some n) state
     = (case List.find (\<lambda>method. method \<noteq> None)
               [fromJSON b, deserialize b, loadState b, setState b] of
          Some (Some g) \<Rightarrow> (Some (fst (g state n)), snd (g state n))
        | _ \<Rightarrow> (Some n, Some ''This jsnes build does not expose a load-state API.''))"
    by (simp add: importState_def split: option.splits prod.splits)
  have only: "press b key isDown s = s\<lparr>nesRef := nesRef (press b key isDown s)\<rparr>"
    by (rule press_only_engine)
  have g: "nesRef s = Some n \<and> buttonMap key = Some btn
        \<and> attempts b isDown btn = pre @ fn # post
        \<and> (\<forall>i<length pre. snd ((pre ! i) (try_attempts (take i pre) n)) \<noteq> Returns True)
        \<and> snd (fn (try_attempts pre n)) = Returns True \<longrightarrow>
        press b key isDown s = s\<lparr>nesRef := Some (fst (fn (try_attempts pre n)))\<rparr>"
  proof (intro impI, elim conjE)
    assume that: "nesRef s = Some n" "buttonMap key = Some btn"
      "attempts b isDown btn = pre @ fn # post"
      "\<forall>i<length pre. snd ((pre ! i) (try_attempts (take i pre) n)) \<noteq> Returns True"
      "snd (fn (try_attempts pre n)) = Returns True"
    have "try_attempts (attempts b isDown btn) n = fst (fn (try_attempts pre n))"
      unfolding that(3)
      using that(4,5) by (rule try_attempts_first [where pre = pre and fn = fn and n = n])
    then show "press b key isDown s = s\<lparr>nesRef := Some (fst (fn (try_attempts pre n)))\<rparr>"
      by (simp add: press_eq [OF that(1,2)])
  qed
  have p1: "nesRef s = Some n \<and> buttonMap key = Some btn \<and> controllers_0 b = Some c
        \<and> (if isDown then buttonDown c btn n else buttonUp c btn n) = (n', None) \<longrightarrow>
        press b key isDown s = s\<lparr>nesRef := Some n'\<rparr>"
    by (simp add: press_eq attempts_def)
  have p2: "nesRef s = Some n \<and> buttonMap key = Some btn \<and> controllers_0 b = None
        \<and> controller1 b = Some c
        \<and> (if isDown then buttonDown c btn n else buttonUp c btn n) = (n', None) \<longrightarrow>
        press b key isDown s = s\<lparr>nesRef := Some n'\<rparr>"
    by (simp add: press_eq attempts_def)
  have p3: "nesRef s = Some n \<and> buttonMap key = Some btn \<and> controllers_0 b = None
        \<and> controller1 b = None \<and> nes_buttonDown b = Some down \<and> nes_buttonUp b = Some up
        \<and> (if isDown then down 0 btn n else up 0 btn n) = (n', None) \<longrightarrow>
        press b key isDown s = s\<lparr>nesRef := Some n'\<rparr>"
    by (simp add: press_eq attempts_def)
  have p4: "nesRef s = Some n \<and> buttonMap key = Some btn \<and> controllers_0 b = Some c
        \<and> (if isDown then buttonDown c btn n else buttonUp c btn n) = (n1, Some m)
        \<and> controller1 b = Some c1
        \<and> (if isDown then buttonDown c1 btn n1 else buttonUp c1 btn n1) = (n', None) \<longrightarrow>
        press b key isDown s = s\<lparr>nesRef := Some n'\<rparr>"
    by (simp add: press_eq attempts_def)
  have p6: "nesRef s = Some n \<and> buttonMap key = Some btn \<and> controllers_0 b = None
        \<and> controller1 b = None \<and> nes_buttonDown b = Some down \<and> nes_buttonUp b = Some up
        \<and> (if isDown then down 0 btn n else up 0 btn n) = (n1, Some m)
        \<and> (if isDown then down 1 btn n1 else up 1 btn n1) = (n', None) \<longrightarrow>
        press b key isDown s = s\<lparr>nesRef := Some n'\<rparr>"
    by (simp add: press_eq attempts_def)
  have p7: "nesRef s = Some n \<and> buttonMap key = Some btn \<and> controllers_0 b = None
        \<and> controller1 b = None \<and> nes_buttonDown b = Some down \<and> nes_buttonUp b = Some up
        \<and> (if isDown then down 0 btn n else up 0 btn n) = (n1, Some m)
        \<and> (if isDown then down 1 btn n1 else up 1 btn n1) = (n2, Some m') \<longrightarrow>
        press b key isDown s = s\<lparr>nesRef := Some n2\<rparr>"
    by (simp add: press_eq attempts_def)
  have p8: "nesRef s = Some n \<and> buttonMap key = Some btn \<and> controllers_0 b = Some c
        \<and> (if isDown then buttonDown c btn n else buttonUp c btn n) = (n1, Some m)
        \<and> controller1 b = None
        \<and> (nes_buttonDown b = None \<or> nes_buttonUp b = None) \<longrightarrow>
        press b key isDown s = s\<lparr>nesRef := Some n1\<rparr>"
    by (auto simp add: press_eq attempts_def split: option.splits)
  have p5: "nesRef s = Some n \<and> controllers_0 b = None \<and> controller1 b = None
        \<and> (nes_buttonDown b = None \<or> nes_buttonUp b = None) \<longrightarrow>
        press b key isDown s = s"
  proof (intro impI, elim conjE)
    assume that: "nesRef s = Some n" "controllers_0 b = None" "controller1 b = None"
      "nes_buttonDown b = None \<or> nes_buttonUp b = None"
    show "press b key isDown s = s"
    proof (cases "buttonMap key")
      case None
      then show ?thesis using that(1) by (simp add: press_def)
    next
      case (Some btn)
      have "try_attempts (attempts b isDown btn) n = n"
        using that(2,3,4) by (auto simp add: attempts_def split: option.splits)
      then show ?thesis using that(1) Some by (simp add: press_eq)
    qed
  qed
  have none: "nesRef s = Some n \<and> buttonMap key = Some btn
        \<and> (\<forall>i<length (attempts b isDown btn).
              snd ((attempts b isDown btn ! i)
                     (try_attempts (take i (attempts b isDown btn)) n)) \<noteq> Returns True) \<longrightarrow>
        press b key isDown s
          = s\<lparr>nesRef := Some (fold (\<lambda>fn n. fst (fn n)) (attempts b isDown btn) n)\<rparr>"
  proof (intro impI, elim conjE)
    assume that: "nesRef s = Some n" "buttonMap key = Some btn"
      "\<forall>i<length (attempts b isDown btn).
          snd ((attempts b isDown btn ! i)
                 (try_attempts (take i (attempts b isDown btn)) n)) \<noteq> Returns True"
    have "try_attempts (attempts b isDown btn) n
        = fold (\<lambda>fn n. fst (fn n)) (attempts b isDown btn) n"
      using that(3) by (rule try_attempts_none)
    then show "press b key isDown s
        = s\<lparr>nesRef := Some (fold (\<lambda>fn n. fst (fn n)) (attempts b isDown btn) n)\<rparr>"
      by (simp add: press_eq [OF that(1,2)])
  qed
  show ?thesis
    by (intro conjI) (fact e i only g p1 p2 p3 p4 p5 p6 p7 p8 none)+
qed

text \<open>
  A build whose \<^verbatim>\<open>toJSON\<close> throws while its \<^verbatim>\<open>serialize\<close> works: the export throws, and
  \<^verbatim>\<open>serialize\<close> is never tried. A build with no button shape at all: \<^verbatim>\<open>press\<close> leaves the
  session, status included, exactly as it was.
\<close>

theorem adapter_does_not_fall_through_or_fail:
  "toJSON throwing_nes = Some (\<lambda>n. Throws ''toJSON failed'')
   \<and> serialize throwing_nes = Some counter_toJSON
   \<and> counter_toJSON (NES throwing_nes) = Returns (JObj [(''frame'', JNum 0)])
   \<and> exportState throwing_nes (Some (NES throwing_nes)) = Throws ''toJSON failed''
   \<and> controllers_0 bare_nes = None
   \<and> controller1 bare_nes = None
   \<and> nes_buttonDown bare_nes = None
   \<and> nes_buttonUp bare_nes = None
   \<and> buttonMap ''A'' = Some BUTTON_A
   \<and> nesRef (mounted bare_nes Map.empty) = Some (NES bare_nes)
   \<and> press bare_nes ''A'' True (mounted bare_nes Map.empty) = mounted bare_nes Map.empty"
  by (simp add: throwing_nes_def bare_nes_def counter_nes_def counter_toJSON_def
      exportState_def buttonMap_A press_def attempts_def mounted_def)

theorem adapter_probes_in_order_witness:
  "exportState counter_nes (Some \<lparr>frame_no = 1, rom = ''NES'', held = []\<rparr>)
     = Returns (JObj [(''frame'', JNum 1)])
   \<and> exportState bare_nes (Some \<lparr>frame_no = 1, rom = ''NES'', held = []\<rparr>)
     = Throws ''This jsnes build does not expose a save-state API.''
   \<and> importState counter_nes (Some \<lparr>frame_no = 1, rom = ''NES'', held = []\<rparr>)
         (JObj [(''frame'', JNum 5)])
     = (Some \<lparr>frame_no = 5, rom = ''NES'', held = []\<rparr>, None)
   \<and> importState bare_nes (Some \<lparr>frame_no = 1, rom = ''NES'', held = []\<rparr>)
         (JObj [(''frame'', JNum 5)])
     = (Some \<lparr>frame_no = 1, rom = ''NES'', held = []\<rparr>,
        Some ''This jsnes build does not expose a load-state API.'')
   \<and> controllers_0 counter_nes = Some pad
   \<and> press counter_nes ''A'' True loaded_game
     = loaded_game
         \<lparr>nesRef := Some \<lparr>frame_no = 1, rom = [CHR ''N'', CHR ''E'', CHR ''S'', char_of (26::nat)],
                       held = [(0, BUTTON_A)]\<rparr>\<rparr>
   \<and> press (counter_nes\<lparr>controllers_0 := None, controller1 := Some pad\<rparr>) ''A'' True loaded_game
     = loaded_game
         \<lparr>nesRef := Some \<lparr>frame_no = 1, rom = [CHR ''N'', CHR ''E'', CHR ''S'', char_of (26::nat)],
                       held = [(0, BUTTON_A)]\<rparr>\<rparr>
   \<and> press (counter_nes\<lparr>controllers_0 := None\<rparr>) ''A'' True loaded_game
     = loaded_game
         \<lparr>nesRef := Some \<lparr>frame_no = 1, rom = [CHR ''N'', CHR ''E'', CHR ''S'', char_of (26::nat)],
                       held = [(0, BUTTON_A)]\<rparr>\<rparr>
   \<and> press (counter_nes\<lparr>controllers_0 := Some broken_pad, controller1 := Some pad\<rparr>)
         ''A'' True loaded_game
     = loaded_game
         \<lparr>nesRef := Some \<lparr>frame_no = 1, rom = [CHR ''N'', CHR ''E'', CHR ''S'', char_of (26::nat)],
                       held = [(0, BUTTON_A)]\<rparr>\<rparr>
   \<and> press second_player_nes ''A'' True loaded_game
     = loaded_game
         \<lparr>nesRef := Some \<lparr>frame_no = 1, rom = [CHR ''N'', CHR ''E'', CHR ''S'', char_of (26::nat)],
                       held = [(1, BUTTON_A)]\<rparr>\<rparr>
   \<and> press (second_player_nes
              \<lparr>nes_buttonDown := Some (\<lambda>player btn n. (n, Some ''no controller'')),
               nes_buttonUp := Some (\<lambda>player btn n. (n, Some ''no controller''))\<rparr>)
         ''A'' True loaded_game
     = loaded_game\<lparr>nesRef := Some \<lparr>frame_no = 1, rom = [CHR ''N'', CHR ''E'', CHR ''S'', char_of (26::nat)], held = []\<rparr>\<rparr>
   \<and> press (bare_nes\<lparr>controllers_0 := Some sticky_pad\<rparr>) ''A'' True loaded_game
     = loaded_game
         \<lparr>nesRef := Some \<lparr>frame_no = 1, rom = [CHR ''N'', CHR ''E'', CHR ''S'', char_of (26::nat)],
                       held = [(0, BUTTON_A)]\<rparr>\<rparr>
   \<and> press bare_nes ''A'' True loaded_game = loaded_game
   \<and> attempts second_player_nes True BUTTON_A
     = take 3 (attempts second_player_nes True BUTTON_A)
       @ (attempts second_player_nes True BUTTON_A ! 3)
       # drop 4 (attempts second_player_nes True BUTTON_A)
   \<and> snd ((take 3 (attempts second_player_nes True BUTTON_A) ! 0)
              (try_attempts (take 0 (take 3 (attempts second_player_nes True BUTTON_A)))
                 \<lparr>frame_no = 1, rom = [CHR ''N'', CHR ''E'', CHR ''S'', char_of (26::nat)], held = []\<rparr>))
     \<noteq> Returns True
   \<and> snd ((take 3 (attempts second_player_nes True BUTTON_A) ! 1)
              (try_attempts (take 1 (take 3 (attempts second_player_nes True BUTTON_A)))
                 \<lparr>frame_no = 1, rom = [CHR ''N'', CHR ''E'', CHR ''S'', char_of (26::nat)], held = []\<rparr>))
     \<noteq> Returns True
   \<and> snd ((take 3 (attempts second_player_nes True BUTTON_A) ! 2)
              (try_attempts (take 2 (take 3 (attempts second_player_nes True BUTTON_A)))
                 \<lparr>frame_no = 1, rom = [CHR ''N'', CHR ''E'', CHR ''S'', char_of (26::nat)], held = []\<rparr>))
     \<noteq> Returns True
   \<and> snd ((attempts second_player_nes True BUTTON_A ! 3)
              (try_attempts (take 3 (attempts second_player_nes True BUTTON_A)) \<lparr>frame_no = 1, rom = [CHR ''N'', CHR ''E'', CHR ''S'', char_of (26::nat)], held = []\<rparr>))
     = Returns True
   \<and> press second_player_nes ''A'' True loaded_game
     = loaded_game
         \<lparr>nesRef :=
            Some (fst ((attempts second_player_nes True BUTTON_A ! 3)
                         (try_attempts (take 3 (attempts second_player_nes True BUTTON_A))
                            \<lparr>frame_no = 1, rom = [CHR ''N'', CHR ''E'', CHR ''S'', char_of (26::nat)], held = []\<rparr>)))\<rparr>
   \<and> snd ((attempts (counter_nes
              \<lparr>controllers_0 := Some sticky_pad,
               nes_buttonDown := Some (\<lambda>player btn n. (n, Some ''no controller'')),
               nes_buttonUp := Some (\<lambda>player btn n. (n, Some ''no controller''))\<rparr>) True BUTTON_A ! 0)
              (try_attempts (take 0 (attempts (counter_nes
              \<lparr>controllers_0 := Some sticky_pad,
               nes_buttonDown := Some (\<lambda>player btn n. (n, Some ''no controller'')),
               nes_buttonUp := Some (\<lambda>player btn n. (n, Some ''no controller''))\<rparr>) True BUTTON_A))
                 \<lparr>frame_no = 1, rom = [CHR ''N'', CHR ''E'', CHR ''S'', char_of (26::nat)], held = []\<rparr>))
     \<noteq> Returns True
   \<and> snd ((attempts (counter_nes
              \<lparr>controllers_0 := Some sticky_pad,
               nes_buttonDown := Some (\<lambda>player btn n. (n, Some ''no controller'')),
               nes_buttonUp := Some (\<lambda>player btn n. (n, Some ''no controller''))\<rparr>) True BUTTON_A ! 1)
              (try_attempts (take 1 (attempts (counter_nes
              \<lparr>controllers_0 := Some sticky_pad,
               nes_buttonDown := Some (\<lambda>player btn n. (n, Some ''no controller'')),
               nes_buttonUp := Some (\<lambda>player btn n. (n, Some ''no controller''))\<rparr>) True BUTTON_A))
                 \<lparr>frame_no = 1, rom = [CHR ''N'', CHR ''E'', CHR ''S'', char_of (26::nat)], held = []\<rparr>))
     \<noteq> Returns True
   \<and> snd ((attempts (counter_nes
              \<lparr>controllers_0 := Some sticky_pad,
               nes_buttonDown := Some (\<lambda>player btn n. (n, Some ''no controller'')),
               nes_buttonUp := Some (\<lambda>player btn n. (n, Some ''no controller''))\<rparr>) True BUTTON_A ! 2)
              (try_attempts (take 2 (attempts (counter_nes
              \<lparr>controllers_0 := Some sticky_pad,
               nes_buttonDown := Some (\<lambda>player btn n. (n, Some ''no controller'')),
               nes_buttonUp := Some (\<lambda>player btn n. (n, Some ''no controller''))\<rparr>) True BUTTON_A))
                 \<lparr>frame_no = 1, rom = [CHR ''N'', CHR ''E'', CHR ''S'', char_of (26::nat)], held = []\<rparr>))
     \<noteq> Returns True
   \<and> snd ((attempts (counter_nes
              \<lparr>controllers_0 := Some sticky_pad,
               nes_buttonDown := Some (\<lambda>player btn n. (n, Some ''no controller'')),
               nes_buttonUp := Some (\<lambda>player btn n. (n, Some ''no controller''))\<rparr>) True BUTTON_A ! 3)
              (try_attempts (take 3 (attempts (counter_nes
              \<lparr>controllers_0 := Some sticky_pad,
               nes_buttonDown := Some (\<lambda>player btn n. (n, Some ''no controller'')),
               nes_buttonUp := Some (\<lambda>player btn n. (n, Some ''no controller''))\<rparr>) True BUTTON_A))
                 \<lparr>frame_no = 1, rom = [CHR ''N'', CHR ''E'', CHR ''S'', char_of (26::nat)], held = []\<rparr>))
     \<noteq> Returns True
   \<and> press (counter_nes
              \<lparr>controllers_0 := Some sticky_pad,
               nes_buttonDown := Some (\<lambda>player btn n. (n, Some ''no controller'')),
               nes_buttonUp := Some (\<lambda>player btn n. (n, Some ''no controller''))\<rparr>) ''A'' True loaded_game
     = loaded_game
         \<lparr>nesRef := Some \<lparr>frame_no = 1, rom = [CHR ''N'', CHR ''E'', CHR ''S'', char_of (26::nat)],
                       held = [(0, BUTTON_A)]\<rparr>\<rparr>"
proof -
  let ?n = "\<lparr>frame_no = 1, rom = [CHR ''N'', CHR ''E'', CHR ''S'', char_of (26::nat)], held = []\<rparr>"
  let ?n' = "\<lparr>frame_no = 1, rom = [CHR ''N'', CHR ''E'', CHR ''S'', char_of (26::nat)],
                       held = [(0, BUTTON_A)]\<rparr>"
  let ?n2 = "\<lparr>frame_no = 1, rom = [CHR ''N'', CHR ''E'', CHR ''S'', char_of (26::nat)],
                       held = [(1, BUTTON_A)]\<rparr>"
  let ?m = "\<lparr>frame_no = 1, rom = ''NES'', held = []\<rparr>"
  have n: "nesRef loaded_game = Some ?n"
    by (simp add: loaded_game_fields)
  have down: "counter_button True 0 BUTTON_A ?n = (?n', None)"
    by (simp add: counter_button_def)
  have down1: "counter_button True 1 BUTTON_A ?n = (?n2, None)"
    by (simp add: counter_button_def)
  have c0: "controllers_0 counter_nes = Some pad"
    by (simp add: counter_nes_def pad_def)
  have e1: "exportState counter_nes (Some ?m) = Returns (JObj [(''frame'', JNum 1)])"
    using adapter_probes_in_order [where b = counter_nes and n = ?m, THEN conjunct1]
    by (simp add: counter_nes_def counter_toJSON_def)
  have e2: "exportState bare_nes (Some ?m)
      = Throws ''This jsnes build does not expose a save-state API.''"
    using adapter_probes_in_order [where b = bare_nes and n = ?m, THEN conjunct1]
    by (simp add: bare_nes_def counter_nes_def)
  have i1: "importState counter_nes (Some ?m) (JObj [(''frame'', JNum 5)])
      = (Some \<lparr>frame_no = 5, rom = ''NES'', held = []\<rparr>, None)"
    using adapter_probes_in_order [where b = counter_nes and n = ?m
        and state = "JObj [(''frame'', JNum 5)]", THEN conjunct2, THEN conjunct1]
    by (simp add: counter_nes_def counter_fromJSON_def)
  have i2: "importState bare_nes (Some ?m) (JObj [(''frame'', JNum 5)])
      = (Some ?m, Some ''This jsnes build does not expose a load-state API.'')"
    using adapter_probes_in_order [where b = bare_nes and n = ?m
        and state = "JObj [(''frame'', JNum 5)]", THEN conjunct2, THEN conjunct1]
    by (simp add: bare_nes_def counter_nes_def)
  have h1: "nesRef loaded_game = Some ?n \<and> buttonMap ''A'' = Some BUTTON_A
      \<and> controllers_0 counter_nes = Some pad
      \<and> (if True then buttonDown pad BUTTON_A ?n else buttonUp pad BUTTON_A ?n) = (?n', None)"
    using n c0 down by (simp add: buttonMap_A pad_def)
  note p1 = adapter_probes_in_order [where b = counter_nes and s = loaded_game and key = "''A''"
      and isDown = True, THEN conjunct2, THEN conjunct2, THEN conjunct2, THEN conjunct2, THEN conjunct1, rule_format, OF h1]
  let ?b2 = "counter_nes\<lparr>controllers_0 := None, controller1 := Some pad\<rparr>"
  have h2: "nesRef loaded_game = Some ?n \<and> buttonMap ''A'' = Some BUTTON_A
      \<and> controllers_0 ?b2 = None \<and> controller1 ?b2 = Some pad
      \<and> (if True then buttonDown pad BUTTON_A ?n else buttonUp pad BUTTON_A ?n) = (?n', None)"
    using n down by (simp add: buttonMap_A pad_def)
  note p2 = adapter_probes_in_order [where b = ?b2 and s = loaded_game and key = "''A''"
      and isDown = True, THEN conjunct2, THEN conjunct2, THEN conjunct2, THEN conjunct2, THEN conjunct2, THEN conjunct1, rule_format, OF h2]
  let ?b3 = "counter_nes\<lparr>controllers_0 := None\<rparr>"
  have h3: "nesRef loaded_game = Some ?n \<and> buttonMap ''A'' = Some BUTTON_A
      \<and> controllers_0 ?b3 = None \<and> controller1 ?b3 = None
      \<and> nes_buttonDown ?b3 = Some (counter_button True)
      \<and> nes_buttonUp ?b3 = Some (counter_button False)
      \<and> (if True then counter_button True 0 BUTTON_A ?n else counter_button False 0 BUTTON_A ?n)
          = (?n', None)"
    using n down by (simp add: buttonMap_A counter_nes_def)
  note p3 = adapter_probes_in_order [where b = ?b3 and s = loaded_game and key = "''A''"
      and isDown = True, THEN conjunct2, THEN conjunct2, THEN conjunct2, THEN conjunct2, THEN conjunct2, THEN conjunct2, THEN conjunct1, rule_format, OF h3]
  let ?b4 = "counter_nes\<lparr>controllers_0 := Some broken_pad, controller1 := Some pad\<rparr>"
  have h4: "nesRef loaded_game = Some ?n \<and> buttonMap ''A'' = Some BUTTON_A
      \<and> controllers_0 ?b4 = Some broken_pad
      \<and> (if True then buttonDown broken_pad BUTTON_A ?n else buttonUp broken_pad BUTTON_A ?n)
          = (?n, Some ''c.buttonDown is not a function'')
      \<and> controller1 ?b4 = Some pad
      \<and> (if True then buttonDown pad BUTTON_A ?n else buttonUp pad BUTTON_A ?n) = (?n', None)"
    using n down by (simp add: buttonMap_A pad_def broken_pad_def)
  note p4 = adapter_probes_in_order [where b = ?b4 and s = loaded_game and key = "''A''"
      and isDown = True, THEN conjunct2, THEN conjunct2, THEN conjunct2, THEN conjunct2, THEN conjunct2, THEN conjunct2, THEN conjunct2, THEN conjunct1, rule_format, OF h4]
  let ?down = "\<lambda>player btn n.
      if player = (0::nat) then (n, Some ''no controller for player 0'')
      else counter_button True player btn n"
  let ?up = "\<lambda>player btn n.
      if player = (0::nat) then (n, Some ''no controller for player 0'')
      else counter_button False player btn n"
  have h6: "nesRef loaded_game = Some ?n \<and> buttonMap ''A'' = Some BUTTON_A
      \<and> controllers_0 second_player_nes = None \<and> controller1 second_player_nes = None
      \<and> nes_buttonDown second_player_nes = Some ?down
      \<and> nes_buttonUp second_player_nes = Some ?up
      \<and> (if True then ?down 0 BUTTON_A ?n else ?up 0 BUTTON_A ?n)
          = (?n, Some ''no controller for player 0'')
      \<and> (if True then ?down 1 BUTTON_A ?n else ?up 1 BUTTON_A ?n) = (?n2, None)"
    using n down1 by (simp add: buttonMap_A second_player_nes_def counter_nes_def)
  note p6 = adapter_probes_in_order [where b = second_player_nes and s = loaded_game
      and key = "''A''" and isDown = True, THEN conjunct2, THEN conjunct2, THEN conjunct2, THEN conjunct2, THEN conjunct2, THEN conjunct2, THEN conjunct2, THEN conjunct2, THEN conjunct1, rule_format, OF h6]
  let ?no = "\<lambda>(player::nat) (btn::button) (n::counter_state). (n, Some ''no controller'')"
  let ?b7 = "second_player_nes\<lparr>nes_buttonDown := Some ?no, nes_buttonUp := Some ?no\<rparr>"
  have h7: "nesRef loaded_game = Some ?n \<and> buttonMap ''A'' = Some BUTTON_A
      \<and> controllers_0 ?b7 = None \<and> controller1 ?b7 = None
      \<and> nes_buttonDown ?b7 = Some ?no \<and> nes_buttonUp ?b7 = Some ?no
      \<and> (if True then ?no 0 BUTTON_A ?n else ?no 0 BUTTON_A ?n) = (?n, Some ''no controller'')
      \<and> (if True then ?no 1 BUTTON_A ?n else ?no 1 BUTTON_A ?n) = (?n, Some ''no controller'')"
    using n by (simp add: buttonMap_A second_player_nes_def counter_nes_def)
  note p7 = adapter_probes_in_order [where b = ?b7 and s = loaded_game
      and key = "''A''" and isDown = True, THEN conjunct2, THEN conjunct2, THEN conjunct2, THEN conjunct2, THEN conjunct2, THEN conjunct2, THEN conjunct2, THEN conjunct2, THEN conjunct2, THEN conjunct1, rule_format, OF h7]
  let ?b8 = "bare_nes\<lparr>controllers_0 := Some sticky_pad\<rparr>"
  have h8: "nesRef loaded_game = Some ?n \<and> buttonMap ''A'' = Some BUTTON_A
      \<and> controllers_0 ?b8 = Some sticky_pad
      \<and> (if True then buttonDown sticky_pad BUTTON_A ?n else buttonUp sticky_pad BUTTON_A ?n)
          = (?n', Some ''late failure'')
      \<and> controller1 ?b8 = None
      \<and> (nes_buttonDown ?b8 = None \<or> nes_buttonUp ?b8 = None)"
    using n down by (simp add: buttonMap_A sticky_pad_def bare_nes_def counter_nes_def)
  note p8 = adapter_probes_in_order [where b = ?b8 and s = loaded_game
      and key = "''A''" and isDown = True, THEN conjunct2, THEN conjunct2, THEN conjunct2, THEN conjunct2, THEN conjunct2, THEN conjunct2, THEN conjunct2, THEN conjunct2, THEN conjunct2, THEN conjunct2, THEN conjunct1, rule_format, OF h8]
  have h5: "nesRef loaded_game = Some ?n \<and> controllers_0 bare_nes = None
      \<and> controller1 bare_nes = None
      \<and> (nes_buttonDown bare_nes = None \<or> nes_buttonUp bare_nes = None)"
    using n by (simp add: bare_nes_def counter_nes_def)
  note p5 = adapter_probes_in_order [where b = bare_nes and s = loaded_game and key = "''A''"
      and isDown = True, THEN conjunct2, THEN conjunct2, THEN conjunct2, THEN conjunct2, THEN conjunct2, THEN conjunct2, THEN conjunct2, THEN conjunct2, THEN conjunct2, THEN conjunct2, THEN conjunct2, THEN conjunct1, rule_format, OF h5]
  let ?A = "attempts second_player_nes True BUTTON_A"
  have len: "length ?A = 4"
    by (simp add: attempts_def)
  have split: "?A = take 3 ?A @ (?A ! 3) # drop 4 ?A"
    using id_take_nth_drop [of 3 ?A] len by simp
  have t0: "try_attempts (take 0 (take 3 ?A)) ?n = ?n"
    by simp
  have t1: "try_attempts (take 1 (take 3 ?A)) ?n = ?n"
    by (simp add: attempts_def second_player_nes_def counter_nes_def)
  have t2: "try_attempts (take 2 (take 3 ?A)) ?n = ?n"
    by (simp add: attempts_def second_player_nes_def counter_nes_def)
  have t3: "try_attempts (take 3 ?A) ?n = ?n"
    by (simp add: attempts_def second_player_nes_def counter_nes_def)
  have a0: "snd ((take 3 ?A ! 0) ?n) \<noteq> Returns True"
    by (simp add: attempts_def second_player_nes_def counter_nes_def)
  have a1: "snd ((take 3 ?A ! 1) ?n) \<noteq> Returns True"
    by (simp add: attempts_def second_player_nes_def counter_nes_def)
  have a2: "snd ((take 3 ?A ! 2) ?n) \<noteq> Returns True"
    by (simp add: attempts_def second_player_nes_def counter_nes_def)
  have before: "\<forall>i<length (take 3 ?A).
      snd ((take 3 ?A ! i) (try_attempts (take i (take 3 ?A)) ?n)) \<noteq> Returns True"
  proof (intro allI impI)
    fix i
    assume "i < length (take 3 ?A)"
    then have "i = 0 \<or> i = 1 \<or> i = 2" using len by auto
    then show "snd ((take 3 ?A ! i) (try_attempts (take i (take 3 ?A)) ?n)) \<noteq> Returns True"
      using a0 a1 a2 t0 t1 t2 by (elim disjE) (simp_all only: simp_thms)
  qed
  have b0: "snd ((take 3 ?A ! 0) (try_attempts (take 0 (take 3 ?A)) ?n)) \<noteq> Returns True"
    unfolding t0 by (rule a0)
  have b1: "snd ((take 3 ?A ! 1) (try_attempts (take 1 (take 3 ?A)) ?n)) \<noteq> Returns True"
    unfolding t1 by (rule a1)
  have b2: "snd ((take 3 ?A ! 2) (try_attempts (take 2 (take 3 ?A)) ?n)) \<noteq> Returns True"
    unfolding t2 by (rule a2)
  have last: "snd ((?A ! 3) (try_attempts (take 3 ?A) ?n)) = Returns True"
    unfolding t3 by (simp add: attempts_def second_player_nes_def counter_nes_def
        counter_button_def)
  have hg: "nesRef loaded_game = Some ?n \<and> buttonMap ''A'' = Some BUTTON_A
      \<and> ?A = take 3 ?A @ (?A ! 3) # drop 4 ?A
      \<and> (\<forall>i<length (take 3 ?A).
            snd ((take 3 ?A ! i) (try_attempts (take i (take 3 ?A)) ?n)) \<noteq> Returns True)
      \<and> snd ((?A ! 3) (try_attempts (take 3 ?A) ?n)) = Returns True"
    using n split before last by (simp only: buttonMap_A simp_thms)
  note g = adapter_probes_in_order [where b = second_player_nes and s = loaded_game
      and key = "''A''" and isDown = True and pre = "take 3 ?A" and fn = "?A ! 3"
      and post = "drop 4 ?A", THEN conjunct2, THEN conjunct2, THEN conjunct2, THEN conjunct1, rule_format, OF hg]
  let ?b9 = "counter_nes\<lparr>controllers_0 := Some sticky_pad, nes_buttonDown := Some ?no,
    nes_buttonUp := Some ?no\<rparr>"
  let ?B = "attempts ?b9 True BUTTON_A"
  have len9: "length ?B = 4"
    by (simp add: attempts_def)
  have s0: "try_attempts (take 0 ?B) ?n = ?n"
    by simp
  have s1: "try_attempts (take 1 ?B) ?n = ?n'"
    by (simp add: attempts_def sticky_pad_def counter_nes_def counter_button_def)
  have s2: "try_attempts (take 2 ?B) ?n = ?n'"
    by (simp add: attempts_def sticky_pad_def counter_nes_def counter_button_def)
  have s3: "try_attempts (take 3 ?B) ?n = ?n'"
    by (simp add: attempts_def sticky_pad_def counter_nes_def counter_button_def)
  have d0: "snd ((?B ! 0) (try_attempts (take 0 ?B) ?n)) \<noteq> Returns True"
    unfolding s0 by (simp add: attempts_def sticky_pad_def counter_nes_def)
  have d1: "snd ((?B ! 1) (try_attempts (take 1 ?B) ?n)) \<noteq> Returns True"
    unfolding s1 by (simp add: attempts_def sticky_pad_def counter_nes_def)
  have d2: "snd ((?B ! 2) (try_attempts (take 2 ?B) ?n)) \<noteq> Returns True"
    unfolding s2 by (simp add: attempts_def sticky_pad_def counter_nes_def)
  have d3: "snd ((?B ! 3) (try_attempts (take 3 ?B) ?n)) \<noteq> Returns True"
    unfolding s3 by (simp add: attempts_def sticky_pad_def counter_nes_def)
  have all9: "\<forall>i<length ?B. snd ((?B ! i) (try_attempts (take i ?B) ?n)) \<noteq> Returns True"
  proof (intro allI impI)
    fix i
    assume "i < length ?B"
    then have "i = 0 \<or> i = 1 \<or> i = 2 \<or> i = 3" using len9 by auto
    then show "snd ((?B ! i) (try_attempts (take i ?B) ?n)) \<noteq> Returns True"
      using d0 d1 d2 d3 by (elim disjE) (simp_all only: simp_thms)
  qed
  have h9: "nesRef loaded_game = Some ?n \<and> buttonMap ''A'' = Some BUTTON_A
      \<and> (\<forall>i<length ?B. snd ((?B ! i) (try_attempts (take i ?B) ?n)) \<noteq> Returns True)"
    using n all9 by (simp only: buttonMap_A simp_thms)
  have f9: "fold (\<lambda>fn n. fst (fn n)) ?B ?n = ?n'"
    by (simp add: attempts_def sticky_pad_def counter_nes_def counter_button_def)
  have p9: "press ?b9 ''A'' True loaded_game = loaded_game\<lparr>nesRef := Some ?n'\<rparr>"
    using adapter_probes_in_order [where b = ?b9 and s = loaded_game and key = "''A''"
        and isDown = True and n = ?n and btn = BUTTON_A, THEN conjunct2, THEN conjunct2,
        THEN conjunct2, THEN conjunct2, THEN conjunct2, THEN conjunct2, THEN conjunct2,
        THEN conjunct2, THEN conjunct2, THEN conjunct2, THEN conjunct2, THEN conjunct2,
        rule_format, OF h9]
    unfolding f9 .
  show ?thesis
    by (intro conjI)
      (fact e1 e2 i1 i2 c0 p1 p2 p3 p4 p6 p7 p8 p5 split b0 b1 b2 last g d0 d1 d2 d3 p9)+
qed

text \<open>
  C5. \<^verbatim>\<open>reset\<close> on a session that the file input can produce. The component is mounted with
  the counter engine; \<open>game_nes\<close> is chosen and, before its read has resolved, \<open>bad_nes\<close>,
  which the engine rejects; the two reads then resolve in that order. The continuation of
  the second call has bound the rejected bytes as the retained ROM before the engine threw,
  and the loaded name is still the one the first continuation set: the Reset button is
  enabled. \<^verbatim>\<open>reset\<close> stops the loop, replaces the engine by a new instance and empties the
  queue; then \<^verbatim>\<open>loadROM\<close> throws and, \<^verbatim>\<open>reset\<close> having no \<^verbatim>\<open>try\<close>, the exception leaves it. The
  new instance holds no ROM, no frame is rendered (the canvas is as it was), and the
  status still reads as the failed load left it. So a ROM is bound, \<^verbatim>\<open>reset\<close> does not report
  \<^verbatim>\<open>No ROM loaded to reset.\<close>, and there is no cold boot. (With a retained ROM that the engine
  loads, \<open>reset_cold\<close> and \<open>reset_after_events\<close> above show the cold boot of the claim; with none,
  \<open>reset_no_rom\<close> shows the report.)
\<close>

theorem reset_throws_on_retained_rejected_rom:
  "loadedName overlapped_loads = ''game.nes''
   \<and> truthy_str (romBinRef overlapped_loads)
   \<and> romBinRef overlapped_loads = Some (map (\<lambda>byte. char_of (unat byte)) (bytes bad_nes))
   \<and> loadROM counter_nes (romBinRef overlapped_loads) (NES counter_nes)
       = (NES counter_nes, Some ''Not a valid NES ROM.'')
   \<and> reset counter_nes overlapped_loads
       = (overlapped_loads
            \<lparr>runningRef := False, rafRef := None, nesRef := Some (NES counter_nes),
             audioQRef := []\<rparr>,
          Some ''Not a valid NES ROM.'')
   \<and> nesRef (fst (reset counter_nes overlapped_loads))
       = Some \<lparr>frame_no = 0, rom = [], held = []\<rparr>
   \<and> canvasRef (fst (reset counter_nes overlapped_loads)) = canvasRef overlapped_loads
   \<and> loadedName (fst (reset counter_nes overlapped_loads)) = ''game.nes''
   \<and> status (fst (reset counter_nes overlapped_loads))
       = ''Failed to load ROM: Not a valid NES ROM.''
   \<and> status (fst (reset counter_nes overlapped_loads)) \<noteq> ''No ROM loaded to reset.''
   \<and> status (fst (reset counter_nes overlapped_loads))
       \<noteq> ''Reset complete. Click Play to start fresh.''"
proof -
  have bin: "romBinRef overlapped_loads
      = Some (map (\<lambda>byte. char_of (unat byte)) (bytes bad_nes))"
    by (rule overlapped_loads_fields(2))
  have tr: "truthy_str (romBinRef overlapped_loads)"
    unfolding bin by (simp add: bad_nes_def)
  have rej: "loadROM counter_nes (romBinRef overlapped_loads) (NES counter_nes)
      = (NES counter_nes, Some ''Not a valid NES ROM.'')"
    unfolding bin by (rule counter_rejects_bad)
  note r = reset_throws [OF tr rej]
  have fresh: "nesRef (fst (reset counter_nes overlapped_loads))
      = Some \<lparr>frame_no = 0, rom = [], held = []\<rparr>"
    unfolding r by (simp add: counter_nes_def)
  have cv: "canvasRef (fst (reset counter_nes overlapped_loads)) = canvasRef overlapped_loads"
    unfolding r by simp
  have nm: "loadedName (fst (reset counter_nes overlapped_loads)) = ''game.nes''"
    unfolding r by (simp add: overlapped_loads_fields)
  have st: "status (fst (reset counter_nes overlapped_loads))
      = ''Failed to load ROM: Not a valid NES ROM.''"
    unfolding r by (simp add: overlapped_loads_fields)
  have st1: "status (fst (reset counter_nes overlapped_loads)) \<noteq> ''No ROM loaded to reset.''"
    unfolding st by simp
  have st2: "status (fst (reset counter_nes overlapped_loads))
      \<noteq> ''Reset complete. Click Play to start fresh.''"
    unfolding st by simp
  show ?thesis
    by (intro conjI) (fact overlapped_loads_fields(1) tr bin rej r fresh cv nm st st1 st2)+
qed

text \<open>
  C6. \<^verbatim>\<open>play\<close> always begins by moving the focus to the play surface. With no loaded name
  it then only reports \<^verbatim>\<open>Load a ROM first.\<close>, running or not. With a ROM loaded it next runs
  \<^verbatim>\<open>ensureAudio\<close>, which resumes an existing audio context, or creates the context and its
  processor node, or reports that \<^verbatim>\<open>AudioContext\<close> is not supported, or throws what the
  constructor or the creation of the node throws. When the loop is already running,
  \<^verbatim>\<open>play\<close> is then done: it is \<^verbatim>\<open>ensureAudio\<close> on the session with the surface focused, so the
  run flag, the scheduled frame and the engine are untouched, and with an audio context in
  place the session changes in the focus and in the resumed context only. When the loop
  is not running and \<^verbatim>\<open>ensureAudio\<close> has returned, \<^verbatim>\<open>play\<close> sets the run flag, reports
  \<^verbatim>\<open>Playing\<close> and schedules the frame loop, whose next tick advances the engine by one
  frame, while a tick of a session that is not running does nothing; when \<^verbatim>\<open>ensureAudio\<close>
  has thrown, the exception leaves \<^verbatim>\<open>play\<close> and the loop is not started. In a browser
  without \<^verbatim>\<open>AudioContext\<close> the report that it is not supported is what a running session is
  left with, and is replaced by \<^verbatim>\<open>Playing\<close> when the session starts.
\<close>

theorem play_starts_loop:
  "(loadedName s = [] \<longrightarrow>
      play env s = (s\<lparr>surfaceFocused := True, status := ''Load a ROM first.''\<rparr>, None))
   \<and> (loadedName s \<noteq> [] \<and> runningRef s \<longrightarrow>
        play env s = ensureAudio env (s\<lparr>surfaceFocused := True\<rparr>)
        \<and> runningRef (fst (play env s)) \<and> rafRef (fst (play env s)) = rafRef s
        \<and> nesRef (fst (play env s)) = nesRef s
        \<and> (\<forall>ctx. audioCtxRef s = Some ctx \<longrightarrow>
              play env s
                = (s\<lparr>surfaceFocused := True, audioCtxRef := Some (resume env ctx)\<rparr>, None))
        \<and> (audioCtxRef s = None \<and> AudioContext env = None \<longrightarrow>
              play env s
                = (s\<lparr>surfaceFocused := True,
                      status := ''AudioContext not supported in this browser.''\<rparr>, None)))
   \<and> (loadedName s \<noteq> [] \<and> \<not> runningRef s \<longrightarrow>
        (snd (ensureAudio env (s\<lparr>surfaceFocused := True\<rparr>)) = None \<longrightarrow>
           play env s
             = ((fst (ensureAudio env (s\<lparr>surfaceFocused := True\<rparr>)))
                  \<lparr>runningRef := True,
                   status := ''Playing'' @ ellipsis @ '' (Press Enter = Start)'',
                   rafRef := Some (requestAnimationFrame env)\<rparr>,
                None))
        \<and> (\<forall>m. snd (ensureAudio env (s\<lparr>surfaceFocused := True\<rparr>)) = Some m \<longrightarrow>
              play env s = ensureAudio env (s\<lparr>surfaceFocused := True\<rparr>)
              \<and> \<not> runningRef (fst (play env s)) \<and> rafRef (fst (play env s)) = rafRef s)
        \<and> (\<forall>ctx. audioCtxRef s = None \<and> AudioContext env = Some (Returns ctx)
                   \<and> createScriptProcessor env = None \<longrightarrow>
              audioCtxRef (fst (play env s)) = Some ctx \<and> audioNodeRef (fst (play env s))
              \<and> runningRef (fst (play env s)) \<and> snd (play env s) = None)
        \<and> (\<forall>m. audioCtxRef s = None \<and> AudioContext env = Some (Throws m) \<longrightarrow>
              play env s = (s\<lparr>surfaceFocused := True\<rparr>, Some m))
        \<and> loop b env' s = (s, None)
        \<and> (\<forall>n. nesRef s = Some n \<and> snd (play env s) = None \<longrightarrow>
               nesRef (fst (loop b env' (fst (play env s)))) = Some (fst (frame b n)))
        \<and> (\<forall>ctx m. audioCtxRef s = None \<and> AudioContext env = Some (Returns ctx)
                     \<and> createScriptProcessor env = Some m \<longrightarrow>
              play env s = (s\<lparr>surfaceFocused := True, audioCtxRef := Some ctx\<rparr>, Some m))
        \<and> (audioCtxRef s = None \<and> AudioContext env = None \<longrightarrow>
              play env s
                = (s\<lparr>surfaceFocused := True, runningRef := True,
                      status := ''Playing'' @ ellipsis @ '' (Press Enter = Start)'',
                      rafRef := Some (requestAnimationFrame env)\<rparr>, None)))
   \<and> surfaceFocused (fst (play env s))"
proof -
  have a: "loadedName s = [] \<longrightarrow>
      play env s = (s\<lparr>surfaceFocused := True, status := ''Load a ROM first.''\<rparr>, None)"
    by (simp add: play_def Let_def)
  have b: "loadedName s \<noteq> [] \<and> runningRef s \<longrightarrow>
        play env s = ensureAudio env (s\<lparr>surfaceFocused := True\<rparr>)
        \<and> runningRef (fst (play env s)) \<and> rafRef (fst (play env s)) = rafRef s
        \<and> nesRef (fst (play env s)) = nesRef s
        \<and> (\<forall>ctx. audioCtxRef s = Some ctx \<longrightarrow>
              play env s
                = (s\<lparr>surfaceFocused := True, audioCtxRef := Some (resume env ctx)\<rparr>, None))
        \<and> (audioCtxRef s = None \<and> AudioContext env = None \<longrightarrow>
              play env s
                = (s\<lparr>surfaceFocused := True,
                      status := ''AudioContext not supported in this browser.''\<rparr>, None))"
    by (simp add: play_def ensureAudio_def Let_def split: option.splits outcome.splits)
  have c1: "loadedName s \<noteq> [] \<and> \<not> runningRef s \<longrightarrow>
        (snd (ensureAudio env (s\<lparr>surfaceFocused := True\<rparr>)) = None \<longrightarrow>
           play env s
             = ((fst (ensureAudio env (s\<lparr>surfaceFocused := True\<rparr>)))
                  \<lparr>runningRef := True,
                   status := ''Playing'' @ ellipsis @ '' (Press Enter = Start)'',
                   rafRef := Some (requestAnimationFrame env)\<rparr>,
                None))"
    by (simp add: play_def ensureAudio_def Let_def split: option.splits outcome.splits)
  have c2: "loadedName s \<noteq> [] \<and> \<not> runningRef s \<longrightarrow>
        (\<forall>m. snd (ensureAudio env (s\<lparr>surfaceFocused := True\<rparr>)) = Some m \<longrightarrow>
              play env s = ensureAudio env (s\<lparr>surfaceFocused := True\<rparr>)
              \<and> \<not> runningRef (fst (play env s)) \<and> rafRef (fst (play env s)) = rafRef s)"
    by (simp add: play_def ensureAudio_def Let_def split: option.splits outcome.splits)
  have c3: "loadedName s \<noteq> [] \<and> \<not> runningRef s \<longrightarrow>
        (\<forall>ctx. audioCtxRef s = None \<and> AudioContext env = Some (Returns ctx)
                   \<and> createScriptProcessor env = None \<longrightarrow>
              audioCtxRef (fst (play env s)) = Some ctx \<and> audioNodeRef (fst (play env s))
              \<and> runningRef (fst (play env s)) \<and> snd (play env s) = None)"
    by (simp add: play_def ensureAudio_def Let_def)
  have c4: "loadedName s \<noteq> [] \<and> \<not> runningRef s \<longrightarrow>
        (\<forall>m. audioCtxRef s = None \<and> AudioContext env = Some (Throws m) \<longrightarrow>
              play env s = (s\<lparr>surfaceFocused := True\<rparr>, Some m))"
    by (simp add: play_def ensureAudio_def Let_def)
  have c5: "loadedName s \<noteq> [] \<and> \<not> runningRef s \<longrightarrow> loop b env' s = (s, None)"
    by (simp add: loop_def)
  have c6: "loadedName s \<noteq> [] \<and> \<not> runningRef s \<longrightarrow>
        (\<forall>n. nesRef s = Some n \<and> snd (play env s) = None \<longrightarrow>
               nesRef (fst (loop b env' (fst (play env s)))) = Some (fst (frame b n)))"
    by (auto simp add: play_def ensureAudio_def Let_def loop_def call_frame_def fold_handle
        split: prod.splits option.splits outcome.splits)
  have c7: "loadedName s \<noteq> [] \<and> \<not> runningRef s \<longrightarrow>
        (\<forall>ctx m. audioCtxRef s = None \<and> AudioContext env = Some (Returns ctx)
                     \<and> createScriptProcessor env = Some m \<longrightarrow>
              play env s = (s\<lparr>surfaceFocused := True, audioCtxRef := Some ctx\<rparr>, Some m))"
    by (simp add: play_def ensureAudio_def Let_def)
  have c8: "loadedName s \<noteq> [] \<and> \<not> runningRef s \<longrightarrow>
        (audioCtxRef s = None \<and> AudioContext env = None \<longrightarrow>
              play env s
                = (s\<lparr>surfaceFocused := True, runningRef := True,
                      status := ''Playing'' @ ellipsis @ '' (Press Enter = Start)'',
                      rafRef := Some (requestAnimationFrame env)\<rparr>, None))"
    by (simp add: play_def ensureAudio_def Let_def)
  have d: "surfaceFocused (fst (play env s))"
    by (simp add: play_def ensureAudio_def Let_def split: option.splits outcome.splits)
  show ?thesis
    using a b c1 c2 c3 c4 c5 c6 c7 c8 d by blast
qed

text \<open>
  In a browser without \<^verbatim>\<open>AudioContext\<close>, \<^verbatim>\<open>play\<close> on a running session with a ROM loaded
  replaces the status \<^verbatim>\<open>Playing\<close> by the report that audio is not supported. And on a
  session that is still running after a file was rejected by the engine, \<^verbatim>\<open>play\<close> reports
  \<^verbatim>\<open>Load a ROM first.\<close>
\<close>

theorem play_while_running_rewrites_status:
  "loadedName playing_game = ''game.nes''
   \<and> runningRef playing_game
   \<and> status playing_game = ''Playing'' @ ellipsis @ '' (Press Enter = Start)''
   \<and> status (fst (play quiet_browser playing_game))
       = ''AudioContext not supported in this browser.''
   \<and> fst (play quiet_browser playing_game) \<noteq> playing_game
   \<and> runningRef rejected_while_playing
   \<and> status rejected_while_playing = ''Failed to load ROM: Not a valid NES ROM.''
   \<and> status (fst (play (browser []) rejected_while_playing)) = ''Load a ROM first.''
   \<and> fst (play (browser []) rejected_while_playing) \<noteq> rejected_while_playing"
proof -
  have s: "status (fst (play quiet_browser playing_game))
      = ''AudioContext not supported in this browser.''"
    by (simp add: playing_game_eq play_def ensureAudio_def quiet_browser_def browser_def
        loaded_game_fields Let_def)
  have t: "status playing_game = ''Playing'' @ ellipsis @ '' (Press Enter = Start)''"
    by (simp add: playing_game_eq)
  have "status (fst (play quiet_browser playing_game)) \<noteq> status playing_game"
    unfolding s t by simp
  then have d: "fst (play quiet_browser playing_game) \<noteq> playing_game"
    by auto
  have s': "status (fst (play (browser []) rejected_while_playing)) = ''Load a ROM first.''"
    by (simp add: play_def Let_def rejected_while_playing_fields)
  have "status (fst (play (browser []) rejected_while_playing)) \<noteq> status rejected_while_playing"
    unfolding s' rejected_while_playing_fields by simp
  then have d': "fst (play (browser []) rejected_while_playing) \<noteq> rejected_while_playing"
    by auto
  have a: "loadedName playing_game = ''game.nes'' \<and> runningRef playing_game"
    by (simp add: playing_game_eq loaded_game_fields)
  show ?thesis
    using a s t d s' d' rejected_while_playing_fields(1,3) by blast
qed

theorem play_starts_loop_witness:
  "loadedName (mounted counter_nes Map.empty) = []
   \<and> play (browser []) (mounted counter_nes Map.empty)
       = ((mounted counter_nes Map.empty)
            \<lparr>surfaceFocused := True, status := ''Load a ROM first.''\<rparr>, None)
   \<and> loadedName loaded_game \<noteq> [] \<and> \<not> runningRef loaded_game
   \<and> audioCtxRef loaded_game = None
   \<and> AudioContext (browser []) = Some (Returns Suspended)
   \<and> createScriptProcessor (browser []) = None
   \<and> snd (ensureAudio (browser []) (loaded_game\<lparr>surfaceFocused := True\<rparr>)) = None
   \<and> play (browser []) loaded_game
       = (loaded_game\<lparr>audioCtxRef := Some Suspended, audioNodeRef := True, runningRef := True,
            status := ''Playing'' @ ellipsis @ '' (Press Enter = Start)'',
            rafRef := Some 1\<rparr>, None)
   \<and> audioCtxRef (fst (play (browser []) loaded_game)) = Some Suspended
   \<and> audioNodeRef (fst (play (browser []) loaded_game))
   \<and> nesRef (fst (loop counter_nes (browser []) (fst (play (browser []) loaded_game))))
       = Some \<lparr>frame_no = 2, rom = [CHR ''N'', CHR ''E'', CHR ''S'', char_of (26::nat)],
           held = []\<rparr>
   \<and> AudioContext ((browser [])\<lparr>AudioContext := Some (Throws ''not allowed'')\<rparr>)
       = Some (Throws ''not allowed'')
   \<and> snd (ensureAudio ((browser [])\<lparr>AudioContext := Some (Throws ''not allowed'')\<rparr>)
             (loaded_game\<lparr>surfaceFocused := True\<rparr>)) = Some ''not allowed''
   \<and> play ((browser [])\<lparr>AudioContext := Some (Throws ''not allowed'')\<rparr>) loaded_game
       = (loaded_game, Some ''not allowed'')
   \<and> \<not> runningRef
         (fst (play ((browser [])\<lparr>AudioContext := Some (Throws ''not allowed'')\<rparr>) loaded_game))
   \<and> loadedName (fst (play (browser []) loaded_game)) \<noteq> []
   \<and> runningRef (fst (play (browser []) loaded_game))
   \<and> resume (browser []) Suspended = Active
   \<and> play (browser []) (fst (play (browser []) loaded_game))
       = ((fst (play (browser []) loaded_game))
            \<lparr>surfaceFocused := True, audioCtxRef := Some Active\<rparr>, None)
   \<and> createScriptProcessor ((browser [])\<lparr>createScriptProcessor := Some ''no node''\<rparr>)
       = Some ''no node''
   \<and> play ((browser [])\<lparr>createScriptProcessor := Some ''no node''\<rparr>) loaded_game
       = (loaded_game\<lparr>surfaceFocused := True, audioCtxRef := Some Suspended\<rparr>,
          Some ''no node'')
   \<and> AudioContext quiet_browser = None
   \<and> play quiet_browser loaded_game
       = (loaded_game
            \<lparr>surfaceFocused := True, runningRef := True,
             status := ''Playing'' @ ellipsis @ '' (Press Enter = Start)'',
             rafRef := Some 1\<rparr>, None)
   \<and> loadedName playing_game \<noteq> [] \<and> runningRef playing_game
   \<and> audioCtxRef playing_game = None
   \<and> play quiet_browser playing_game
       = (playing_game
            \<lparr>surfaceFocused := True,
             status := ''AudioContext not supported in this browser.''\<rparr>, None)
   \<and> surfaceFocused (fst (play (browser []) (mounted counter_nes Map.empty)))"
proof -
  let ?n = "\<lparr>frame_no = 1, rom = [CHR ''N'', CHR ''E'', CHR ''S'', char_of (26::nat)], held = []\<rparr>"
  let ?deny = "(browser [])\<lparr>AudioContext := Some (Throws ''not allowed'')\<rparr>"
  let ?p = "fst (play (browser []) loaded_game)"
  have foc: "loaded_game\<lparr>surfaceFocused := True\<rparr> = loaded_game"
    by (simp add: loaded_game_eq)
  have h0: "loadedName (mounted counter_nes Map.empty) = []"
    by (simp add: mounted_def)
  note a = play_starts_loop [where s = "mounted counter_nes Map.empty" and env = "browser []",
      THEN conjunct1, rule_format, OF h0]
  have h1: "loadedName loaded_game \<noteq> [] \<and> \<not> runningRef loaded_game"
    by (simp add: loaded_game_fields)
  have au: "audioCtxRef loaded_game = None \<and> AudioContext (browser []) = Some (Returns Suspended)
      \<and> createScriptProcessor (browser []) = None"
    by (simp add: browser_def loaded_game_fields)
  have en: "ensureAudio (browser []) (loaded_game\<lparr>surfaceFocused := True\<rparr>)
      = (loaded_game\<lparr>audioCtxRef := Some Suspended, audioNodeRef := True\<rparr>, None)"
    unfolding foc using au by (simp add: ensureAudio_def)
  have en0: "snd (ensureAudio (browser []) (loaded_game\<lparr>surfaceFocused := True\<rparr>)) = None"
    by (simp only: en snd_conv)
  note c = play_starts_loop [where s = loaded_game and env = "browser []" and b = counter_nes
      and env' = "browser []", THEN conjunct2, THEN conjunct2, THEN conjunct1, rule_format,
      OF h1]
  have raf: "requestAnimationFrame (browser []) = 1"
    by (simp add: browser_def)
  have c1: "play (browser []) loaded_game
      = (loaded_game\<lparr>audioCtxRef := Some Suspended, audioNodeRef := True, runningRef := True,
           status := ''Playing'' @ ellipsis @ '' (Press Enter = Start)'',
           rafRef := Some 1\<rparr>, None)"
    using c [THEN conjunct1, rule_format, OF en0] unfolding en raf by simp
  have c3: "audioCtxRef ?p = Some Suspended \<and> audioNodeRef ?p \<and> runningRef ?p
      \<and> snd (play (browser []) loaded_game) = None"
    using c [THEN conjunct2, THEN conjunct2, THEN conjunct1, rule_format, OF au] .
  have c6: "nesRef (fst (loop counter_nes (browser []) ?p)) = Some (fst (frame counter_nes ?n))"
    using c [THEN conjunct2, THEN conjunct2, THEN conjunct2, THEN conjunct2, THEN conjunct2,
        THEN conjunct1, rule_format, of ?n] c3 loaded_game_fields(2) by blast
  have c6': "nesRef (fst (loop counter_nes (browser []) ?p))
      = Some \<lparr>frame_no = 2, rom = [CHR ''N'', CHR ''E'', CHR ''S'', char_of (26::nat)],
          held = []\<rparr>"
    unfolding c6 by (simp add: counter_frame_eq)
  have dn: "AudioContext ?deny = Some (Throws ''not allowed'')"
    by simp
  have den: "ensureAudio ?deny (loaded_game\<lparr>surfaceFocused := True\<rparr>)
      = (loaded_game, Some ''not allowed'')"
    unfolding foc using au by (simp add: ensureAudio_def)
  have den0: "snd (ensureAudio ?deny (loaded_game\<lparr>surfaceFocused := True\<rparr>))
      = Some ''not allowed''"
    by (simp only: den snd_conv)
  note c' = play_starts_loop [where s = loaded_game and env = ?deny and b = counter_nes
      and env' = "browser []", THEN conjunct2, THEN conjunct2, THEN conjunct1, rule_format,
      OF h1]
  have c2: "play ?deny loaded_game = (loaded_game, Some ''not allowed'')
      \<and> \<not> runningRef (fst (play ?deny loaded_game))"
    using c' [THEN conjunct2, THEN conjunct1, rule_format, OF den0] h1 unfolding den by simp
  have h2: "loadedName ?p \<noteq> [] \<and> runningRef ?p"
    unfolding c1 using h1 by simp
  have ctx: "audioCtxRef ?p = Some Suspended"
    using c3 by blast
  have res: "resume (browser []) Suspended = Active"
    by (simp add: browser_def)
  note b = play_starts_loop [where s = ?p and env = "browser []",
      THEN conjunct2, THEN conjunct1, rule_format, OF h2]
  have b1: "play (browser []) ?p
      = (?p\<lparr>surfaceFocused := True, audioCtxRef := Some Active\<rparr>, None)"
    using b [THEN conjunct2, THEN conjunct2, THEN conjunct2, THEN conjunct2, THEN conjunct1,
        rule_format, OF ctx]
    unfolding res .
  let ?nonode = "(browser [])\<lparr>createScriptProcessor := Some ''no node''\<rparr>"
  have nn: "createScriptProcessor ?nonode = Some ''no node''"
    by simp
  have hn: "audioCtxRef loaded_game = None \<and> AudioContext ?nonode = Some (Returns Suspended)
      \<and> createScriptProcessor ?nonode = Some ''no node''"
    by (simp add: browser_def loaded_game_fields)
  note cn = play_starts_loop [where s = loaded_game and env = ?nonode and b = counter_nes
      and env' = "browser []", THEN conjunct2, THEN conjunct2, THEN conjunct1, rule_format,
      OF h1]
  have c7: "play ?nonode loaded_game
      = (loaded_game\<lparr>surfaceFocused := True, audioCtxRef := Some Suspended\<rparr>,
         Some ''no node'')"
    using cn [THEN conjunct2, THEN conjunct2, THEN conjunct2, THEN conjunct2, THEN conjunct2,
        THEN conjunct2, THEN conjunct1, rule_format, OF hn] .
  have q: "AudioContext quiet_browser = None"
    by (simp add: quiet_browser_def)
  have hq: "audioCtxRef loaded_game = None \<and> AudioContext quiet_browser = None"
    using q by (simp add: loaded_game_fields)
  have rafq: "requestAnimationFrame quiet_browser = 1"
    by (simp add: quiet_browser_def browser_def)
  note cq = play_starts_loop [where s = loaded_game and env = quiet_browser and b = counter_nes
      and env' = "browser []", THEN conjunct2, THEN conjunct2, THEN conjunct1, rule_format,
      OF h1]
  have c8: "play quiet_browser loaded_game
      = (loaded_game
           \<lparr>surfaceFocused := True, runningRef := True,
            status := ''Playing'' @ ellipsis @ '' (Press Enter = Start)'',
            rafRef := Some 1\<rparr>, None)"
    using cq [THEN conjunct2, THEN conjunct2, THEN conjunct2, THEN conjunct2, THEN conjunct2,
        THEN conjunct2, THEN conjunct2, rule_format, OF hq]
    unfolding rafq .
  have hp: "loadedName playing_game \<noteq> [] \<and> runningRef playing_game"
    by (simp add: playing_game_eq loaded_game_fields)
  have hpq: "audioCtxRef playing_game = None \<and> AudioContext quiet_browser = None"
    using q by (simp add: playing_game_eq loaded_game_fields)
  note bq = play_starts_loop [where s = playing_game and env = quiet_browser,
      THEN conjunct2, THEN conjunct1, rule_format, OF hp]
  have b2: "play quiet_browser playing_game
      = (playing_game
           \<lparr>surfaceFocused := True,
            status := ''AudioContext not supported in this browser.''\<rparr>, None)"
    using bq [THEN conjunct2, THEN conjunct2, THEN conjunct2, THEN conjunct2, THEN conjunct2,
        rule_format, OF hpq] .
  have d: "surfaceFocused (fst (play (browser []) (mounted counter_nes Map.empty)))"
    using play_starts_loop [where s = "mounted counter_nes Map.empty" and env = "browser []",
        THEN conjunct2, THEN conjunct2, THEN conjunct2] .
  show ?thesis
    by (intro conjI)
      (use h0 a h1 au en0 c1 c3 c6' dn den0 c2 h2 res b1 nn c7 q c8 hp hpq b2 d
        in \<open>blast+\<close>)
qed

section \<open>Claims about the video sink and the audio sample queue\<close>

text \<open>
  C9. For a frame buffer of \<open>W \<times> H\<close> packed 32-bit pixels and the \<open>W \<times> H \<times> 4\<close> bytes of the
  canvas image, \<^verbatim>\<open>onFrame\<close> writes for every pixel \<open>i\<close> its red, green and blue bytes at
  \<open>4i\<close>, \<open>4i + 1\<close>, \<open>4i + 2\<close> and the opaque alpha \<open>0xff\<close> at \<open>4i + 3\<close>. With the flag set,
  as \<^verbatim>\<open>USE_ABGR\<close> is, red is the lowest byte of the pixel and blue is bits 16 to 23; with the
  flag cleared red is bits 16 to 23 and blue the lowest byte. Green is bits 8 to 15 in both.
\<close>

theorem onFrame_writes_rgba_opaque:
  assumes "length frameBuffer = W * H" and "length data = W * H * 4" and "i < W * H"
  shows "(\<exists>out. onFrame frameBuffer (Some data) = Some out
            \<and> length out = W * H * 4
            \<and> out ! (4 * i) = ucast (frameBuffer ! i)
            \<and> out ! (4 * i + 1) = ucast (drop_bit 8 (frameBuffer ! i))
            \<and> out ! (4 * i + 2) = ucast (drop_bit 16 (frameBuffer ! i))
            \<and> out ! (4 * i + 3) = 0xff)
       \<and> length (onFrame_loop abgr frameBuffer 0 data) = W * H * 4
       \<and> onFrame_loop abgr frameBuffer 0 data ! (4 * i)
           = (if abgr then ucast (frameBuffer ! i) else ucast (drop_bit 16 (frameBuffer ! i)))
       \<and> onFrame_loop abgr frameBuffer 0 data ! (4 * i + 1)
           = ucast (drop_bit 8 (frameBuffer ! i))
       \<and> onFrame_loop abgr frameBuffer 0 data ! (4 * i + 2)
           = (if abgr then ucast (drop_bit 16 (frameBuffer ! i)) else ucast (frameBuffer ! i))
       \<and> onFrame_loop abgr frameBuffer 0 data ! (4 * i + 3) = 0xff"
proof -
  have i: "i < length frameBuffer" using assms(1,3) by simp
  have l: "length data = 4 * length frameBuffer" using assms(1,2) by simp
  have c0: "onFrame_loop a frameBuffer 0 data ! (4 * i) = channel a (frameBuffer ! i) 0" for a
    using onFrame_loop_pixel [OF i l, of 0 a] by simp
  have c1: "onFrame_loop a frameBuffer 0 data ! (4 * i + 1) = channel a (frameBuffer ! i) 1"
    for a
    using onFrame_loop_pixel [OF i l, of 1 a] by simp
  have c2: "onFrame_loop a frameBuffer 0 data ! (4 * i + 2) = channel a (frameBuffer ! i) 2"
    for a
    using onFrame_loop_pixel [OF i l, of 2 a] by simp
  have c3: "onFrame_loop a frameBuffer 0 data ! (4 * i + 3) = channel a (frameBuffer ! i) 3"
    for a
    using onFrame_loop_pixel [OF i l, of 3 a] by simp
  have len: "length (onFrame_loop a frameBuffer 0 data) = W * H * 4" for a
    using assms(2) by (simp add: length_onFrame_loop)
  show ?thesis
    using c0 [of abgr] c1 [of abgr] c2 [of abgr] c3 [of abgr] len [of abgr]
      c0 [of True] c1 [of True] c2 [of True] c3 [of True] len [of True]
    by (simp add: onFrame_def USE_ABGR_def channel_def)
qed

theorem onFrame_writes_rgba_opaque_witness:
  "length (replicate (W * H) (0x112233 :: 32 word)) = W * H
   \<and> length (replicate (W * H * 4) (0 :: 8 word)) = W * H * 4
   \<and> 0 < W * H
   \<and> (\<exists>out. onFrame (replicate (W * H) 0x112233) (Some (replicate (W * H * 4) 0)) = Some out
         \<and> length out = W * H * 4
         \<and> out ! (4 * 0) = 0x33 \<and> out ! (4 * 0 + 1) = 0x22 \<and> out ! (4 * 0 + 2) = 0x11
         \<and> out ! (4 * 0 + 3) = 0xff)"
proof -
  have pos: "0 < W * H" by (simp add: W_def H_def)
  have l1: "length (replicate (W * H) (0x112233 :: 32 word)) = W * H" by simp
  have l2: "length (replicate (W * H * 4) (0 :: 8 word)) = W * H * 4" by simp
  have px: "replicate (W * H) (0x112233 :: 32 word) ! 0 = 0x112233"
    using pos by (rule nth_replicate)
  have b0: "(ucast (0x112233 :: 32 word) :: 8 word) = 0x33" by simp
  have b1: "(ucast (drop_bit 8 (0x112233 :: 32 word)) :: 8 word) = 0x22" by simp
  have b2: "(ucast (drop_bit 16 (0x112233 :: 32 word)) :: 8 word) = 0x11" by simp
  note t = onFrame_writes_rgba_opaque [OF l1 l2 pos, of True, THEN conjunct1]
  show ?thesis
    using t unfolding px b0 b1 b2 using l1 l2 pos by blast
qed

text \<open>
  C3. After an enqueue the queue never holds more than \<open>2 \<times> 44100 = 88200\<close> samples,
  whatever it held before, so the bound holds after each enqueue of every sequence of
  enqueues. An enqueue that would go beyond the cap leaves exactly 88200 samples: the
  newest ones, the oldest having been dropped. A burst of at least 44100 pairs into any
  queue therefore ends at exactly the cap. The queue of the component, which is filled by
  the frames of the engine only, stays within the cap after every run of events from
  mounting on.
\<close>

theorem audio_queue_never_exceeds_cap:
  "length (onAudioSample l r q) \<le> 2 * 44100
   \<and> (2 * 44100 < length q + 2 \<longrightarrow>
        length (onAudioSample l r q) = 2 * 44100
        \<and> onAudioSample l r q = drop (length q + 2 - 2 * 44100) (q @ [l, r]))
   \<and> (length q + 2 \<le> 2 * 44100 \<longrightarrow> onAudioSample l r q = q @ [l, r])
   \<and> (\<forall>q' \<in> set (queue_trace (map (\<lambda>(l, r). Enqueue l r) ps) q0). length q' \<le> 2 * 44100)
   \<and> (44100 \<le> length ps \<longrightarrow>
        length (queue_run (map (\<lambda>(l, r). Enqueue l r) ps) q0) = 2 * 44100)
   \<and> length (audioQRef (run b evs (mounted b store))) \<le> 2 * 44100"
proof -
  have burst: "length (queue_run (map (\<lambda>(l, r). Enqueue l r) ps) q0) = 2 * 44100"
    if "44100 \<le> length ps"
  proof -
    from that have "ps \<noteq> []" by auto
    then show ?thesis using that by (simp add: length_enqueue_run)
  qed
  show ?thesis
    using burst cap_enqueue_trace [of _ ps q0] run_mounted_ok [of b evs store]
    by (auto simp add: length_onAudioSample onAudioSample_keeps_newest
        onAudioSample_no_overflow)
qed

theorem audio_queue_never_exceeds_cap_witness:
  "2 * 44100 < length (replicate 88200 (0::real)) + 2
   \<and> length (onAudioSample 1 2 (replicate 88200 (0::real))) = 2 * 44100
   \<and> length ([] :: real list) + 2 \<le> 2 * 44100
   \<and> onAudioSample 1 2 ([] :: real list) = [1, 2]
   \<and> 44100 \<le> length (replicate 441000 (1::real, 2::real))
   \<and> length (queue_run (map (\<lambda>(l, r). Enqueue l r) (replicate 441000 (1::real, 2::real))) [])
       = 2 * 44100
   \<and> length
         (audioQRef
            (run counter_nes
               [(browser [], LoadRom (Some game_nes)), (browser [], Play), (browser [], Tick)]
               (mounted counter_nes Map.empty))) \<le> 2 * 44100"
proof -
  have h1: "2 * 44100 < length (replicate 88200 (0::real)) + 2"
    by (simp only: length_replicate; simp)
  have h2: "length ([] :: real list) + 2 \<le> 2 * 44100"
    by simp
  have h3: "44100 \<le> length (replicate 441000 (1::real, 2::real))"
    by (simp only: length_replicate; simp)
  have t1: "length (onAudioSample 1 2 (replicate 88200 (0::real))) = 2 * 44100"
    using audio_queue_never_exceeds_cap [of 1 2 "replicate 88200 (0::real)" "[]" "[]"] h1
    by blast
  have "onAudioSample 1 2 ([] :: real list) = [] @ [1, 2]"
    using audio_queue_never_exceeds_cap [of 1 2 "[] :: real list" "[]" "[]"] h2
    by blast
  then have t2: "onAudioSample 1 2 ([] :: real list) = [1, 2]"
    by (simp only: append_Nil)
  have t3: "length (queue_run (map (\<lambda>(l, r). Enqueue l r) (replicate 441000 (1::real, 2::real))) [])
       = 2 * 44100"
    using audio_queue_never_exceeds_cap
      [of 1 2 "[] :: real list" "replicate 441000 (1::real, 2)" "[]"] h3
    by blast
  have t4: "length
         (audioQRef
            (run counter_nes
               [(browser [], LoadRom (Some game_nes)), (browser [], Play), (browser [], Tick)]
               (mounted counter_nes Map.empty))) \<le> 2 * 44100"
    by (rule audio_queue_never_exceeds_cap
      [where b = counter_nes and store = Map.empty
        and evs = "[(browser [], LoadRom (Some game_nes)), (browser [], Play),
          (browser [], Tick)]" and q = "[] :: real list" and ?q0.0 = "[] :: real list",
        THEN conjunct2, THEN conjunct2, THEN conjunct2, THEN conjunct2, THEN conjunct2])
  show ?thesis
    using h1 h2 h3 t1 t2 t3 t4 by blast
qed

text \<open>
  C10. The length of the audio sample queue stays even: an enqueue adds one left/right
  pair and trims an even number of the oldest samples, the consumer fills every output
  frame, taking samples off in pairs and writing silence, with the queue left alone, when
  fewer than two remain, and a clear leaves the empty queue. So after any sequence of these operations on the empty queue, and
  at every point of it, the length is even. The component touches its queue in these
  ways only, whatever the events (loading, playing, ticks, reset, loading a save, the
  audio callback, unmounting): after every run of events from mounting on, the length of
  its queue is even.
\<close>

theorem audio_queue_length_even:
  "(even (length (q :: 'a::zero list)) \<longrightarrow>
      even (length (onAudioSample l r q))
      \<and> even (length (q @ [l, r]) - length (onAudioSample l r q))
      \<and> even (length (fst (onaudioprocess n q)))
      \<and> even (length q - length (fst (onaudioprocess n q))))
   \<and> length (fst (snd (onaudioprocess n q))) = n
   \<and> length (snd (snd (onaudioprocess n q))) = n
   \<and> (length q < 2 \<longrightarrow> onaudioprocess n q = (q, replicate n 0, replicate n 0))
   \<and> queue_step Clear q = []
   \<and> even (length (queue_run ops ([] :: 'a list)))
   \<and> (\<forall>q' \<in> set (queue_trace ops ([] :: 'a list)). even (length q'))
   \<and> even (length (audioQRef (run b evs (mounted b store))))"
proof -
  have trim: "even (length (q @ [l, r]) - length (onAudioSample l r q))" if "even (length q)"
    using that by (simp add: length_onAudioSample min_def)
  have pull: "even (length q - length (fst (onaudioprocess n q)))"
    by (simp add: length_onaudioprocess)
  have run: "even (length (queue_run ops ([] :: 'a list)))"
    by (rule even_queue_run) simp
  have trace: "even (length q')" if "q' \<in> set (queue_trace ops ([] :: 'a list))" for q'
    using that by (rule even_queue_trace [rotated]) simp
  show ?thesis
    using trim pull run trace run_mounted_ok [of b evs store]
    by (simp add: even_onAudioSample even_onaudioprocess onaudioprocess_silence
        onaudioprocess_outputs)
qed

theorem audio_queue_length_even_witness:
  "even (length [0.5, 0.25 :: real])
   \<and> even (length (onAudioSample 1 2 [0.5, 0.25 :: real]))
   \<and> even (length (fst (onaudioprocess 1024 [0.5, 0.25 :: real])))
   \<and> length [0.5 :: real] < 2
   \<and> onaudioprocess 3 [0.5 :: real] = ([0.5], replicate 3 0, replicate 3 0)
   \<and> even (length (queue_run [Enqueue 1 2, Enqueue 3 4, Pull 1, Clear, Enqueue 5 6]
         ([] :: real list)))
   \<and> even (length
         (audioQRef
            (run counter_nes
               [(browser [], LoadRom (Some game_nes)), (browser [], Play), (browser [], Tick),
                (browser [], AudioProcess 1024), (browser [], Reset)]
               (mounted counter_nes Map.empty))))"
proof -
  have h1: "even (length [0.5, 0.25 :: real])" by simp
  have h2: "length [0.5 :: real] < 2" by simp
  note t1 = audio_queue_length_even [of "[0.5, 0.25 :: real]" 1 2 1024 "[]"]
  note t2 = audio_queue_length_even [of "[0.5 :: real]" 1 2 3
      "[Enqueue 1 2, Enqueue 3 4, Pull 1, Clear, Enqueue 5 6]"]
  note t3 = audio_queue_length_even [where q = "[] :: real list" and b = counter_nes
      and store = Map.empty
      and evs = "[(browser [], LoadRom (Some game_nes)), (browser [], Play), (browser [], Tick),
        (browser [], AudioProcess 1024), (browser [], Reset)]",
      THEN conjunct2, THEN conjunct2, THEN conjunct2, THEN conjunct2, THEN conjunct2,
      THEN conjunct2, THEN conjunct2]
  show ?thesis
    using h1 h2 t1 t2 t3 by blast
qed

end
